(* ===== verification/Prelude.thy ===== *)
theory Prelude
  imports Complex_Main "HOL-Library.AList" "HOL-Library.Sublist"
begin

text \<open>
  Shared vocabulary of the development. JavaScript numbers that the code uses as
  integers (points, XP, levels, seconds, indices compared against lengths) are
  modelled as \<open>int\<close>; rational quantities (amounts in rupees, CO2 in kg) as \<open>rat\<close>.
  A field that may be \<open>undefined\<close> or \<open>null\<close> in a JSON document is an \<open>option\<close>,
  and the idiom \<open>x || 0\<close> of the code is \<open>or_zero\<close>. The collections
  \<open>handler_defs\<close> and \<open>inv_simps\<close> gather the definitions of the handlers and the
  unfolded invariants that the component proofs pass to the simplifier.
\<close>

named_theorems handler_defs "definitions of the modelled handlers and helpers"
named_theorems inv_simps "facts that unfold the invariants of the components"

type_synonym js_int = int
type_synonym uid = string

text \<open>The decimal text of a number, as a template literal \<open>`${n}`\<close> prints an integer.\<close>

definition digit_chars :: string where
  "digit_chars = ''0123456789''"

fun nat_to_string :: "nat \<Rightarrow> string" where
  "nat_to_string n =
     (if n < 10 then [digit_chars ! n] else nat_to_string (n div 10) @ [digit_chars ! (n mod 10)])"

definition int_to_string :: "int \<Rightarrow> string" where
  "int_to_string i = (if i < 0 then CHR ''-'' # nat_to_string (nat (- i)) else nat_to_string (nat i))"

declare nat_to_string.simps [simp del]

text \<open>
  An object spread \<open>{...a, ...b}\<close> takes a field from \<open>b\<close> when \<open>b\<close> has it.
\<close>

definition spread_field :: "'a option \<Rightarrow> 'a \<Rightarrow> 'a" where
  "spread_field u v = (case u of None \<Rightarrow> v | Some x \<Rightarrow> x)"

text \<open>
  \<open>Array.prototype.sort(cmp)\<close>. ECMAScript 2019 requires the sort to be stable, and
  for a consistent comparator a stable sort has one result; this insertion sort computes
  it: each element, taken in order, is placed after every element it does not precede
  (\<open>cmp x y < 0\<close> means \<open>x\<close> goes first).
\<close>

fun js_insert :: "('a \<Rightarrow> 'a \<Rightarrow> int) \<Rightarrow> 'a \<Rightarrow> 'a list \<Rightarrow> 'a list" where
  "js_insert cmp x [] = [x]"
| "js_insert cmp x (y # ys) = (if cmp x y < 0 then x # y # ys else y # js_insert cmp x ys)"

definition js_sort :: "('a \<Rightarrow> 'a \<Rightarrow> int) \<Rightarrow> 'a list \<Rightarrow> 'a list" where
  "js_sort cmp xs = foldl (\<lambda>acc x. js_insert cmp x acc) [] xs"

definition or_zero :: "int option \<Rightarrow> int" where
  "or_zero x = (case x of None \<Rightarrow> 0 | Some v \<Rightarrow> v)"

text \<open>
  \<open>Number.prototype.toFixed(0)\<close> on a finite number: the integer nearest to it, a tie
  going away from zero (the magnitude is rounded half up and the sign put back).
\<close>

definition toFixed0 :: "rat \<Rightarrow> int" where
  "toFixed0 q = (if 0 \<le> q then \<lfloor>q + 1 / 2\<rfloor> else - \<lfloor>- q + 1 / 2\<rfloor>)"

text \<open>JavaScript's \<open>%\<close>: the remainder takes the sign of the dividend.\<close>

definition js_rem :: "int \<Rightarrow> int \<Rightarrow> int" where
  "js_rem a b = (if 0 \<le> a then a mod b else - ((- a) mod b))"

lemma spread_field_simps [simp]:
  "spread_field None v = v"
  "spread_field (Some x) v = x"
  by (simp_all add: spread_field_def)

lemma or_zero_simps [simp]:
  "or_zero None = 0"
  "or_zero (Some v) = v"
  by (simp_all add: or_zero_def)

lemma nat_to_string_digits: "set (nat_to_string n) \<subseteq> set digit_chars"
proof (induction n rule: nat_to_string.induct)
  case (1 n)
  have "digit_chars ! (n mod 10) \<in> set digit_chars"
    by (rule nth_mem) (simp add: digit_chars_def)
  moreover have "n < 10 \<Longrightarrow> digit_chars ! n \<in> set digit_chars"
    by (rule nth_mem) (simp add: digit_chars_def)
  ultimately show ?case using 1
    by (subst nat_to_string.simps) auto
qed

lemma colon_not_in_int_to_string: "CHR '':'' \<notin> set (int_to_string i)"
proof -
  have "CHR '':'' \<notin> set digit_chars" by (simp add: digit_chars_def)
  then show ?thesis
    using nat_to_string_digits by (auto simp: int_to_string_def)
qed

subsection \<open>Sums over index ranges\<close>

text \<open>
  A sum over the indices \<open>[0..<n]\<close> changes by exactly the change of one summand when
  the summand function changes at one index below \<open>n\<close>. The score invariant of the
  quiz uses it for the answer just recorded.
\<close>

lemma sum_list_upt_point_update:
  fixes f g :: "nat \<Rightarrow> 'a::ab_group_add"
  assumes "c < n" and "\<And>i. i \<noteq> c \<Longrightarrow> g i = f i"
  shows "(\<Sum>i\<leftarrow>[0..<n]. g i) = (\<Sum>i\<leftarrow>[0..<n]. f i) + (g c - f c)"
  using assms(1)
proof (induction n)
  case 0
  then show ?case by simp
next
  case (Suc n)
  show ?case
  proof (cases "c = n")
    case True
    have "(\<Sum>i\<leftarrow>[0..<n]. g i) = (\<Sum>i\<leftarrow>[0..<n]. f i)"
      using True assms(2) by (intro arg_cong[where f = sum_list] map_cong) auto
    with True show ?thesis by (simp add: algebra_simps)
  next
    case False
    with Suc have "(\<Sum>i\<leftarrow>[0..<n]. g i) = (\<Sum>i\<leftarrow>[0..<n]. f i) + (g c - f c)"
      by simp
    with False assms(2) show ?thesis by (simp add: algebra_simps)
  qed
qed

lemma length_filter_upt_point_update:
  assumes "c < n" and "\<And>i. i \<noteq> c \<Longrightarrow> Q i = P i" and "\<not> P c"
  shows "length (filter Q [0..<n]) = length (filter P [0..<n]) + (if Q c then 1 else 0)"
  using assms(1)
proof (induction n)
  case 0
  then show ?case by simp
next
  case (Suc n)
  show ?case
  proof (cases "c = n")
    case True
    have "filter Q [0..<n] = filter P [0..<n]"
      using True assms(2) by (intro filter_cong) auto
    with True assms(3) show ?thesis by simp
  next
    case False
    with Suc assms(2) show ?thesis by simp
  qed
qed

lemma toFixed0_nearest: "\<bar>q - of_int (toFixed0 q)\<bar> \<le> 1 / 2"
proof (cases "0 \<le> q")
  case True
  have "of_int \<lfloor>q + 1 / 2\<rfloor> \<le> q + 1 / 2" "q + 1 / 2 < of_int \<lfloor>q + 1 / 2\<rfloor> + 1"
    using floor_correct[of "q + 1 / 2"] by simp_all
  then show ?thesis by (simp only: toFixed0_def if_P[OF True] abs_le_iff) linarith
next
  case False
  have "of_int \<lfloor>- q + 1 / 2\<rfloor> \<le> - q + 1 / 2" "- q + 1 / 2 < of_int \<lfloor>- q + 1 / 2\<rfloor> + 1"
    using floor_correct[of "- q + 1 / 2"] by simp_all
  then show ?thesis by (simp only: toFixed0_def if_not_P[OF False] abs_le_iff) linarith
qed

lemma foldl_if_add:
  "foldl (\<lambda>sum x. if P x then sum + f x else sum) a xs = a + sum_list (map f (filter P xs))"
  by (induction xs arbitrary: a) (simp_all add: add.assoc)

lemma foldl_add:
  "foldl (\<lambda>sum x. sum + f x) a xs = a + sum_list (map f xs)"
  by (induction xs arbitrary: a) (simp_all add: add.assoc)

end
