(* ===== verification/Quiz.thy ===== *)
theory Quiz
  imports Prelude
begin

text \<open>
  The quiz component \<open>QuizModal\<close> of \<open>src/QuizModal.tsx\<close>. Its React state (the
  \<open>useState\<close> hooks of lines 39--47) is the record \<open>quiz_state\<close>; its props
  \<open>questions\<close> are a \<open>question list\<close> passed to every operation. Each event handler
  is one definition with the source's name: \<open>handleAnswerSelect\<close>,
  \<open>handleNextQuestion\<close>, \<open>completeQuiz\<close>, \<open>handleTimeUp\<close>, \<open>handleRestart\<close>,
  the interval callback \<open>tick\<close> and the two \<open>useEffect\<close> bodies. A handler
  returns the new state and the list of \<open>onComplete(score, totalXP)\<close> calls it
  schedules. \<open>quiz_step\<close> is one user or timer event: the event is possible only when
  the control that raises it is rendered and enabled (\<open>quiz_enabled\<close>, from the
  JSX), the handler runs, and then the timer effect runs when its dependencies changed,
  as React does after the re-render.
\<close>

subsection \<open>Data\<close>

datatype difficulty = Easy | Medium | Hard

record question =
  qid :: js_int
  question_text :: string
  options :: "string list"
  correctAnswer :: js_int
  explanation :: string
  difficulty :: difficulty
  points :: js_int

record quiz_state =
  currentQuestionIndex :: nat
  selectedAnswers :: "nat \<rightharpoonup> js_int"
  showExplanation :: bool
  quizCompleted :: bool
  timeLeft :: js_int
  timerActive :: bool
  score :: js_int
  streak :: js_int
  perfectAnswers :: js_int

text \<open>The values of the \<open>useState\<close> initialisers.\<close>

definition initial_quiz :: quiz_state where
  "initial_quiz =
     \<lparr>currentQuestionIndex = 0, selectedAnswers = Map.empty, showExplanation = False,
      quizCompleted = False, timeLeft = 300, timerActive = False, score = 0, streak = 0,
      perfectAnswers = 0\<rparr>"

text \<open>\<open>questions[currentQuestionIndex]\<close>: \<open>undefined\<close> beyond the end of the array.\<close>

definition currentQuestion :: "question list \<Rightarrow> quiz_state \<Rightarrow> question option" where
  "currentQuestion qs s =
     (if currentQuestionIndex s < length qs then Some (qs ! currentQuestionIndex s) else None)"

text \<open>Reading a field of \<open>undefined\<close> throws a \<open>TypeError\<close>.\<close>

datatype quiz_error = TypeError

subsection \<open>Handlers\<close>

definition handleAnswerSelect ::
  "question list \<Rightarrow> js_int \<Rightarrow> quiz_state \<Rightarrow> quiz_error + quiz_state" where
  "handleAnswerSelect qs answerIndex s =
     (if showExplanation s then Inr s
      else case currentQuestion qs s of
        None \<Rightarrow> Inl TypeError
      | Some q \<Rightarrow>
          (let s1 = s\<lparr>selectedAnswers := (selectedAnswers s)(currentQuestionIndex s \<mapsto> answerIndex),
                      showExplanation := True\<rparr>
           in if answerIndex = correctAnswer q then
                Inr (s1\<lparr>score := score s + points q, streak := streak s + 1,
                        perfectAnswers :=
                          (if timeLeft s > 240 then perfectAnswers s + 1 else perfectAnswers s)\<rparr>)
              else Inr (s1\<lparr>streak := 0\<rparr>)))"

text \<open>
  The bonus of \<open>completeQuiz\<close>, accumulated in the order of the source
  (\<open>let bonusXP = 0\<close> and three conditional increments), and the reported total.
\<close>

definition bonusXP :: "question list \<Rightarrow> quiz_state \<Rightarrow> js_int" where
  "bonusXP qs s =
     (let b0 = 0;
          b1 = (if perfectAnswers s = int (length qs) then b0 + 100 else b0);
          b2 = (if timeLeft s > 150 then b1 + 50 else b1);
          b3 = (if streak s \<ge> 3 then b2 + 25 * streak s else b2)
      in b3)"

definition totalXP :: "question list \<Rightarrow> quiz_state \<Rightarrow> js_int" where
  "totalXP qs s = score s + bonusXP qs s"

definition completeQuiz ::
  "question list \<Rightarrow> quiz_state \<Rightarrow> quiz_state \<times> (js_int \<times> js_int) list" where
  "completeQuiz qs s =
     (s\<lparr>quizCompleted := True, timerActive := False\<rparr>, [(score s, totalXP qs s)])"

definition handleNextQuestion ::
  "question list \<Rightarrow> quiz_state \<Rightarrow> quiz_state \<times> (js_int \<times> js_int) list" where
  "handleNextQuestion qs s =
     (if int (currentQuestionIndex s) < int (length qs) - 1
      then (s\<lparr>currentQuestionIndex := Suc (currentQuestionIndex s), showExplanation := False\<rparr>, [])
      else completeQuiz qs s)"

definition handleTimeUp ::
  "question list \<Rightarrow> quiz_state \<Rightarrow> quiz_state \<times> (js_int \<times> js_int) list" where
  "handleTimeUp qs s =
     (let s1 = s\<lparr>timerActive := False\<rparr>
      in if \<not> quizCompleted s then completeQuiz qs s1 else (s1, []))"

definition handleRestart :: "quiz_state \<Rightarrow> quiz_state" where
  "handleRestart s =
     s\<lparr>currentQuestionIndex := 0, selectedAnswers := Map.empty, showExplanation := False,
       quizCompleted := False, timeLeft := 300, timerActive := True, score := 0, streak := 0,
       perfectAnswers := 0\<rparr>"

text \<open>The \<open>setInterval\<close> callback: \<open>setTimeLeft(prev => prev - 1)\<close>.\<close>

definition tick :: "quiz_state \<Rightarrow> quiz_state" where
  "tick s = s\<lparr>timeLeft := timeLeft s - 1\<rparr>"

text \<open>The effect on \<open>[isOpen]\<close>, run when the modal opens.\<close>

definition openEffect :: "quiz_state \<Rightarrow> quiz_state" where
  "openEffect s = (if \<not> timerActive s then s\<lparr>timerActive := True\<rparr> else s)"

text \<open>
  The effect on \<open>[timerActive, timeLeft, quizCompleted]\<close>: either an interval is
  scheduled (the state is unchanged; \<open>Tick\<close> events become possible) or, at zero,
  \<open>handleTimeUp\<close> runs.
\<close>

definition timerEffect ::
  "question list \<Rightarrow> quiz_state \<Rightarrow> quiz_state \<times> (js_int \<times> js_int) list" where
  "timerEffect qs s =
     (if timerActive s \<and> timeLeft s > 0 \<and> \<not> quizCompleted s then (s, [])
      else if timeLeft s = 0 then handleTimeUp qs s
      else (s, []))"

definition timer_deps :: "quiz_state \<Rightarrow> bool \<times> js_int \<times> bool" where
  "timer_deps s = (timerActive s, timeLeft s, quizCompleted s)"

text \<open>
  After a render React runs the timer effect when one of its dependencies changed; the
  effect's own state updates cause another render, and so on until the dependencies are
  stable. \<open>settle\<close> is that loop, with fuel: each round is one render. Two rounds are
  always enough (\<open>settle_enough\<close> in \<open>Quiz_Invariants\<close>): after a time-up completion
  the second run of the effect finds the quiz completed and changes nothing.
  \<open>rerender\<close> gives it three.
\<close>

fun settle ::
  "nat \<Rightarrow> question list \<Rightarrow> quiz_state \<Rightarrow> quiz_state \<Rightarrow> quiz_state \<times> (js_int \<times> js_int) list" where
  "settle 0 qs old new = (new, [])"
| "settle (Suc n) qs old new =
     (if timer_deps old = timer_deps new then (new, [])
      else (let (s1, o1) = timerEffect qs new; (s2, o2) = settle n qs new s1 in (s2, o1 @ o2)))"

definition rerender ::
  "question list \<Rightarrow> quiz_state \<Rightarrow> quiz_state \<Rightarrow> quiz_state \<times> (js_int \<times> js_int) list" where
  "rerender qs old new = settle 3 qs old new"

text \<open>
  The "Correct" figure of the results screen (line 342):
  \<open>selectedAnswers.filter((answer, index) => answer === questions[index]?.correctAnswer).length\<close>.
  Holes of the sparse array are skipped by \<open>filter\<close>, and an index beyond the
  questions compares a number with \<open>undefined\<close>, so only the indices of the questions
  can count.
\<close>

definition correct_count :: "question list \<Rightarrow> (nat \<rightharpoonup> js_int) \<Rightarrow> nat" where
  "correct_count qs ans =
     length (filter (\<lambda>i. ans i = Some (correctAnswer (qs ! i))) [0..<length qs])"

subsection \<open>Events\<close>

datatype quiz_event = Opened | Tick | SelectAnswer js_int | NextQuestion | Restart

text \<open>
  When each event can happen: the interval exists only while the timer effect scheduled
  it; an option button is rendered while the quiz is running and a question is shown, and
  is \<open>disabled\<close> once the explanation is shown; the next button is rendered with the
  explanation; the retake button only on the results screen.
\<close>

fun quiz_enabled :: "question list \<Rightarrow> quiz_state \<Rightarrow> quiz_event \<Rightarrow> bool" where
  "quiz_enabled qs s Opened = True"
| "quiz_enabled qs s Tick = (timerActive s \<and> timeLeft s > 0 \<and> \<not> quizCompleted s)"
| "quiz_enabled qs s (SelectAnswer i) =
     (\<not> quizCompleted s \<and> currentQuestionIndex s < length qs \<and> \<not> showExplanation s \<and>
      0 \<le> i \<and> nat i < length (options (qs ! currentQuestionIndex s)))"
| "quiz_enabled qs s NextQuestion =
     (\<not> quizCompleted s \<and> currentQuestionIndex s < length qs \<and> showExplanation s)"
| "quiz_enabled qs s Restart = quizCompleted s"

fun quiz_handler ::
  "question list \<Rightarrow> quiz_state \<Rightarrow> quiz_event \<Rightarrow> quiz_error + quiz_state \<times> (js_int \<times> js_int) list" where
  "quiz_handler qs s Opened = Inr (openEffect s, [])"
| "quiz_handler qs s Tick = Inr (tick s, [])"
| "quiz_handler qs s (SelectAnswer i) =
     (case handleAnswerSelect qs i s of Inl e \<Rightarrow> Inl e | Inr s' \<Rightarrow> Inr (s', []))"
| "quiz_handler qs s NextQuestion = Inr (handleNextQuestion qs s)"
| "quiz_handler qs s Restart = Inr (handleRestart s, [])"

definition quiz_step ::
  "question list \<Rightarrow> quiz_state \<Rightarrow> quiz_event \<Rightarrow> quiz_state \<times> (js_int \<times> js_int) list" where
  "quiz_step qs s e =
     (if \<not> quiz_enabled qs s e then (s, [])
      else case quiz_handler qs s e of
        Inl _ \<Rightarrow> (s, [])
      | Inr (s', out) \<Rightarrow> (let (s'', out') = rerender qs s s' in (s'', out @ out')))"

fun quiz_run ::
  "question list \<Rightarrow> quiz_state \<Rightarrow> quiz_event list \<Rightarrow> quiz_state \<times> (js_int \<times> js_int) list" where
  "quiz_run qs s [] = (s, [])"
| "quiz_run qs s (e # es) =
     (let (s1, o1) = quiz_step qs s e; (s2, o2) = quiz_run qs s1 es in (s2, o1 @ o2))"

declare initial_quiz_def [handler_defs] currentQuestion_def [handler_defs]
  handleAnswerSelect_def [handler_defs] bonusXP_def [handler_defs] totalXP_def [handler_defs]
  completeQuiz_def [handler_defs] handleNextQuestion_def [handler_defs]
  handleTimeUp_def [handler_defs] handleRestart_def [handler_defs] tick_def [handler_defs]
  openEffect_def [handler_defs] timerEffect_def [handler_defs] timer_deps_def [handler_defs]
  correct_count_def [handler_defs]

end
