(* ===== verification/Quiz_Invariants.thy ===== *)
theory Quiz_Invariants
  imports Quiz
begin

text \<open>
  What holds of every state the quiz can reach. The effect and handler lemmas first:
  the timer effect and the re-render only touch \<open>timerActive\<close> and
  \<open>quizCompleted\<close>, and a step schedules \<open>onComplete\<close> exactly when it moves
  the quiz from running to completed, with the final score and total. Then the state
  invariant \<open>quiz_inv\<close>: the question index stays in range, the recorded answers are
  exactly those of the questions reached, the score is the sum of the points of the
  correctly answered questions (\<open>answered_score\<close>), streak and perfect count are
  bounded by the number of correct answers (\<open>correct_count\<close>), and the clock stays in \<open>[0, 300]\<close> with zero only once
  the quiz is over. Every event keeps it, so it holds in every reachable state.
\<close>

subsection \<open>Invariant, reachable states and answer sequences\<close>

definition answered_score :: "question list \<Rightarrow> (nat \<rightharpoonup> js_int) \<Rightarrow> js_int" where
  "answered_score qs ans =
     (\<Sum>i\<leftarrow>[0..<length qs]. if ans i = Some (correctAnswer (qs ! i)) then points (qs ! i) else 0)"

definition answers_inv :: "question list \<Rightarrow> quiz_state \<Rightarrow> bool" where
  "answers_inv qs s \<longleftrightarrow>
     currentQuestionIndex s < max 1 (length qs) \<and>
     (showExplanation s \<longrightarrow> currentQuestionIndex s < length qs) \<and>
     dom (selectedAnswers s) =
       {..<currentQuestionIndex s} \<union> (if showExplanation s then {currentQuestionIndex s} else {}) \<and>
     score s = answered_score qs (selectedAnswers s) \<and>
     0 \<le> streak s \<and> streak s \<le> int (correct_count qs (selectedAnswers s)) \<and>
     0 \<le> perfectAnswers s \<and> perfectAnswers s \<le> int (correct_count qs (selectedAnswers s))"

definition timer_inv :: "quiz_state \<Rightarrow> bool" where
  "timer_inv s \<longleftrightarrow> 0 \<le> timeLeft s \<and> timeLeft s \<le> 300 \<and> (timeLeft s = 0 \<longrightarrow> quizCompleted s)"

definition quiz_inv :: "question list \<Rightarrow> quiz_state \<Rightarrow> bool" where
  "quiz_inv qs s \<longleftrightarrow> answers_inv qs s \<and> timer_inv s"

inductive quiz_reachable :: "question list \<Rightarrow> quiz_state \<Rightarrow> bool" for qs where
  start: "quiz_reachable qs initial_quiz"
| step: "quiz_reachable qs s \<Longrightarrow> quiz_step qs s e = (s', out) \<Longrightarrow> quiz_reachable qs s'"

text \<open>Answering every remaining question in turn: an option, then the next button.\<close>

fun answer_events :: "js_int list \<Rightarrow> quiz_event list" where
  "answer_events [] = []"
| "answer_events (a # as) = SelectAnswer a # NextQuestion # answer_events as"

definition valid_answers :: "question list \<Rightarrow> nat \<Rightarrow> js_int list \<Rightarrow> bool" where
  "valid_answers qs k as \<longleftrightarrow>
     (\<forall>j < length as. 0 \<le> as ! j \<and> nat (as ! j) < length (options (qs ! (k + j))))"

subsection \<open>Effects and notifications\<close>


lemma timerEffect_frame:
  assumes "timerEffect qs s = (s', out)"
  shows "s' = s\<lparr>timerActive := timerActive s', quizCompleted := quizCompleted s'\<rparr>"
  using assms by (auto simp: timerEffect_def handleTimeUp_def completeQuiz_def Let_def split: if_splits)

lemma timerEffect_output:
  assumes "timerEffect qs s = (s', out)"
  shows "out = (if \<not> quizCompleted s \<and> quizCompleted s' then [(score s', totalXP qs s')] else [])"
  using assms by (auto simp: timerEffect_def handleTimeUp_def completeQuiz_def totalXP_def bonusXP_def Let_def split: if_splits)

lemma timerEffect_completed_mono:
  "timerEffect qs s = (s', out) \<Longrightarrow> quizCompleted s \<Longrightarrow> quizCompleted s'"
  by (auto simp: timerEffect_def handleTimeUp_def completeQuiz_def Let_def split: if_splits)

lemma totalXP_timer_fields [simp]:
  "totalXP qs (s\<lparr>timerActive := a\<rparr>) = totalXP qs s"
  "totalXP qs (s\<lparr>quizCompleted := c\<rparr>) = totalXP qs s"
  by (simp_all add: totalXP_def bonusXP_def)

lemma timer_fields_update_self [simp]: "\<exists>a c. s = s\<lparr>timerActive := a, quizCompleted := c\<rparr>"
  by (intro exI[of _ "timerActive s"] exI[of _ "quizCompleted s"]) simp

lemma settle_same [simp]: "settle n qs s s = (s, [])"
  by (cases n) simp_all

lemma rerender_settle: "rerender qs old new = settle (Suc (Suc (Suc 0))) qs old new"
  by (simp add: rerender_def numeral_3_eq_3)

declare rerender_settle [handler_defs]

lemma settle_frame:
  "settle n qs old new = (s', out) \<Longrightarrow> \<exists>a c. s' = new\<lparr>timerActive := a, quizCompleted := c\<rparr>"
proof (induction n arbitrary: old new s' out)
  case 0
  then show ?case by simp
next
  case (Suc n)
  show ?case
  proof (cases "timer_deps old = timer_deps new")
    case True
    with Suc.prems show ?thesis by simp
  next
    case False
    obtain s1 o1 where e: "timerEffect qs new = (s1, o1)" by fastforce
    obtain s2 o2 where r: "settle n qs new s1 = (s2, o2)" by fastforce
    from Suc.prems False e r have "s' = s2" by simp
    moreover obtain a c where "s2 = s1\<lparr>timerActive := a, quizCompleted := c\<rparr>"
      using Suc.IH[OF r] by blast
    moreover have "s1 = new\<lparr>timerActive := timerActive s1, quizCompleted := quizCompleted s1\<rparr>"
      using e by (rule timerEffect_frame)
    ultimately show ?thesis by (metis quiz_state.update_convs(4,6) quiz_state.surjective)
  qed
qed

lemma rerender_frame:
  assumes "rerender qs old new = (s', out)"
  obtains a c where "s' = new\<lparr>timerActive := a, quizCompleted := c\<rparr>"
  using settle_frame assms unfolding rerender_def by blast

lemma settle_completed_mono:
  "settle n qs old new = (s', out) \<Longrightarrow> quizCompleted new \<Longrightarrow> quizCompleted s'"
proof (induction n arbitrary: old new s' out)
  case (Suc n)
  obtain s1 o1 where e: "timerEffect qs new = (s1, o1)" by fastforce
  obtain s2 o2 where r: "settle n qs new s1 = (s2, o2)" by fastforce
  have "quizCompleted s1" using timerEffect_completed_mono[OF e Suc.prems(2)] .
  then show ?case using Suc e r by (auto split: if_splits)
qed simp

lemma rerender_completed_mono:
  "rerender qs old new = (s', out) \<Longrightarrow> quizCompleted new \<Longrightarrow> quizCompleted s'"
  unfolding rerender_def by (rule settle_completed_mono)

lemma settle_output:
  "settle n qs old new = (s', out) \<Longrightarrow>
     out = (if \<not> quizCompleted new \<and> quizCompleted s' then [(score s', totalXP qs s')] else [])"
proof (induction n arbitrary: old new s' out)
  case (Suc n)
  show ?case
  proof (cases "timer_deps old = timer_deps new")
    case True
    with Suc.prems show ?thesis by simp
  next
    case False
    obtain s1 o1 where e: "timerEffect qs new = (s1, o1)" by fastforce
    obtain s2 o2 where r: "settle n qs new s1 = (s2, o2)" by fastforce
    from Suc.prems False e r have s': "s' = s2" and out: "out = o1 @ o2" by simp_all
    have o1: "o1 = (if \<not> quizCompleted new \<and> quizCompleted s1 then [(score s1, totalXP qs s1)] else [])"
      using e by (rule timerEffect_output)
    have o2: "o2 = (if \<not> quizCompleted s1 \<and> quizCompleted s2 then [(score s2, totalXP qs s2)] else [])"
      using r by (rule Suc.IH)
    obtain a c where f: "s2 = s1\<lparr>timerActive := a, quizCompleted := c\<rparr>"
      using settle_frame[OF r] by blast
    have "quizCompleted new \<Longrightarrow> quizCompleted s1" using e by (rule timerEffect_completed_mono)
    moreover have "quizCompleted s1 \<Longrightarrow> quizCompleted s2" using r by (rule settle_completed_mono)
    ultimately show ?thesis using o1 o2 f s' out by auto
  qed
qed simp

lemma rerender_output:
  "rerender qs old new = (s', out) \<Longrightarrow>
     out = (if \<not> quizCompleted new \<and> quizCompleted s' then [(score s', totalXP qs s')] else [])"
  unfolding rerender_def by (rule settle_output)

lemma timerEffect_running:
  "timerActive s \<Longrightarrow> 0 < timeLeft s \<Longrightarrow> \<not> quizCompleted s \<Longrightarrow> timerEffect qs s = (s, [])"
  by (simp add: timerEffect_def)

lemma settle_running:
  "timerActive s \<Longrightarrow> 0 < timeLeft s \<Longrightarrow> \<not> quizCompleted s \<Longrightarrow> settle n qs old s = (s, [])"
  by (cases n) (simp_all add: timerEffect_running)

lemma rerender_running:
  "timerActive s \<Longrightarrow> 0 < timeLeft s \<Longrightarrow> \<not> quizCompleted s \<Longrightarrow> rerender qs old s = (s, [])"
  unfolding rerender_def by (rule settle_running)

lemma quiz_handler_reopens:
  assumes "quiz_handler qs s e = Inr (s1, o1)" and "quizCompleted s" and "\<not> quizCompleted s1"
  shows "timerActive s1 \<and> 0 < timeLeft s1"
  using assms
  by (cases e) (auto simp: openEffect_def tick_def handleRestart_def handleNextQuestion_def
      completeQuiz_def handleAnswerSelect_def Let_def split: if_splits sum.splits option.splits)

lemma quiz_handler_output:
  assumes "quiz_enabled qs s e" and "quiz_handler qs s e = Inr (s1, o1)"
  shows "o1 = (if \<not> quizCompleted s \<and> quizCompleted s1 then [(score s1, totalXP qs s1)] else [])"
  using assms
  by (cases e) (auto simp: openEffect_def tick_def handleRestart_def handleNextQuestion_def
      completeQuiz_def handleAnswerSelect_def Let_def split: if_splits sum.splits option.splits)

lemma quiz_step_output:
  assumes "quiz_step qs s e = (s', out)"
  shows "out = (if \<not> quizCompleted s \<and> quizCompleted s' then [(score s', totalXP qs s')] else [])"
proof (cases "quiz_enabled qs s e \<and> (\<exists>s1 o1. quiz_handler qs s e = Inr (s1, o1))")
  case False
  with assms show ?thesis by (auto simp: quiz_step_def split: sum.splits)
next
  case True
  then obtain s1 o1 where en: "quiz_enabled qs s e" and h: "quiz_handler qs s e = Inr (s1, o1)"
    by blast
  obtain o2 where r: "rerender qs s s1 = (s', o2)" and out: "out = o1 @ o2"
    using assms en h by (auto simp: quiz_step_def split: prod.splits)
  have o1: "o1 = (if \<not> quizCompleted s \<and> quizCompleted s1 then [(score s1, totalXP qs s1)] else [])"
    using en h by (rule quiz_handler_output)
  have o2: "o2 = (if \<not> quizCompleted s1 \<and> quizCompleted s' then [(score s', totalXP qs s')] else [])"
    using r by (rule rerender_output)
  have mono: "quizCompleted s1 \<Longrightarrow> quizCompleted s'"
    using r by (rule rerender_completed_mono)
  obtain a c where frame: "s' = s1\<lparr>timerActive := a, quizCompleted := c\<rparr>"
    using r by (rule rerender_frame)
  then have "score s' = score s1" and "totalXP qs s' = totalXP qs s1"
    by simp_all
  moreover have "quizCompleted s \<Longrightarrow> \<not> quizCompleted s1 \<Longrightarrow> \<not> quizCompleted s'"
    using quiz_handler_reopens[OF h] rerender_running r by fastforce
  ultimately show ?thesis using o1 o2 mono out by auto
qed

lemma answers_inv_timer_fields [simp]:
  "answers_inv qs (s\<lparr>timerActive := a\<rparr>) = answers_inv qs s"
  "answers_inv qs (s\<lparr>quizCompleted := c\<rparr>) = answers_inv qs s"
  "answers_inv qs (s\<lparr>timeLeft := t\<rparr>) = answers_inv qs s"
  by (simp_all add: answers_inv_def)

lemma answered_score_record:
  assumes "c < length qs" and "c \<notin> dom ans"
  shows "answered_score qs (ans(c \<mapsto> a)) =
           answered_score qs ans + (if a = correctAnswer (qs ! c) then points (qs ! c) else 0)"
  unfolding answered_score_def
  using assms by (subst sum_list_upt_point_update[where c = c]) (auto simp: domIff)

lemma correct_count_record:
  assumes "c < length qs" and "c \<notin> dom ans"
  shows "correct_count qs (ans(c \<mapsto> a)) =
           correct_count qs ans + (if a = correctAnswer (qs ! c) then 1 else 0)"
  unfolding correct_count_def
  using assms by (subst length_filter_upt_point_update[where c = c]) (auto simp: domIff)

lemma handleAnswerSelect_answers_inv:
  assumes "answers_inv qs s" and "currentQuestionIndex s < length qs" and "\<not> showExplanation s"
    and "handleAnswerSelect qs i s = Inr s1"
  shows "answers_inv qs s1"
proof -
  let ?c = "currentQuestionIndex s" and ?ans = "selectedAnswers s"
  let ?ok = "i = correctAnswer (qs ! ?c)"
  have s1: "s1 = s\<lparr>selectedAnswers := ?ans(?c \<mapsto> i), showExplanation := True,
      score := score s + (if ?ok then points (qs ! ?c) else 0),
      streak := (if ?ok then streak s + 1 else 0),
      perfectAnswers := (if ?ok \<and> timeLeft s > 240 then perfectAnswers s + 1 else perfectAnswers s)\<rparr>"
    using assms(2-4) by (auto simp: handleAnswerSelect_def currentQuestion_def Let_def)
  have dom_old: "dom ?ans = {..<?c}"
    using assms(1,3) by (simp add: answers_inv_def)
  then have notin: "?c \<notin> dom ?ans" by simp
  have sc: "answered_score qs (?ans(?c \<mapsto> i)) = answered_score qs ?ans + (if ?ok then points (qs ! ?c) else 0)"
    using answered_score_record[OF assms(2) notin] by simp
  have cc: "correct_count qs (?ans(?c \<mapsto> i)) = correct_count qs ?ans + (if ?ok then 1 else 0)"
    using correct_count_record[OF assms(2) notin] by simp
  have "?c < max 1 (length qs)" "score s = answered_score qs ?ans"
    "0 \<le> streak s" "streak s \<le> int (correct_count qs ?ans)"
    "0 \<le> perfectAnswers s" "perfectAnswers s \<le> int (correct_count qs ?ans)"
    using assms(1) by (simp_all add: answers_inv_def)
  then show ?thesis
    using assms(2) unfolding s1 answers_inv_def by (simp add: dom_old sc cc)
qed

lemma handleNextQuestion_answers_inv:
  assumes "answers_inv qs s" and "showExplanation s"
  shows "answers_inv qs (fst (handleNextQuestion qs s))"
proof (cases "int (currentQuestionIndex s) < int (length qs) - 1")
  case True
  have "dom (selectedAnswers s) = {..<Suc (currentQuestionIndex s)}"
    using assms by (auto simp: answers_inv_def)
  with True assms(1) show ?thesis
    by (simp add: handleNextQuestion_def answers_inv_def)
next
  case False
  with assms(1) show ?thesis
    by (simp add: handleNextQuestion_def completeQuiz_def)
qed

lemma handleRestart_answers_inv: "answers_inv qs (handleRestart s)"
  by (simp add: handleRestart_def answers_inv_def answered_score_def correct_count_def)

lemma quiz_handler_answers_inv:
  assumes "answers_inv qs s" and "quiz_enabled qs s e" and "quiz_handler qs s e = Inr (s1, o1)"
  shows "answers_inv qs s1"
  using assms
proof (cases e)
  case (SelectAnswer i)
  then have "handleAnswerSelect qs i s = Inr s1"
    using assms(3) by (auto split: sum.splits)
  with SelectAnswer assms(1,2) show ?thesis
    using handleAnswerSelect_answers_inv by auto
next
  case NextQuestion
  with assms handleNextQuestion_answers_inv[of qs s] show ?thesis by auto
qed (auto simp: openEffect_def tick_def handleRestart_answers_inv)

lemma rerender_timeLeft:
  "rerender qs old new = (s', out) \<Longrightarrow> timeLeft s' = timeLeft new"
  by (erule rerender_frame) simp

lemma rerender_zero:
  assumes "rerender qs old new = (s', out)" and "timeLeft new = 0"
    and "timer_deps old = timer_deps new \<Longrightarrow> quizCompleted new"
  shows "quizCompleted s'"
  using assms
  by (auto simp: rerender_settle timerEffect_def handleTimeUp_def completeQuiz_def Let_def
      split: if_splits)

lemma quiz_handler_timeLeft:
  assumes "quiz_enabled qs s e" and "quiz_handler qs s e = Inr (s1, o1)"
    and "0 \<le> timeLeft s" and "timeLeft s \<le> 300"
  shows "0 \<le> timeLeft s1 \<and> timeLeft s1 \<le> 300"
  using assms
  by (cases e) (auto simp: openEffect_def tick_def handleRestart_def handleNextQuestion_def
      completeQuiz_def handleAnswerSelect_def Let_def split: if_splits sum.splits option.splits)

lemma quiz_step_inv:
  assumes "quiz_inv qs s"
  shows "quiz_inv qs (fst (quiz_step qs s e))"
proof (cases "quiz_enabled qs s e \<and> (\<exists>s1 o1. quiz_handler qs s e = Inr (s1, o1))")
  case False
  with assms show ?thesis by (auto simp: quiz_step_def split: sum.splits)
next
  case True
  then obtain s1 o1 where en: "quiz_enabled qs s e" and h: "quiz_handler qs s e = Inr (s1, o1)"
    by blast
  obtain s' o2 where r: "rerender qs s s1 = (s', o2)" and st: "fst (quiz_step qs s e) = s'"
    using en h by (cases "rerender qs s s1") (auto simp: quiz_step_def)
  have a1: "answers_inv qs s1"
    using assms en h quiz_handler_answers_inv by (auto simp: quiz_inv_def)
  obtain a c where frame: "s' = s1\<lparr>timerActive := a, quizCompleted := c\<rparr>"
    using r by (rule rerender_frame)
  have t1: "0 \<le> timeLeft s1 \<and> timeLeft s1 \<le> 300"
    using assms en h quiz_handler_timeLeft by (auto simp: quiz_inv_def timer_inv_def)
  have "timeLeft s' = 0 \<Longrightarrow> quizCompleted s'"
  proof (rule rerender_zero[OF r])
    assume "timeLeft s' = 0"
    then show "timeLeft s1 = 0" using frame by simp
    assume "timer_deps s = timer_deps s1"
    then show "quizCompleted s1"
      using assms \<open>timeLeft s1 = 0\<close> by (auto simp: timer_deps_def quiz_inv_def timer_inv_def)
  qed
  then show ?thesis
    using a1 t1 frame st by (simp add: quiz_inv_def timer_inv_def)
qed

subsection \<open>Runs\<close>

lemma quiz_inv_initial: "quiz_inv qs initial_quiz"
  by (simp add: quiz_inv_def answers_inv_def timer_inv_def initial_quiz_def answered_score_def
      correct_count_def)

lemma reachable_quiz_inv: "quiz_reachable qs s \<Longrightarrow> quiz_inv qs s"
proof (induction rule: quiz_reachable.induct)
  case start
  show ?case by (rule quiz_inv_initial)
next
  case (step s e s' out)
  then show ?case using quiz_step_inv[of qs s e] by simp
qed

lemma timerActive_update_self [simp]: "\<exists>a. s = s\<lparr>timerActive := a\<rparr>"
  by (rule exI[of _ "timerActive s"]) simp

lemma quiz_step_when_completed:
  assumes "quizCompleted s" and "e \<noteq> Restart" and "quiz_step qs s e = (s', out)"
  shows "out = [] \<and> (\<exists>a. s' = s\<lparr>timerActive := a\<rparr>)"
  using assms
  by (cases e) (auto simp: quiz_step_def openEffect_def rerender_settle timerEffect_def
      handleTimeUp_def Let_def split: if_splits)

lemma quiz_run_when_completed:
  assumes "quizCompleted s" and "Restart \<notin> set es" and "quiz_run qs s es = (s', out)"
  shows "out = [] \<and> (\<exists>a. s' = s\<lparr>timerActive := a\<rparr>)"
  using assms
proof (induction es arbitrary: s out)
  case Nil
  then show ?case by simp
next
  case (Cons e es)
  obtain s1 o1 where st: "quiz_step qs s e = (s1, o1)" by fastforce
  obtain o2 where run: "quiz_run qs s1 es = (s', o2)" and out: "out = o1 @ o2"
    using Cons.prems(3) st by (cases "quiz_run qs s1 es") auto
  obtain a where o1: "o1 = []" and s1: "s1 = s\<lparr>timerActive := a\<rparr>"
    using Cons.prems(1,2) st quiz_step_when_completed[of s e qs s1 o1] by auto
  then have "quizCompleted s1" using Cons.prems(1) by simp
  then obtain b where "o2 = []" and "s' = s1\<lparr>timerActive := b\<rparr>"
    using Cons.IH[OF _ _ run] Cons.prems(2) by auto
  with o1 s1 out show ?case by auto
qed

lemma quiz_run_output:
  assumes "Restart \<notin> set es" and "quiz_run qs s es = (s', out)"
  shows "out = (if \<not> quizCompleted s \<and> quizCompleted s' then [(score s', totalXP qs s')] else [])"
  using assms
proof (induction es arbitrary: s out)
  case Nil
  then show ?case by simp
next
  case (Cons e es)
  obtain s1 o1 where st: "quiz_step qs s e = (s1, o1)" by fastforce
  obtain o2 where run: "quiz_run qs s1 es = (s', o2)" and out: "out = o1 @ o2"
    using Cons.prems(2) st by (cases "quiz_run qs s1 es") auto
  have o1: "o1 = (if \<not> quizCompleted s \<and> quizCompleted s1 then [(score s1, totalXP qs s1)] else [])"
    using st by (rule quiz_step_output)
  have mono: "quizCompleted s \<Longrightarrow> quizCompleted s1"
    using st Cons.prems(1) quiz_step_when_completed[of s e qs s1 o1] by auto
  show ?case
  proof (cases "quizCompleted s1")
    case True
    then obtain a where "o2 = []" and "s' = s1\<lparr>timerActive := a\<rparr>"
      using run Cons.prems(1) quiz_run_when_completed[of s1 es qs s' o2] by auto
    with o1 out True show ?thesis by auto
  next
    case False
    with Cons.IH[OF _ run] Cons.prems(1) o1 out mono show ?thesis by auto
  qed
qed

lemma quiz_ticks_complete:
  assumes "timerActive s" and "\<not> quizCompleted s" and "timeLeft s = int n" and "0 < n"
  shows "quizCompleted (fst (quiz_run qs s (replicate n Tick)))"
  using assms
proof (induction n arbitrary: s)
  case 0
  then show ?case by simp
next
  case (Suc n)
  show ?case
  proof (cases "n = 0")
    case True
    with Suc.prems show ?thesis
      by (simp add: quiz_step_def tick_def rerender_settle timer_deps_def timerEffect_def
          handleTimeUp_def completeQuiz_def)
  next
    case False
    let ?s1 = "tick s"
    have "quiz_step qs s Tick = (?s1, [])"
      using Suc.prems False by (simp add: quiz_step_def tick_def rerender_settle timer_deps_def timerEffect_def)
    moreover have "quizCompleted (fst (quiz_run qs ?s1 (replicate n Tick)))"
      using Suc.prems False by (intro Suc.IH) (simp_all add: tick_def)
    ultimately show ?thesis by (simp split: prod.splits)
  qed
qed

lemma quiz_step_SelectAnswer:
  assumes "\<not> quizCompleted s" and "currentQuestionIndex s < length qs" and "\<not> showExplanation s"
    and "0 \<le> i" and "nat i < length (options (qs ! currentQuestionIndex s))"
  shows "quiz_step qs s (SelectAnswer i) =
    (let q = qs ! currentQuestionIndex s; ok = (i = correctAnswer q) in
     (s\<lparr>selectedAnswers := (selectedAnswers s)(currentQuestionIndex s \<mapsto> i), showExplanation := True,
        score := score s + (if ok then points q else 0), streak := (if ok then streak s + 1 else 0),
        perfectAnswers := (if ok \<and> 240 < timeLeft s then perfectAnswers s + 1 else perfectAnswers s)\<rparr>,
      []))"
  using assms
  by (simp add: quiz_step_def handleAnswerSelect_def currentQuestion_def rerender_settle timer_deps_def Let_def)

lemma quiz_step_NextQuestion_advance:
  assumes "\<not> quizCompleted s" and "showExplanation s" and "Suc (currentQuestionIndex s) < length qs"
  shows "quiz_step qs s NextQuestion =
    (s\<lparr>currentQuestionIndex := Suc (currentQuestionIndex s), showExplanation := False\<rparr>, [])"
  using assms by (simp add: quiz_step_def handleNextQuestion_def rerender_settle timer_deps_def)

lemma quiz_step_NextQuestion_last:
  assumes "\<not> quizCompleted s" and "showExplanation s" and "Suc (currentQuestionIndex s) = length qs"
    and "0 < timeLeft s"
  shows "quiz_step qs s NextQuestion =
    (s\<lparr>quizCompleted := True, timerActive := False\<rparr>, [(score s, totalXP qs s)])"
  using assms by (simp add: quiz_step_def handleNextQuestion_def completeQuiz_def rerender_settle
      timer_deps_def timerEffect_def)

lemma answer_events_no_restart: "Restart \<notin> set (answer_events as)"
  by (induction as) auto

lemma answer_events_run:
  assumes "\<not> quizCompleted s" and "\<not> showExplanation s" and "as \<noteq> []"
    and "currentQuestionIndex s + length as = length qs" and "0 < timeLeft s"
    and "valid_answers qs (currentQuestionIndex s) as"
  shows "quizCompleted (fst (quiz_run qs s (answer_events as))) \<and>
    (\<forall>i. selectedAnswers (fst (quiz_run qs s (answer_events as))) i =
       (if currentQuestionIndex s \<le> i \<and> i < length qs then Some (as ! (i - currentQuestionIndex s))
        else selectedAnswers s i))"
  using assms
proof (induction as arbitrary: s)
  case Nil
  then show ?case by simp
next
  case (Cons a as)
  let ?k = "currentQuestionIndex s"
  let ?q = "qs ! ?k" 
  let ?ok = "a = correctAnswer ?q"
  let ?s1 = "s\<lparr>selectedAnswers := (selectedAnswers s)(?k \<mapsto> a), showExplanation := True,
        score := score s + (if ?ok then points ?q else 0), streak := (if ?ok then streak s + 1 else 0),
        perfectAnswers := (if ?ok \<and> 240 < timeLeft s then perfectAnswers s + 1 else perfectAnswers s)\<rparr>"
  have k: "?k < length qs" using Cons.prems(4) by simp
  have va: "0 \<le> a" "nat a < length (options ?q)"
    using Cons.prems(6) by (auto simp: valid_answers_def dest: spec[of _ 0])
  have st1: "quiz_step qs s (SelectAnswer a) = (?s1, [])"
    using quiz_step_SelectAnswer[OF Cons.prems(1) k Cons.prems(2) va] by (simp add: Let_def)
  show ?case
  proof (cases "as = []")
    case True
    have "quiz_step qs ?s1 NextQuestion = (?s1\<lparr>quizCompleted := True, timerActive := False\<rparr>, [(score ?s1, totalXP qs ?s1)])"
      by (rule quiz_step_NextQuestion_last) (use Cons.prems(1,4,5) True in simp_all)
    with st1 True show ?thesis using Cons.prems(4) by (auto simp: Let_def)
  next
    case False
    let ?s2 = "?s1\<lparr>currentQuestionIndex := Suc (currentQuestionIndex ?s1), showExplanation := False\<rparr>"
    have adv: "Suc ?k < length qs"
      using Cons.prems(4) False by (cases as) auto
    have st2: "quiz_step qs ?s1 NextQuestion = (?s2, [])"
      by (rule quiz_step_NextQuestion_advance) (simp_all add: Cons.prems(1) adv)
    have "valid_answers qs (Suc ?k) as"
      using Cons.prems(6) by (auto simp: valid_answers_def dest: spec[of _ "Suc j" for j])
    have IH: "quizCompleted (fst (quiz_run qs ?s2 (answer_events as))) \<and>
      (\<forall>i. selectedAnswers (fst (quiz_run qs ?s2 (answer_events as))) i =
         (if currentQuestionIndex ?s2 \<le> i \<and> i < length qs
          then Some (as ! (i - currentQuestionIndex ?s2)) else selectedAnswers ?s2 i))"
      by (rule Cons.IH) (use Cons.prems(1,4,5) False \<open>valid_answers qs (Suc ?k) as\<close> in simp_all)
    have run: "fst (quiz_run qs s (answer_events (a # as))) = fst (quiz_run qs ?s2 (answer_events as))"
      using st1 st2 by (simp add: Let_def split: prod.splits)
    show ?thesis
      unfolding run using IH k by (auto simp: nth_Cons' not_less_eq_eq)
  qed
qed

lemma quiz_run_reachable:
  "quiz_reachable qs s \<Longrightarrow> quiz_reachable qs (fst (quiz_run qs s es))"
proof (induction es arbitrary: s)
  case Nil
  then show ?case by simp
next
  case (Cons e es)
  obtain s1 o1 where st: "quiz_step qs s e = (s1, o1)" by fastforce
  with Cons.prems have "quiz_reachable qs s1" by (rule quiz_reachable.step)
  then have "quiz_reachable qs (fst (quiz_run qs s1 es))" by (rule Cons.IH)
  with st show ?case by (cases "quiz_run qs s1 es") simp
qed

lemma correct_count_le: "correct_count qs ans \<le> length qs"
  unfolding correct_count_def by (metis diff_zero length_filter_le length_upt)

lemma correct_count_all:
  assumes "correct_count qs ans = length qs" and "i < length qs"
  shows "ans i = Some (correctAnswer (qs ! i))"
proof (rule ccontr)
  assume "ans i \<noteq> Some (correctAnswer (qs ! i))"
  then have "length (filter (\<lambda>i. ans i = Some (correctAnswer (qs ! i))) [0..<length qs])
      < length [0..<length qs]"
    using assms(2) by (intro length_filter_less) auto
  with assms(1) show False by (simp add: correct_count_def)
qed

lemma quiz_step_initial_Opened:
  "quiz_step qs initial_quiz Opened = (initial_quiz\<lparr>timerActive := True\<rparr>, [])"
  by (simp add: quiz_step_def openEffect_def rerender_settle timer_deps_def timerEffect_def initial_quiz_def)

lemma quiz_handler_enabled:
  assumes "quiz_enabled qs s e"
  obtains s1 o1 where "quiz_handler qs s e = Inr (s1, o1)"
proof -
  have "\<exists>s1 o1. quiz_handler qs s e = Inr (s1, o1)"
    using assms by (cases e) (auto simp: handleAnswerSelect_def currentQuestion_def Let_def
        split: if_splits)
  then show ?thesis using that by blast
qed

lemma quiz_step_cases:
  assumes "quiz_step qs s e = (s', out)"
  obtains (skip) "\<not> quiz_enabled qs s e" "s' = s" "out = []"
    | (run) s1 o1 o2 where "quiz_enabled qs s e" "quiz_handler qs s e = Inr (s1, o1)"
        "rerender qs s s1 = (s', o2)" "out = o1 @ o2"
proof (cases "quiz_enabled qs s e")
  case False
  with assms have "s' = s" "out = []" by (simp_all add: quiz_step_def)
  with False show ?thesis by (rule skip)
next
  case True
  then obtain s1 o1 where h: "quiz_handler qs s e = Inr (s1, o1)" by (rule quiz_handler_enabled)
  obtain s'' o2 where r: "rerender qs s s1 = (s'', o2)" by fastforce
  with True h assms have "s'' = s'" "out = o1 @ o2" by (simp_all add: quiz_step_def)
  with True h r show ?thesis by (intro run) simp_all
qed

lemma timerEffect_stable:
  "timerEffect qs s = (s1, o1) \<Longrightarrow> timer_deps s \<noteq> timer_deps s1 \<Longrightarrow> timerEffect qs s1 = (s1, [])"
  by (auto simp: timerEffect_def handleTimeUp_def completeQuiz_def timer_deps_def Let_def
      split: if_splits)

lemma settle_enough: "settle (Suc (Suc n)) qs old new = settle (Suc (Suc 0)) qs old new"
proof (cases "timer_deps old = timer_deps new")
  case True
  then show ?thesis by simp
next
  case False
  obtain s1 o1 where e: "timerEffect qs new = (s1, o1)" by fastforce
  show ?thesis
  proof (cases "timer_deps new = timer_deps s1")
    case True
    with False e show ?thesis by simp
  next
    case False': False
    with e have "timerEffect qs s1 = (s1, [])" by (rule timerEffect_stable)
    with False False' e show ?thesis by simp
  qed
qed

end
