(* ===== verification/Quiz_Properties.thy ===== *)
theory Quiz_Properties
  imports Quiz_Invariants
begin

text \<open>
  The properties of the quiz component that the rest of the application relies on,
  each derived from the invariant and the run lemmas of \<open>Quiz_Invariants\<close>, and each
  applied to the question set of the spec's worked example (\<open>sample_questions\<close>: three
  questions worth 20, 30 and 50 points).
\<close>

definition sample_questions :: "question list" where
  "sample_questions =
     [\<lparr>qid = 1, question_text = ''q1'', options = [''a'', ''b'', ''c'', ''d''], correctAnswer = 1,
       explanation = ''e1'', difficulty = Easy, points = 20\<rparr>,
      \<lparr>qid = 2, question_text = ''q2'', options = [''a'', ''b'', ''c'', ''d''], correctAnswer = 0,
       explanation = ''e2'', difficulty = Medium, points = 30\<rparr>,
      \<lparr>qid = 3, question_text = ''q3'', options = [''a'', ''b'', ''c'', ''d''], correctAnswer = 2,
       explanation = ''e3'', difficulty = Hard, points = 50\<rparr>]"

text \<open>
  The spec's scenario: the modal opens, ten seconds pass before each answer, every answer
  is correct (at 290, 280 and 270 seconds left), and the last next button ends the quiz.
\<close>

definition scenario_events :: "quiz_event list" where
  "scenario_events =
     [Opened] @ replicate 10 Tick @ [SelectAnswer 1, NextQuestion] @ replicate 10 Tick @
     [SelectAnswer 0, NextQuestion] @ replicate 10 Tick @ [SelectAnswer 2, NextQuestion]"

definition scenario_final :: quiz_state where
  "scenario_final = fst (quiz_run sample_questions initial_quiz scenario_events)"

lemma sample_reachable:
  "quiz_reachable sample_questions (fst (quiz_run sample_questions initial_quiz es))"
  by (rule quiz_run_reachable[OF quiz_reachable.start])


lemma scenario_final_eq:
  "scenario_final =
     \<lparr>currentQuestionIndex = 2, selectedAnswers = [0 \<mapsto> 1, 1 \<mapsto> 0, 2 \<mapsto> 2],
      showExplanation = True, quizCompleted = True, timeLeft = 270, timerActive = False,
      score = 100, streak = 3, perfectAnswers = 3\<rparr>"
  by (simp add: scenario_final_def sample_questions_def scenario_events_def quiz_step_def
      numeral_eq_Suc handler_defs)

lemma scenario_final_reachable: "quiz_reachable sample_questions scenario_final"
  unfolding scenario_final_def by (rule sample_reachable)

subsection \<open>Score\<close>

text \<open>
  C1. In every reachable state of the quiz the score is the sum of the points of the
  questions whose recorded answer is the correct option: a question answered wrongly, or
  not answered, contributes nothing, and no question is scored twice.
\<close>

theorem quiz_score_is_points_of_correct_answers:
  assumes "quiz_reachable qs s"
  shows "score s = answered_score qs (selectedAnswers s)"
  using reachable_quiz_inv[OF assms] by (simp add: quiz_inv_def answers_inv_def)

theorem quiz_score_is_points_of_correct_answers_witness:
  "score (fst (quiz_run sample_questions initial_quiz [Opened, SelectAnswer 1])) = 20 \<and>
   score (fst (quiz_run sample_questions initial_quiz [Opened, SelectAnswer 1])) =
     answered_score sample_questions
       (selectedAnswers (fst (quiz_run sample_questions initial_quiz [Opened, SelectAnswer 1])))"
proof
  show "score (fst (quiz_run sample_questions initial_quiz [Opened, SelectAnswer 1])) = 20"
    by (simp add: sample_questions_def quiz_step_def handler_defs)
  show "score (fst (quiz_run sample_questions initial_quiz [Opened, SelectAnswer 1])) =
     answered_score sample_questions
       (selectedAnswers (fst (quiz_run sample_questions initial_quiz [Opened, SelectAnswer 1])))"
    by (rule quiz_score_is_points_of_correct_answers[OF sample_reachable])
qed

text \<open>
  C2. Answering every question with a valid option and pressing the next button after each,
  starting from the freshly opened modal, ends the quiz: the attempt is completed,
  \<open>onComplete\<close> is scheduled exactly once with the final score and total XP, and the
  score is the sum of the points of the questions answered correctly.
\<close>

theorem quiz_answer_all_completes:
  assumes "qs \<noteq> []" and "length as = length qs" and "valid_answers qs 0 as"
    and "quiz_run qs initial_quiz (Opened # answer_events as) = (s', out)"
  shows "quizCompleted s' \<and> out = [(score s', totalXP qs s')] \<and>
    score s' = (\<Sum>i\<leftarrow>[0..<length qs]. if as ! i = correctAnswer (qs ! i) then points (qs ! i) else 0)"
proof -
  let ?s0 = "initial_quiz\<lparr>timerActive := True\<rparr>"
  have run0: "quiz_run qs ?s0 (answer_events as) = (s', out)"
    using assms(4) by (simp add: quiz_step_initial_Opened)
  have "as \<noteq> []" using assms(1,2) by auto
  then have fin: "quizCompleted s' \<and> (\<forall>i. selectedAnswers s' i =
      (if 0 \<le> i \<and> i < length qs then Some (as ! (i - 0)) else selectedAnswers ?s0 i))"
    using answer_events_run[of ?s0 as qs] assms(2,3) run0 by (simp add: initial_quiz_def)
  have out: "out = [(score s', totalXP qs s')]"
    using quiz_run_output[OF _ assms(4)] fin answer_events_no_restart by (simp add: initial_quiz_def)
  have "quiz_reachable qs s'"
    using quiz_run_reachable[OF quiz_reachable.start, of qs "Opened # answer_events as"] assms(4) by simp
  then have "score s' = answered_score qs (selectedAnswers s')"
    using reachable_quiz_inv by (simp add: quiz_inv_def answers_inv_def)
  also have "\<dots> = (\<Sum>i\<leftarrow>[0..<length qs]. if as ! i = correctAnswer (qs ! i) then points (qs ! i) else 0)"
    unfolding answered_score_def using fin by (intro arg_cong[where f = sum_list] map_cong) auto
  finally show ?thesis using fin out by simp
qed

theorem quiz_answer_all_completes_witness:
  "quizCompleted (fst (quiz_run sample_questions initial_quiz (Opened # answer_events [1, 0, 3]))) \<and>
   snd (quiz_run sample_questions initial_quiz (Opened # answer_events [1, 0, 3])) =
     [(score (fst (quiz_run sample_questions initial_quiz (Opened # answer_events [1, 0, 3]))),
       totalXP sample_questions (fst (quiz_run sample_questions initial_quiz (Opened # answer_events [1, 0, 3]))))] \<and>
   score (fst (quiz_run sample_questions initial_quiz (Opened # answer_events [1, 0, 3]))) = 50"
proof -
  have v: "valid_answers sample_questions 0 [1, 0, 3]"
    by (simp add: valid_answers_def sample_questions_def less_Suc_eq nth_Cons')
  have ne: "sample_questions \<noteq> []" and len: "length [1, 0, 3 :: int] = length sample_questions"
    by (simp_all add: sample_questions_def)
  show ?thesis
    using quiz_answer_all_completes[OF ne len v surjective_pairing]
    by (simp add: sample_questions_def)
qed

text \<open>
  C3. Along any run with no retake, \<open>onComplete\<close> is scheduled at most once, it is scheduled
  exactly when the attempt ends up completed, and it reports the final score and total XP.
\<close>

theorem quiz_completion_reported_once:
  assumes "Restart \<notin> set es" and "\<not> quizCompleted s" and "quiz_run qs s es = (s', out)"
  shows "length out \<le> 1 \<and> (out \<noteq> [] \<longleftrightarrow> quizCompleted s') \<and> (\<forall>p \<in> set out. p = (score s', totalXP qs s'))"
  using quiz_run_output[OF assms(1,3)] assms(2) by simp

theorem quiz_completion_reported_once_witness:
  "snd (quiz_run sample_questions initial_quiz scenario_events) =
     [(score scenario_final, totalXP sample_questions scenario_final)]"
proof -
  have r: "Restart \<notin> set scenario_events" by (simp add: scenario_events_def)
  have i: "\<not> quizCompleted initial_quiz" by (simp add: initial_quiz_def)
  have c: "quizCompleted scenario_final" by (simp add: scenario_final_eq)
  from quiz_completion_reported_once[OF r i surjective_pairing, of sample_questions] c
  show ?thesis unfolding scenario_final_def[symmetric]
    by (cases "snd (quiz_run sample_questions initial_quiz scenario_events)") (auto simp: Suc_le_eq)
qed

text \<open>
  C4. The countdown always ends a running attempt: from a state whose timer is active and whose
  quiz is not completed, as many one-second ticks as there are seconds left complete it.
\<close>

theorem quiz_time_up_completes:
  assumes "timerActive s" and "\<not> quizCompleted s" and "0 < timeLeft s"
  shows "quizCompleted (fst (quiz_run qs s (replicate (nat (timeLeft s)) Tick)))"
  using quiz_ticks_complete[OF assms(1,2)] assms(3) by simp

theorem quiz_time_up_completes_witness:
  "quizCompleted (fst (quiz_run sample_questions (initial_quiz\<lparr>timerActive := True\<rparr>) (replicate 300 Tick)))"
  using quiz_time_up_completes[of "initial_quiz\<lparr>timerActive := True\<rparr>" sample_questions]
  by (simp add: initial_quiz_def)

text \<open>
  C5. Once the quiz is completed, no event other than a retake changes the answers, the score,
  the question index, the time left, the streak or the perfect count, and none schedules
  another notification.
\<close>

theorem quiz_frozen_after_completion:
  assumes "quizCompleted s" and "Restart \<notin> set es" and "quiz_run qs s es = (s', out)"
  shows "out = [] \<and> quizCompleted s' \<and> score s' = score s \<and> selectedAnswers s' = selectedAnswers s \<and>
    currentQuestionIndex s' = currentQuestionIndex s \<and> timeLeft s' = timeLeft s \<and>
    streak s' = streak s \<and> perfectAnswers s' = perfectAnswers s"
  using quiz_run_when_completed[OF assms] assms(1) by auto

theorem quiz_frozen_after_completion_witness:
  "snd (quiz_run sample_questions scenario_final [Opened, Tick, SelectAnswer 0, NextQuestion]) = [] \<and>
   score (fst (quiz_run sample_questions scenario_final [Opened, Tick, SelectAnswer 0, NextQuestion])) = 100"
proof -
  have c: "quizCompleted scenario_final" by (simp add: scenario_final_eq)
  have r: "Restart \<notin> set [Opened, Tick, SelectAnswer 0, NextQuestion]" by simp
  have s: "score scenario_final = 100" by (simp add: scenario_final_eq)
  show ?thesis
    using quiz_frozen_after_completion[OF c r surjective_pairing] s by (simp del: quiz_run.simps)
qed

text \<open>
  C6. The streak changes only on an answer or a retake: a correct answer adds one, a wrong answer
  resets it to zero, a retake of a completed quiz resets it, and every other event (and every
  answer the UI does not allow) leaves it unchanged.
\<close>

theorem quiz_streak_step:
  assumes "quiz_step qs s e = (s', out)"
  shows "streak s' =
    (case e of
       SelectAnswer i \<Rightarrow>
         if quiz_enabled qs s e
         then (if i = correctAnswer (qs ! currentQuestionIndex s) then streak s + 1 else 0)
         else streak s
     | Restart \<Rightarrow> if quizCompleted s then 0 else streak s
     | _ \<Rightarrow> streak s)"
  using assms
proof (cases rule: quiz_step_cases)
  case skip
  then show ?thesis by (cases e) auto
next
  case (run s1 o1 o2)
  obtain a c where "s' = s1\<lparr>timerActive := a, quizCompleted := c\<rparr>"
    using run(3) by (rule rerender_frame)
  then show ?thesis
    using run(1,2)
    by (cases e) (auto simp: openEffect_def tick_def handleRestart_def handleNextQuestion_def
        completeQuiz_def handleAnswerSelect_def currentQuestion_def Let_def split: if_splits)
qed

theorem quiz_streak_step_witness:
  "streak (fst (quiz_step sample_questions (initial_quiz\<lparr>timerActive := True\<rparr>) (SelectAnswer 3))) = 0"
proof -
  have "quiz_enabled sample_questions (initial_quiz\<lparr>timerActive := True\<rparr>) (SelectAnswer 3)"
    by (simp add: initial_quiz_def sample_questions_def)
  then show ?thesis
    using quiz_streak_step[OF surjective_pairing, of sample_questions "initial_quiz\<lparr>timerActive := True\<rparr>" "SelectAnswer 3"]
    by (simp add: sample_questions_def initial_quiz_def)
qed

text \<open>
  C7. The perfect-quiz bonus condition (as many perfect answers as questions) holds in a reachable
  state only if every question has been answered with its correct option.
\<close>

theorem perfect_bonus_requires_all_correct:
  assumes "quiz_reachable qs s" and "perfectAnswers s = int (length qs)"
  shows "\<forall>i < length qs. selectedAnswers s i = Some (correctAnswer (qs ! i))"
proof -
  have "perfectAnswers s \<le> int (correct_count qs (selectedAnswers s))"
    using reachable_quiz_inv[OF assms(1)] by (simp add: quiz_inv_def answers_inv_def)
  then have "correct_count qs (selectedAnswers s) = length qs"
    using assms(2) correct_count_le[of qs "selectedAnswers s"] by linarith
  then show ?thesis using correct_count_all by blast
qed

theorem perfect_bonus_requires_all_correct_witness:
  "selectedAnswers scenario_final 0 = Some 1 \<and> selectedAnswers scenario_final 1 = Some 0 \<and>
   selectedAnswers scenario_final 2 = Some 2"
proof -
  have p: "perfectAnswers scenario_final = int (length sample_questions)"
    by (simp add: scenario_final_eq sample_questions_def)
  note all = perfect_bonus_requires_all_correct[OF scenario_final_reachable p]
  have "length sample_questions = 3" by (simp add: sample_questions_def)
  then show ?thesis using all[rule_format, of 0] all[rule_format, of 1] all[rule_format, of 2]
    by (simp add: sample_questions_def)
qed

text \<open>
  C8. In every reachable state the total reported on completion is at least the score and at most
  the score plus the perfect and speed bonuses (150) and 25 per question of streak bonus.
\<close>

theorem quiz_totalXP_bounds:
  assumes "quiz_reachable qs s"
  shows "score s \<le> totalXP qs s \<and> totalXP qs s \<le> score s + 150 + 25 * int (length qs)"
proof -
  have "0 \<le> streak s" "streak s \<le> int (correct_count qs (selectedAnswers s))"
    using reachable_quiz_inv[OF assms(1)] by (simp_all add: quiz_inv_def answers_inv_def)
  moreover have "int (correct_count qs (selectedAnswers s)) \<le> int (length qs)"
    using correct_count_le by simp
  ultimately show ?thesis by (auto simp: totalXP_def bonusXP_def Let_def)
qed

theorem quiz_totalXP_bounds_witness:
  "score scenario_final \<le> totalXP sample_questions scenario_final \<and>
   totalXP sample_questions scenario_final \<le> score scenario_final + 150 + 25 * int (length sample_questions)"
  by (rule quiz_totalXP_bounds[OF scenario_final_reachable])

text \<open>
  C9. In every reachable state the time left lies between 0 and 300 seconds, and it is 0 only when
  the quiz is completed.
\<close>

theorem quiz_timer_bounds:
  assumes "quiz_reachable qs s"
  shows "0 \<le> timeLeft s \<and> timeLeft s \<le> 300 \<and> (timeLeft s = 0 \<longrightarrow> quizCompleted s)"
  using reachable_quiz_inv[OF assms] by (simp add: quiz_inv_def timer_inv_def)

theorem quiz_timer_bounds_witness:
  "0 \<le> timeLeft scenario_final \<and> timeLeft scenario_final \<le> 300"
  using quiz_timer_bounds[OF scenario_final_reachable] by simp

text \<open>
  C10. The retake button on the results screen returns every field to its initial value, with the
  timer running, and schedules no notification.
\<close>

theorem quiz_restart_resets:
  assumes "quizCompleted s"
  shows "quiz_step qs s Restart = (initial_quiz\<lparr>timerActive := True\<rparr>, [])"
  using assms by (simp add: quiz_step_def handleRestart_def rerender_settle timer_deps_def
      timerEffect_def initial_quiz_def)

theorem quiz_restart_resets_witness:
  "quiz_step sample_questions scenario_final Restart = (initial_quiz\<lparr>timerActive := True\<rparr>, [])"
  by (rule quiz_restart_resets) (simp add: scenario_final_eq)

text \<open>
  C11. Selecting an option again while the explanation of the current question is shown does
  nothing: the state is unchanged and no error is reported.
\<close>

theorem quiz_reanswer_ignored:
  assumes "showExplanation s"
  shows "quiz_step qs s (SelectAnswer i) = (s, [])"
  using assms by (simp add: quiz_step_def)

theorem quiz_reanswer_ignored_witness:
  "quiz_step sample_questions scenario_final (SelectAnswer 0) = (scenario_final, [])"
  by (rule quiz_reanswer_ignored) (simp add: scenario_final_eq)



text \<open>
  C14. The re-render loop of the timer effect always settles within two renders: running it
  with any fuel of at least two gives the same state and notifications as the model's
  \<open>rerender\<close>, so the fuel never cuts the loop short.
\<close>

theorem quiz_effects_settle:
  assumes "2 \<le> n"
  shows "settle n qs old new = rerender qs old new"
proof -
  obtain m where n: "n = Suc (Suc m)" using assms by (metis add_2_eq_Suc le_Suc_ex)
  show ?thesis unfolding n rerender_settle settle_enough[of m] settle_enough[of "Suc 0"] ..
qed

theorem quiz_effects_settle_witness:
  "settle 5 sample_questions initial_quiz (initial_quiz\<lparr>timeLeft := 0\<rparr>) =
   rerender sample_questions initial_quiz (initial_quiz\<lparr>timeLeft := 0\<rparr>)"
  by (rule quiz_effects_settle) simp

end
