(* ===== verification/Server.thy ===== *)
theory Server
  imports KV_Store
begin

text \<open>
  The serverless API of \<open>src/index.tsx\<close> (a Hono app on Deno). Every route handler is
  one definition taking the request (the bearer token header and the parsed JSON body),
  the values the runtime supplies (\<open>new Date().toISOString()\<close> as \<open>now\<close>,
  \<open>crypto.randomUUID()\<close> as \<open>fresh\<close>, the identity service's answer) and the store,
  and returning the HTTP response (status and body) with the new store. Errors are
  values: a missing or rejected token is status 401, a missing profile 404, a duplicate
  badge 400, and a body that is not JSON (\<open>c.req.json()\<close> throws) 500 through the
  handler's \<open>catch\<close>. The helpers \<open>updateUserXP\<close>, \<open>updateUserPoints\<close> and
  \<open>updateUserEcoStats\<close> swallow their own errors, as the source does.

  The stored documents are records; a field a client may leave \<open>undefined\<close> or set to
  \<open>null\<close> through \<open>PUT /profile\<close> is an \<open>option\<close>, read with \<open>or_zero\<close> where the
  source writes \<open>|| 0\<close>. The store holds values of the sum \<open>kv_value\<close>; every handler
  writes under a key the kind of value that key prefix names (\<open>Server_Invariants\<close>).
\<close>

subsection \<open>Stored documents\<close>

record profile =
  user_id :: uid
  name :: string
  email :: string
  level :: "js_int option"
  total_xp :: "js_int option"
  streak_days :: "js_int option"
  total_points :: "js_int option"
  created_at :: string
  updated_at :: string

record progress =
  progress_user_id :: uid
  module_id :: js_int
  progress_module_name :: string
  progress_percentage :: js_int
  lessons_completed :: js_int
  total_lessons :: js_int
  last_accessed :: string

record eco_action =
  eco_id :: string
  eco_user_id :: uid
  item_name :: string
  eco_amount :: rat
  eco_category :: string
  eco_points :: js_int
  co2_saved :: rat
  eco_created_at :: string

record expense =
  expense_id :: string
  expense_user_id :: uid
  description :: string
  expense_amount :: rat
  expense_category :: string
  expense_date :: string
  expense_created_at :: string

record achievement =
  achievement_id :: string
  achievement_user_id :: uid
  badge_name :: string
  badge_description :: string
  badge_icon :: string
  points_earned :: js_int
  earned_at :: string

record eco_stats =
  total_eco_points :: js_int
  total_co2_saved :: rat
  sustainable_purchases :: js_int

datatype kv_value =
    VProfile profile
  | VProgress progress
  | VEcoAction eco_action
  | VExpense expense
  | VAchievement achievement
  | VEcoStats eco_stats

type_synonym store = "kv_value kv"

subsection \<open>Requests and responses\<close>

text \<open>
  The parsed JSON bodies. \<open>PUT /profile\<close> spreads an arbitrary object over the stored
  profile: a field absent from the body is \<open>None\<close>, a present one \<open>Some\<close> (for the
  numeric fields, \<open>Some None\<close> is an explicit \<open>null\<close>).
\<close>

record signup_body =
  su_email :: string
  su_password :: string
  su_name :: string

record profile_update =
  upd_user_id :: "uid option"
  upd_name :: "string option"
  upd_email :: "string option"
  upd_level :: "js_int option option"
  upd_total_xp :: "js_int option option"
  upd_streak_days :: "js_int option option"
  upd_total_points :: "js_int option option"
  upd_created_at :: "string option"

record progress_body =
  pb_module_id :: js_int
  pb_module_name :: string
  pb_progress_percentage :: js_int
  pb_lessons_completed :: js_int
  pb_total_lessons :: js_int

record eco_body =
  eb_item_name :: string
  eb_amount :: rat
  eb_category :: string
  eb_eco_rating :: js_int

record expense_body =
  xb_description :: string
  xb_amount :: rat
  xb_category :: string
  xb_date :: string

record achievement_body =
  ab_badge_name :: string
  ab_badge_description :: string
  ab_badge_icon :: string
  ab_points_earned :: js_int

record lb_entry =
  rank :: js_int
  lb_name :: string
  lb_level :: "js_int option"
  lb_total_points :: js_int
  lb_user_id :: uid

datatype resp_body =
    RError string
  | RHealth string
  | RUser "uid option"
  | RProfile kv_value
  | RProgressSaved progress js_int
  | RValues "kv_value list"
  | REcoSaved eco_action js_int
  | RExpense expense
  | RAchievement achievement
  | RLeaderboard "lb_entry list"

type_synonym response = "nat \<times> resp_body"

definition internal_error :: response where
  "internal_error = (500, RError ''Internal server error'')"

definition unauthorized :: response where
  "unauthorized = (401, RError ''Unauthorized'')"

subsection \<open>Authentication\<close>

text \<open>
  \<open>request.headers.get('Authorization')?.split(' ')[1]\<close>: the second space-separated
  piece of the header, if any. \<open>supabase.auth.getUser\<close> is the identity service,
  a parameter \<open>getUser\<close> from tokens to user ids; an empty token or an empty id is falsy
  in the source and rejected.
\<close>

fun split_space :: "string \<Rightarrow> string list" where
  "split_space [] = ['''']"
| "split_space (c # cs) =
     (if c = CHR '' '' then '''' # split_space cs
      else (case split_space cs of w # ws \<Rightarrow> (c # w) # ws | [] \<Rightarrow> [[c]]))"

definition bearer_token :: "string option \<Rightarrow> string option" where
  "bearer_token hdr =
     (case hdr of None \<Rightarrow> None
      | Some h \<Rightarrow> (case split_space h of _ # t # _ \<Rightarrow> Some t | _ \<Rightarrow> None))"

definition verifyUser :: "(string \<Rightarrow> uid option) \<Rightarrow> string option \<Rightarrow> uid option" where
  "verifyUser getUser hdr =
     (case bearer_token hdr of
        None \<Rightarrow> None
      | Some t \<Rightarrow> if t = '''' then None
                  else (case getUser t of None \<Rightarrow> None | Some u \<Rightarrow> if u = '''' then None else Some u))"

subsection \<open>Keys and reads\<close>

definition profile_key :: "uid \<Rightarrow> string" where
  "profile_key u = key2 ''profile'' u"

definition progress_key :: "uid \<Rightarrow> js_int \<Rightarrow> string" where
  "progress_key u m = key3 ''progress'' u (int_to_string m)"

definition as_profile :: "kv_value option \<Rightarrow> profile option" where
  "as_profile v = (case v of Some (VProfile p) \<Rightarrow> Some p | _ \<Rightarrow> None)"

definition as_eco_stats :: "kv_value option \<Rightarrow> eco_stats option" where
  "as_eco_stats v = (case v of Some (VEcoStats e) \<Rightarrow> Some e | _ \<Rightarrow> None)"

subsection \<open>Helpers\<close>

text \<open>\<open>updateUserXP\<close>: add the XP and recompute the level, one level per 1000 XP.\<close>

definition updateUserXP :: "string \<Rightarrow> uid \<Rightarrow> js_int \<Rightarrow> store \<Rightarrow> store" where
  "updateUserXP now u xpGained st =
     (case as_profile (kv_get st (profile_key u)) of
        None \<Rightarrow> st
      | Some p \<Rightarrow>
          (let newXP = or_zero (total_xp p) + xpGained;
               newLevel = newXP div 1000 + 1
           in kv_set (profile_key u)
                (VProfile (p\<lparr>total_xp := Some newXP, level := Some newLevel, updated_at := now\<rparr>)) st))"

definition updateUserPoints :: "string \<Rightarrow> uid \<Rightarrow> js_int \<Rightarrow> store \<Rightarrow> store" where
  "updateUserPoints now u pointsGained st =
     (case as_profile (kv_get st (profile_key u)) of
        None \<Rightarrow> st
      | Some p \<Rightarrow>
          kv_set (profile_key u)
            (VProfile (p\<lparr>total_points := Some (or_zero (total_points p) + pointsGained),
                         updated_at := now\<rparr>)) st)"

definition empty_eco_stats :: eco_stats where
  "empty_eco_stats = \<lparr>total_eco_points = 0, total_co2_saved = 0, sustainable_purchases = 0\<rparr>"

definition updateUserEcoStats :: "string \<Rightarrow> uid \<Rightarrow> js_int \<Rightarrow> rat \<Rightarrow> store \<Rightarrow> store" where
  "updateUserEcoStats now u ecoPoints co2Saved st =
     (let ecoStats = (case as_eco_stats (kv_get st (key2 ''eco_stats'' u)) of
                        None \<Rightarrow> empty_eco_stats | Some e \<Rightarrow> e);
          ecoStats' = ecoStats\<lparr>total_eco_points := total_eco_points ecoStats + ecoPoints,
                               total_co2_saved := total_co2_saved ecoStats + co2Saved,
                               sustainable_purchases := sustainable_purchases ecoStats + 1\<rparr>;
          st1 = kv_set (key2 ''eco_stats'' u) (VEcoStats ecoStats') st
      in updateUserPoints now u ecoPoints st1)"

subsection \<open>Routes\<close>

definition health :: "string \<Rightarrow> response" where
  "health now = (200, RHealth now)"

text \<open>
  \<open>POST /auth/signup\<close>. \<open>supabase.auth.admin.createUser\<close> is the identity service:
  its answer \<open>createUser\<close> is an error message or the created user (possibly absent).
\<close>

definition signup ::
  "(string + uid option) \<Rightarrow> signup_body option \<Rightarrow> string \<Rightarrow> store \<Rightarrow> response \<times> store" where
  "signup createUser body now st =
     (case body of
        None \<Rightarrow> (internal_error, st)
      | Some b \<Rightarrow>
          (case createUser of
             Inl msg \<Rightarrow> ((400, RError msg), st)
           | Inr user \<Rightarrow>
               (let st' = (case user of
                             None \<Rightarrow> st
                           | Some u \<Rightarrow>
                               kv_set (profile_key u)
                                 (VProfile \<lparr>user_id = u, name = su_name b, email = su_email b,
                                    level = Some 1, total_xp = Some 0, streak_days = Some 0,
                                    total_points = Some 0, created_at = now, updated_at = now\<rparr>) st)
                in ((200, RUser user), st'))))"

definition get_profile :: "(string \<Rightarrow> uid option) \<Rightarrow> string option \<Rightarrow> store \<Rightarrow> response" where
  "get_profile getUser hdr st =
     (case verifyUser getUser hdr of
        None \<Rightarrow> unauthorized
      | Some u \<Rightarrow>
          (case kv_get st (profile_key u) of
             None \<Rightarrow> (404, RError ''Profile not found'')
           | Some v \<Rightarrow> (200, RProfile v)))"

definition apply_update :: "profile_update \<Rightarrow> profile \<Rightarrow> profile" where
  "apply_update upd p =
     p\<lparr>user_id := spread_field (upd_user_id upd) (user_id p),
       name := spread_field (upd_name upd) (name p),
       email := spread_field (upd_email upd) (email p),
       level := spread_field (upd_level upd) (level p),
       total_xp := spread_field (upd_total_xp upd) (total_xp p),
       streak_days := spread_field (upd_streak_days upd) (streak_days p),
       total_points := spread_field (upd_total_points upd) (total_points p),
       created_at := spread_field (upd_created_at upd) (created_at p)\<rparr>"

text \<open>
  \<open>PUT /profile\<close>. A stored value of another kind under a profile key is never
  written by any route (\<open>Server_Invariants\<close>); the model answers it with the
  handler's error response.
\<close>

definition put_profile ::
  "(string \<Rightarrow> uid option) \<Rightarrow> string option \<Rightarrow> profile_update option \<Rightarrow> string \<Rightarrow> store \<Rightarrow>
   response \<times> store" where
  "put_profile getUser hdr body now st =
     (case verifyUser getUser hdr of
        None \<Rightarrow> (unauthorized, st)
      | Some u \<Rightarrow>
          (case body of
             None \<Rightarrow> (internal_error, st)
           | Some upd \<Rightarrow>
               (case kv_get st (profile_key u) of
                  None \<Rightarrow> ((404, RError ''Profile not found''), st)
                | Some (VProfile p) \<Rightarrow>
                    (let p' = (apply_update upd p)\<lparr>updated_at := now\<rparr>
                     in ((200, RProfile (VProfile p')), kv_set (profile_key u) (VProfile p') st))
                | Some _ \<Rightarrow> (internal_error, st))))"

definition post_progress ::
  "(string \<Rightarrow> uid option) \<Rightarrow> string option \<Rightarrow> progress_body option \<Rightarrow> string \<Rightarrow> store \<Rightarrow>
   response \<times> store" where
  "post_progress getUser hdr body now st =
     (case verifyUser getUser hdr of
        None \<Rightarrow> (unauthorized, st)
      | Some u \<Rightarrow>
          (case body of
             None \<Rightarrow> (internal_error, st)
           | Some b \<Rightarrow>
               (let pd = \<lparr>progress_user_id = u, module_id = pb_module_id b,
                          progress_module_name = pb_module_name b,
                          progress_percentage = pb_progress_percentage b,
                          lessons_completed = pb_lessons_completed b,
                          total_lessons = pb_total_lessons b, last_accessed = now\<rparr>;
                    st1 = kv_set (progress_key u (pb_module_id b)) (VProgress pd) st;
                    xpGained = pb_lessons_completed b * 25;
                    st2 = updateUserXP now u xpGained st1
                in ((200, RProgressSaved pd xpGained), st2))))"

definition get_progress :: "(string \<Rightarrow> uid option) \<Rightarrow> string option \<Rightarrow> store \<Rightarrow> response" where
  "get_progress getUser hdr st =
     (case verifyUser getUser hdr of
        None \<Rightarrow> unauthorized
      | Some u \<Rightarrow> (200, RValues (kv_getByPrefix st (''progress'' @ colon @ u @ colon))))"

text \<open>
  \<open>POST /eco-actions\<close>: \<open>Math.floor(eco_rating * amount * 0.1)\<close> eco points and
  \<open>eco_rating * 0.5\<close> kg CO2, computed on exact rationals.
\<close>

definition eco_points_of :: "js_int \<Rightarrow> rat \<Rightarrow> js_int" where
  "eco_points_of rating amount = \<lfloor>of_int rating * amount * (1 / 10)\<rfloor>"

definition post_eco ::
  "(string \<Rightarrow> uid option) \<Rightarrow> string option \<Rightarrow> eco_body option \<Rightarrow> string \<Rightarrow> string \<Rightarrow> store \<Rightarrow>
   response \<times> store" where
  "post_eco getUser hdr body fresh now st =
     (case verifyUser getUser hdr of
        None \<Rightarrow> (unauthorized, st)
      | Some u \<Rightarrow>
          (case body of
             None \<Rightarrow> (internal_error, st)
           | Some b \<Rightarrow>
               (let ecoPoints = eco_points_of (eb_eco_rating b) (eb_amount b);
                    co2Saved = of_int (eb_eco_rating b) * (1 / 2);
                    ea = \<lparr>eco_id = fresh, eco_user_id = u, item_name = eb_item_name b,
                          eco_amount = eb_amount b, eco_category = eb_category b,
                          eco_points = ecoPoints, co2_saved = co2Saved, eco_created_at = now\<rparr>;
                    st1 = kv_set (key3 ''eco'' u fresh) (VEcoAction ea) st;
                    st2 = updateUserEcoStats now u ecoPoints co2Saved st1
                in ((200, REcoSaved ea ecoPoints), st2))))"

definition post_expense ::
  "(string \<Rightarrow> uid option) \<Rightarrow> string option \<Rightarrow> expense_body option \<Rightarrow> string \<Rightarrow> string \<Rightarrow> store \<Rightarrow>
   response \<times> store" where
  "post_expense getUser hdr body fresh now st =
     (case verifyUser getUser hdr of
        None \<Rightarrow> (unauthorized, st)
      | Some u \<Rightarrow>
          (case body of
             None \<Rightarrow> (internal_error, st)
           | Some b \<Rightarrow>
               (let ex = \<lparr>expense_id = fresh, expense_user_id = u, description = xb_description b,
                          expense_amount = xb_amount b, expense_category = xb_category b,
                          expense_date = xb_date b, expense_created_at = now\<rparr>
                in ((200, RExpense ex), kv_set (key3 ''expense'' u fresh) (VExpense ex) st))))"

definition get_expenses :: "(string \<Rightarrow> uid option) \<Rightarrow> string option \<Rightarrow> store \<Rightarrow> response" where
  "get_expenses getUser hdr st =
     (case verifyUser getUser hdr of
        None \<Rightarrow> unauthorized
      | Some u \<Rightarrow> (200, RValues (kv_getByPrefix st (''expense'' @ colon @ u @ colon))))"

text \<open>\<open>existingAchievements.some(a => a.badge_name === badge_name)\<close>.\<close>

definition already_earned :: "kv_value list \<Rightarrow> string \<Rightarrow> bool" where
  "already_earned vs b =
     list_ex (\<lambda>v. case v of VAchievement a \<Rightarrow> badge_name a = b | _ \<Rightarrow> False) vs"

definition post_achievement ::
  "(string \<Rightarrow> uid option) \<Rightarrow> string option \<Rightarrow> achievement_body option \<Rightarrow> string \<Rightarrow> string \<Rightarrow>
   store \<Rightarrow> response \<times> store" where
  "post_achievement getUser hdr body fresh now st =
     (case verifyUser getUser hdr of
        None \<Rightarrow> (unauthorized, st)
      | Some u \<Rightarrow>
          (case body of
             None \<Rightarrow> (internal_error, st)
           | Some b \<Rightarrow>
               (if already_earned (kv_getByPrefix st (''achievement'' @ colon @ u @ colon)) (ab_badge_name b)
                then ((400, RError ''Achievement already earned''), st)
                else
                  (let a = \<lparr>achievement_id = fresh, achievement_user_id = u,
                            badge_name = ab_badge_name b, badge_description = ab_badge_description b,
                            badge_icon = ab_badge_icon b, points_earned = ab_points_earned b,
                            earned_at = now\<rparr>;
                       st1 = kv_set (key3 ''achievement'' u fresh) (VAchievement a) st
                   in ((200, RAchievement a), updateUserPoints now u (ab_points_earned b) st1)))))"

text \<open>
  \<open>GET /leaderboard\<close>: all profiles, sorted by \<open>(b.total_points || 0) - (a.total_points || 0)\<close>,
  the first 50, ranked from 1. Only profiles are stored under \<open>profile:\<close> keys
  (\<open>Server_Invariants\<close>), so reading the scanned values as profiles drops nothing.
\<close>

definition points_desc :: "profile \<Rightarrow> profile \<Rightarrow> int" where
  "points_desc a b = or_zero (total_points b) - or_zero (total_points a)"

definition lb_entry_of :: "nat \<times> profile \<Rightarrow> lb_entry" where
  "lb_entry_of ip =
     (case ip of (i, p) \<Rightarrow>
        \<lparr>rank = int i + 1, lb_name = name p, lb_level = level p,
         lb_total_points = or_zero (total_points p), lb_user_id = user_id p\<rparr>)"

definition leaderboard_of :: "profile list \<Rightarrow> lb_entry list" where
  "leaderboard_of profiles = map lb_entry_of (enumerate 0 (take 50 (js_sort points_desc profiles)))"

definition get_leaderboard :: "store \<Rightarrow> response" where
  "get_leaderboard st =
     (200, RLeaderboard (leaderboard_of
        (List.map_filter (\<lambda>v. as_profile (Some v)) (kv_getByPrefix st (''profile'' @ colon)))))"

subsection \<open>The API\<close>

text \<open>
  One request of the routing table, with the body as parsed (\<open>None\<close> when
  \<open>c.req.json()\<close> throws), and what the runtime and the identity service supply.
\<close>

datatype request =
    ReqHealth
  | ReqSignup "signup_body option"
  | ReqGetProfile
  | ReqPutProfile "profile_update option"
  | ReqPostProgress "progress_body option"
  | ReqGetProgress
  | ReqPostEco "eco_body option"
  | ReqPostExpense "expense_body option"
  | ReqGetExpenses
  | ReqPostAchievement "achievement_body option"
  | ReqGetLeaderboard

record env =
  env_getUser :: "string \<Rightarrow> uid option"
  env_createUser :: "string + uid option"
  env_now :: string
  env_fresh :: string

fun serve :: "env \<Rightarrow> string option \<Rightarrow> request \<Rightarrow> store \<Rightarrow> response \<times> store" where
  "serve e hdr ReqHealth st = (health (env_now e), st)"
| "serve e hdr (ReqSignup b) st = signup (env_createUser e) b (env_now e) st"
| "serve e hdr ReqGetProfile st = (get_profile (env_getUser e) hdr st, st)"
| "serve e hdr (ReqPutProfile b) st = put_profile (env_getUser e) hdr b (env_now e) st"
| "serve e hdr (ReqPostProgress b) st = post_progress (env_getUser e) hdr b (env_now e) st"
| "serve e hdr ReqGetProgress st = (get_progress (env_getUser e) hdr st, st)"
| "serve e hdr (ReqPostEco b) st = post_eco (env_getUser e) hdr b (env_fresh e) (env_now e) st"
| "serve e hdr (ReqPostExpense b) st = post_expense (env_getUser e) hdr b (env_fresh e) (env_now e) st"
| "serve e hdr ReqGetExpenses st = (get_expenses (env_getUser e) hdr st, st)"
| "serve e hdr (ReqPostAchievement b) st =
     post_achievement (env_getUser e) hdr b (env_fresh e) (env_now e) st"
| "serve e hdr ReqGetLeaderboard st = (get_leaderboard st, st)"

declare profile_key_def [handler_defs] progress_key_def [handler_defs] as_profile_def [handler_defs]
  as_eco_stats_def [handler_defs] updateUserXP_def [handler_defs] updateUserPoints_def [handler_defs]
  updateUserEcoStats_def [handler_defs] empty_eco_stats_def [handler_defs] verifyUser_def [handler_defs]
  bearer_token_def [handler_defs]

end
