(* ===== verification/Server_Invariants.thy ===== *)
theory Server_Invariants
  imports Server
begin

text \<open>
  Invariants of the store across requests. \<open>store_ok\<close>: keys are distinct and every
  value is of the kind its key names (the text before the first colon).
  \<open>levels_ok\<close>: every stored profile's level is \<open>floor(total_xp / 1000) + 1\<close>.
  \<open>badges_distinct\<close>: no user holds two achievements with the same badge name.
  \<open>owners_ok\<close>: a progress record, eco action, expense or achievement stored under
  \<open>kind:uid:...\<close> carries that user id.
  The step lemmas show which routes keep which invariant; the user ids the identity
  service hands out are assumed colon-free (\<open>ids_ok\<close>), as UUIDs are.
\<close>

definition key_kind :: "string \<Rightarrow> string" where
  "key_kind k = takeWhile (\<lambda>c. c \<noteq> CHR '':'') k"

definition kind_ok :: "string \<Rightarrow> kv_value \<Rightarrow> bool" where
  "kind_ok k v =
     (case v of
        VProfile _ \<Rightarrow> key_kind k = ''profile''
      | VProgress _ \<Rightarrow> key_kind k = ''progress''
      | VEcoAction _ \<Rightarrow> key_kind k = ''eco''
      | VExpense _ \<Rightarrow> key_kind k = ''expense''
      | VAchievement _ \<Rightarrow> key_kind k = ''achievement''
      | VEcoStats _ \<Rightarrow> key_kind k = ''eco_stats'')"

definition store_ok :: "store \<Rightarrow> bool" where
  "store_ok st \<longleftrightarrow> distinct (map fst st) \<and> (\<forall>(k, v) \<in> set st. kind_ok k v)"

definition level_ok :: "profile \<Rightarrow> bool" where
  "level_ok p \<longleftrightarrow> level p = Some (or_zero (total_xp p) div 1000 + 1)"

definition levels_ok :: "store \<Rightarrow> bool" where
  "levels_ok st \<longleftrightarrow> (\<forall>(k, v) \<in> set st. case v of VProfile p \<Rightarrow> level_ok p | _ \<Rightarrow> True)"

definition badge_of :: "kv_value \<Rightarrow> string option" where
  "badge_of v = (case v of VAchievement a \<Rightarrow> Some (badge_name a) | _ \<Rightarrow> None)"

definition achievement_prefix :: "uid \<Rightarrow> string" where
  "achievement_prefix u = ''achievement'' @ colon @ u @ colon"

definition badges_distinct :: "store \<Rightarrow> bool" where
  "badges_distinct st \<longleftrightarrow>
     (\<forall>u. no_colon u \<longrightarrow> distinct (map badge_of (kv_getByPrefix st (achievement_prefix u))))"

definition ids_ok :: "env \<Rightarrow> bool" where
  "ids_ok e \<longleftrightarrow>
     (\<forall>t u. env_getUser e t = Some u \<longrightarrow> no_colon u) \<and>
     (\<forall>u. env_createUser e = Inr (Some u) \<longrightarrow> no_colon u) \<and> no_colon (env_fresh e)"

definition key_owner :: "string \<Rightarrow> string" where
  "key_owner k = takeWhile (\<lambda>c. c \<noteq> CHR '':'') (drop 1 (dropWhile (\<lambda>c. c \<noteq> CHR '':'') k))"

definition owner_ok :: "string \<Rightarrow> kv_value \<Rightarrow> bool" where
  "owner_ok k v =
     (case v of
        VProgress p \<Rightarrow> key_owner k = progress_user_id p
      | VEcoAction a \<Rightarrow> key_owner k = eco_user_id a
      | VExpense x \<Rightarrow> key_owner k = expense_user_id x
      | VAchievement a \<Rightarrow> key_owner k = achievement_user_id a
      | _ \<Rightarrow> True)"

definition owners_ok :: "store \<Rightarrow> bool" where
  "owners_ok st \<longleftrightarrow> (\<forall>(k, v) \<in> set st. owner_ok k v)"

inductive server_reachable :: "store \<Rightarrow> bool" where
  empty: "server_reachable []"
| serve: "server_reachable st \<Longrightarrow> ids_ok e \<Longrightarrow> server_reachable (snd (serve e hdr req st))"

subsection \<open>The association list\<close>

lemma set_update_subset: "set (AList.update k v al) \<subseteq> insert (k, v) (set al)"
  by (induction al) auto

lemma key_kind_key2 [simp]:
  "no_colon kind \<Longrightarrow> key_kind (key2 kind a) = kind"
  unfolding key_kind_def key2_def colon_def no_colon_def by (subst takeWhile_append2) auto

lemma key_kind_key3 [simp]:
  "no_colon kind \<Longrightarrow> key_kind (key3 kind a b) = kind"
  unfolding key_kind_def key3_def colon_def no_colon_def by (subst takeWhile_append2) auto

lemma store_ok_set:
  assumes "store_ok st" and "kind_ok k v"
  shows "store_ok (kv_set k v st)"
  using assms set_update_subset[of k v st]
  by (auto simp: store_ok_def kv_set_def distinct_update)

lemma levels_ok_set:
  assumes "levels_ok st" and "case v of VProfile p \<Rightarrow> level_ok p | _ \<Rightarrow> True"
  shows "levels_ok (kv_set k v st)"
  using assms set_update_subset[of k v st] unfolding levels_ok_def kv_set_def by blast

subsection \<open>Routes keep the invariants\<close>

lemma kind_ok_simps [simp]:
  "kind_ok (profile_key u) (VProfile p)"
  "kind_ok (progress_key u m) (VProgress pr)"
  "kind_ok (key3 ''eco'' u f) (VEcoAction ea)"
  "kind_ok (key3 ''expense'' u f) (VExpense ex)"
  "kind_ok (key3 ''achievement'' u f) (VAchievement a)"
  "kind_ok (key2 ''eco_stats'' u) (VEcoStats es)"
  by (simp_all add: kind_ok_def profile_key_def progress_key_def no_colon_def)

lemma store_ok_updateUserXP: "store_ok st \<Longrightarrow> store_ok (updateUserXP now u x st)"
  by (auto simp: updateUserXP_def Let_def split: option.splits intro: store_ok_set)

lemma store_ok_updateUserPoints: "store_ok st \<Longrightarrow> store_ok (updateUserPoints now u x st)"
  by (auto simp: updateUserPoints_def split: option.splits intro: store_ok_set)

lemma store_ok_updateUserEcoStats: "store_ok st \<Longrightarrow> store_ok (updateUserEcoStats now u x c st)"
  unfolding updateUserEcoStats_def Let_def by (intro store_ok_updateUserPoints store_ok_set) simp_all

lemma serve_store_ok:
  assumes "store_ok st"
  shows "store_ok (snd (serve e hdr req st))"
  using assms
  by (cases req) (auto simp: signup_def put_profile_def post_progress_def post_eco_def post_expense_def
      post_achievement_def Let_def split: option.splits sum.splits kv_value.splits
      intro!: store_ok_set store_ok_updateUserXP store_ok_updateUserEcoStats store_ok_updateUserPoints)

lemma kv_get_in_set: "kv_get st k = Some v \<Longrightarrow> (k, v) \<in> set st"
  by (simp add: kv_get_def map_of_SomeD)

lemma levels_ok_updateUserXP: "levels_ok st \<Longrightarrow> levels_ok (updateUserXP now u x st)"
  by (auto simp: updateUserXP_def Let_def level_ok_def split: option.splits intro!: levels_ok_set)

lemma levels_ok_profile_at:
  "levels_ok st \<Longrightarrow> as_profile (kv_get st k) = Some p \<Longrightarrow> level_ok p"
  by (auto simp: as_profile_def levels_ok_def split: option.splits kv_value.splits dest!: kv_get_in_set)

lemma levels_ok_updateUserPoints: "levels_ok st \<Longrightarrow> levels_ok (updateUserPoints now u x st)"
  by (auto simp: updateUserPoints_def level_ok_def split: option.splits intro!: levels_ok_set
      dest: levels_ok_profile_at)

lemma levels_ok_updateUserEcoStats: "levels_ok st \<Longrightarrow> levels_ok (updateUserEcoStats now u x c st)"
  by (auto simp: updateUserEcoStats_def Let_def intro!: levels_ok_updateUserPoints levels_ok_set)

lemma serve_levels_ok:
  assumes "levels_ok st" and "\<forall>b. req \<noteq> ReqPutProfile b"
  shows "levels_ok (snd (serve e hdr req st))"
  using assms
  by (cases req) (auto simp: signup_def post_progress_def post_eco_def post_expense_def
      post_achievement_def level_ok_def Let_def split: option.splits sum.splits
      intro!: levels_ok_set levels_ok_updateUserXP levels_ok_updateUserEcoStats levels_ok_updateUserPoints)

lemma filter_update_key:
  "P k \<Longrightarrow> filter (\<lambda>(k', _). P k') (AList.update k v al) = AList.update k v (filter (\<lambda>(k', _). P k') al)"
  by (induction al) auto

lemma kv_getByPrefix_set_prefix:
  "prefix p k \<Longrightarrow>
     kv_getByPrefix (kv_set k v st) p = map snd (AList.update k v (filter (\<lambda>(k', _). prefix p k') st))"
  by (simp add: kv_getByPrefix_def kv_set_def filter_update_key)

lemma distinct_map_update:
  "distinct (map (g \<circ> snd) xs) \<Longrightarrow> g v \<notin> (g \<circ> snd) ` set xs \<Longrightarrow>
     distinct (map (g \<circ> snd) (AList.update k v xs))"
proof (induction xs)
  case Nil
  then show ?case by simp
next
  case (Cons x xs)
  have "(g \<circ> snd) ` set (AList.update k v xs) \<subseteq> insert (g v) ((g \<circ> snd) ` set xs)"
    using set_update_subset[of k v xs] by auto
  with Cons show ?case by (cases x) auto
qed

lemma badges_distinct_set_other:
  assumes "badges_distinct st" and "\<And>u. no_colon u \<Longrightarrow> \<not> prefix (achievement_prefix u) k"
  shows "badges_distinct (kv_set k v st)"
  using assms by (simp add: badges_distinct_def kv_getByPrefix_set_other)

lemma not_achievement_prefix [simp]:
  "\<not> prefix (achievement_prefix u) (profile_key w)"
  "\<not> prefix (achievement_prefix u) (progress_key w m)"
  "\<not> prefix (achievement_prefix u) (key3 ''eco'' w f)"
  "\<not> prefix (achievement_prefix u) (key3 ''expense'' w f)"
  "\<not> prefix (achievement_prefix u) (key2 ''eco_stats'' w)"
  by (simp_all add: achievement_prefix_def profile_key_def progress_key_def key2_def key3_def)

lemma badges_distinct_updateUserXP: "badges_distinct st \<Longrightarrow> badges_distinct (updateUserXP now u x st)"
  by (auto simp: updateUserXP_def Let_def split: option.splits intro!: badges_distinct_set_other)

lemma badges_distinct_updateUserPoints:
  "badges_distinct st \<Longrightarrow> badges_distinct (updateUserPoints now u x st)"
  by (auto simp: updateUserPoints_def split: option.splits intro!: badges_distinct_set_other)

lemma badges_distinct_updateUserEcoStats:
  "badges_distinct st \<Longrightarrow> badges_distinct (updateUserEcoStats now u x c st)"
  unfolding updateUserEcoStats_def Let_def
  by (intro badges_distinct_updateUserPoints badges_distinct_set_other) simp_all

lemma badges_distinct_add:
  assumes "badges_distinct st" and "no_colon w"
    and "\<not> already_earned (kv_getByPrefix st (achievement_prefix w)) (badge_name a)"
  shows "badges_distinct (kv_set (key3 ''achievement'' w f) (VAchievement a) st)"
  unfolding badges_distinct_def
proof (intro allI impI)
  fix u assume u: "no_colon u"
  show "distinct (map badge_of (kv_getByPrefix (kv_set (key3 ''achievement'' w f) (VAchievement a) st)
          (achievement_prefix u)))"
  proof (cases "u = w")
    case False
    have "\<not> prefix (achievement_prefix u) (key3 ''achievement'' w f)"
      unfolding achievement_prefix_def by (rule prefix_key3_other[OF u assms(2)]) (use False in auto)
    then show ?thesis using assms(1) u by (simp add: badges_distinct_def kv_getByPrefix_set_other)
  next
    case True
    let ?xs = "filter (\<lambda>(k', _). prefix (achievement_prefix w) k') st"
    have pre: "prefix (achievement_prefix w) (key3 ''achievement'' w f)"
      by (simp add: achievement_prefix_def key3_def)
    have d: "distinct (map (badge_of \<circ> snd) ?xs)"
      using assms(1,2) by (simp add: badges_distinct_def kv_getByPrefix_def)
    have n: "badge_of (VAchievement a) \<notin> (badge_of \<circ> snd) ` set ?xs"
      using assms(3)
      by (force simp: already_earned_def kv_getByPrefix_def list_ex_iff badge_of_def
          split: kv_value.splits)
    show ?thesis
      using distinct_map_update[OF d n] True
      by (simp add: kv_getByPrefix_set_prefix[OF pre])
  qed
qed

lemma verifyUser_ids_ok:
  "ids_ok e \<Longrightarrow> verifyUser (env_getUser e) hdr = Some w \<Longrightarrow> no_colon w"
  by (auto simp: ids_ok_def verifyUser_def split: option.splits if_splits)

lemma serve_badges_distinct:
  assumes "ids_ok e" and "badges_distinct st"
  shows "badges_distinct (snd (serve e hdr req st))"
proof (cases req)
  case (ReqPostAchievement b)
  then show ?thesis
    using assms
    by (auto simp: post_achievement_def achievement_prefix_def Let_def split: option.splits
        dest: verifyUser_ids_ok
        intro!: badges_distinct_updateUserPoints badges_distinct_add[unfolded achievement_prefix_def])
qed (use assms in \<open>auto simp: signup_def put_profile_def post_progress_def post_eco_def post_expense_def
      Let_def split: option.splits sum.splits kv_value.splits
      intro!: badges_distinct_set_other badges_distinct_updateUserXP badges_distinct_updateUserEcoStats\<close>)

lemma key_owner_prefix:
  assumes "no_colon kind" and "no_colon u" and "prefix (kind @ colon @ u @ colon) k"
  shows "key_owner k = u"
proof -
  obtain r where k: "k = kind @ '':'' @ u @ '':'' @ r"
    using assms(3) by (auto simp: prefix_def colon_def)
  have "dropWhile (\<lambda>c. c \<noteq> CHR '':'') k = '':'' @ u @ '':'' @ r"
    using assms(1) unfolding k no_colon_def by (subst dropWhile_append2) auto
  then show ?thesis
    using assms(2) unfolding key_owner_def no_colon_def by simp (subst takeWhile_append2; auto)
qed

lemma key_owner_key3 [simp]: "no_colon kind \<Longrightarrow> no_colon u \<Longrightarrow> key_owner (key3 kind u b) = u"
  by (rule key_owner_prefix) (auto simp: key3_def)

lemma owners_ok_set:
  assumes "owners_ok st" and "owner_ok k v"
  shows "owners_ok (kv_set k v st)"
  using assms set_update_subset[of k v st] unfolding owners_ok_def kv_set_def by blast

lemma owner_ok_simps [simp]:
  "owner_ok k (VProfile p)" "owner_ok k (VEcoStats es)"
  "no_colon u \<Longrightarrow> owner_ok (progress_key u m) (VProgress pr) \<longleftrightarrow> progress_user_id pr = u"
  "no_colon u \<Longrightarrow> owner_ok (key3 ''eco'' u f) (VEcoAction ea) \<longleftrightarrow> eco_user_id ea = u"
  "no_colon u \<Longrightarrow> owner_ok (key3 ''expense'' u f) (VExpense ex) \<longleftrightarrow> expense_user_id ex = u"
  "no_colon u \<Longrightarrow> owner_ok (key3 ''achievement'' u f) (VAchievement a) \<longleftrightarrow> achievement_user_id a = u"
  by (auto simp: owner_ok_def progress_key_def no_colon_def)

lemma owners_ok_updateUserXP: "owners_ok st \<Longrightarrow> owners_ok (updateUserXP now u x st)"
  by (auto simp: updateUserXP_def Let_def split: option.splits intro: owners_ok_set)

lemma owners_ok_updateUserPoints: "owners_ok st \<Longrightarrow> owners_ok (updateUserPoints now u x st)"
  by (auto simp: updateUserPoints_def split: option.splits intro: owners_ok_set)

lemma owners_ok_updateUserEcoStats: "owners_ok st \<Longrightarrow> owners_ok (updateUserEcoStats now u x c st)"
  unfolding updateUserEcoStats_def Let_def by (intro owners_ok_updateUserPoints owners_ok_set) simp_all

lemma serve_owners_ok:
  assumes "ids_ok e" and "owners_ok st"
  shows "owners_ok (snd (serve e hdr req st))"
  using assms
  by (cases req) (auto simp: signup_def put_profile_def post_progress_def post_eco_def post_expense_def
      post_achievement_def Let_def split: option.splits sum.splits kv_value.splits
      dest: verifyUser_ids_ok
      intro!: owners_ok_set owners_ok_updateUserXP owners_ok_updateUserEcoStats owners_ok_updateUserPoints)

lemma owners_ok_scan:
  assumes "owners_ok st" and "no_colon kind" and "no_colon u"
    and "v \<in> set (kv_getByPrefix st (kind @ colon @ u @ colon))"
  shows "\<exists>k. key_owner k = u \<and> owner_ok k v"
proof -
  obtain k where "(k, v) \<in> set st" and "prefix (kind @ colon @ u @ colon) k"
    using assms(4) by (auto simp: set_kv_getByPrefix)
  then show ?thesis using assms(1-3) key_owner_prefix by (fastforce simp: owners_ok_def)
qed

lemma server_reachable_inv:
  "server_reachable st \<Longrightarrow> store_ok st \<and> badges_distinct st \<and> owners_ok st"
proof (induction rule: server_reachable.induct)
  case empty
  show ?case by (simp add: store_ok_def badges_distinct_def owners_ok_def kv_getByPrefix_def)
next
  case (serve st e hdr req)
  then show ?case using serve_store_ok serve_badges_distinct serve_owners_ok by blast
qed

subsection \<open>Route behaviour\<close>

lemma key_distinct [simp]:
  "profile_key u \<noteq> progress_key w m" "progress_key w m \<noteq> profile_key u"
  "profile_key u \<noteq> key2 ''eco_stats'' w" "key2 ''eco_stats'' w \<noteq> profile_key u"
  "profile_key u \<noteq> key3 ''eco'' w f" "key3 ''eco'' w f \<noteq> profile_key u"
  "profile_key u \<noteq> key3 ''achievement'' w f" "key3 ''achievement'' w f \<noteq> profile_key u"
  "key2 ''eco_stats'' u \<noteq> key3 ''eco'' w f" "key3 ''eco'' w f \<noteq> key2 ''eco_stats'' u"
  "profile_key u \<noteq> key3 ''expense'' w f" "key3 ''expense'' w f \<noteq> profile_key u"
  by (simp_all add: profile_key_def progress_key_def key2_def key3_def colon_def)

lemma profile_after_updateUserXP:
  assumes "as_profile (kv_get st (profile_key u)) = Some p"
  shows "as_profile (kv_get (updateUserXP now u x st) (profile_key u)) =
           Some (p\<lparr>total_xp := Some (or_zero (total_xp p) + x),
                   level := Some ((or_zero (total_xp p) + x) div 1000 + 1), updated_at := now\<rparr>)"
  using assms by (simp add: updateUserXP_def as_profile_def Let_def)

lemma profile_after_updateUserPoints:
  assumes "as_profile (kv_get st (profile_key u)) = Some p"
  shows "as_profile (kv_get (updateUserPoints now u x st) (profile_key u)) =
           Some (p\<lparr>total_points := Some (or_zero (total_points p) + x), updated_at := now\<rparr>)"
  using assms by (simp add: updateUserPoints_def as_profile_def)

lemma kv_get_updateUserXP_other:
  "k \<noteq> profile_key u \<Longrightarrow> kv_get (updateUserXP now u x st) k = kv_get st k"
  by (simp add: updateUserXP_def Let_def split: option.splits)

lemma kv_get_updateUserPoints_other:
  "k \<noteq> profile_key u \<Longrightarrow> kv_get (updateUserPoints now u x st) k = kv_get st k"
  by (simp add: updateUserPoints_def split: option.splits)

lemma post_progress_profile:
  assumes "verifyUser g hdr = Some u" and "as_profile (kv_get st (profile_key u)) = Some p"
  shows "as_profile (kv_get (snd (post_progress g hdr (Some b) now st)) (profile_key u)) =
           Some (p\<lparr>total_xp := Some (or_zero (total_xp p) + pb_lessons_completed b * 25),
                   level := Some ((or_zero (total_xp p) + pb_lessons_completed b * 25) div 1000 + 1),
                   updated_at := now\<rparr>)"
  using assms by (simp add: post_progress_def Let_def profile_after_updateUserXP)

lemma post_progress_record:
  assumes "verifyUser g hdr = Some u"
  shows "kv_get (snd (post_progress g hdr (Some b) now st)) (progress_key u (pb_module_id b)) =
           Some (VProgress \<lparr>progress_user_id = u, module_id = pb_module_id b,
                          progress_module_name = pb_module_name b,
                          progress_percentage = pb_progress_percentage b,
                          lessons_completed = pb_lessons_completed b,
                          total_lessons = pb_total_lessons b, last_accessed = now\<rparr>)"
proof -
  have "progress_key u (pb_module_id b) \<noteq> profile_key u" by simp
  then show ?thesis
    using assms unfolding post_progress_def Let_def
    by (simp only: option.case snd_conv kv_get_updateUserXP_other kv_get_set if_True not_False_eq_True simp_thms)
qed

lemma eco_points_floor:
  "of_int (eco_points_of r a) \<le> of_int r * a / 10 \<and> of_int r * a / 10 < of_int (eco_points_of r a) + 1"
proof -
  have e: "of_int r * a * (1 / 10) = of_int r * a / 10" by simp
  show ?thesis
    unfolding eco_points_of_def e using floor_correct[of "of_int r * a / 10"] by simp
qed

lemma post_eco_profile:
  assumes "verifyUser g hdr = Some u" and "as_profile (kv_get st (profile_key u)) = Some p"
  shows "as_profile (kv_get (snd (post_eco g hdr (Some b) fresh now st)) (profile_key u)) =
           Some (p\<lparr>total_points := Some (or_zero (total_points p) + eco_points_of (eb_eco_rating b) (eb_amount b)),
                   updated_at := now\<rparr>)"
  using assms by (simp add: post_eco_def updateUserEcoStats_def Let_def profile_after_updateUserPoints)

lemma post_expense_profile:
  "kv_get (snd (post_expense g hdr b fresh now st)) (profile_key u) = kv_get st (profile_key u)"
  by (simp add: post_expense_def Let_def split: option.splits)

lemma post_eco_shape:
  "verifyUser g hdr = Some u \<Longrightarrow>
     \<exists>ea st'. post_eco g hdr (Some b) fresh now st =
            ((200, REcoSaved ea (eco_points_of (eb_eco_rating b) (eb_amount b))), st')"
  by (simp add: post_eco_def Let_def)

lemma post_expense_shape:
  "verifyUser g hdr = Some u \<Longrightarrow>
     \<exists>x st'. post_expense g hdr (Some b) fresh now st = ((200, RExpense x), st')"
  by (simp add: post_expense_def Let_def)

lemma post_progress_shape:
  "verifyUser g hdr = Some u \<Longrightarrow>
     \<exists>pd st'. post_progress g hdr (Some b) now st =
            ((200, RProgressSaved pd (pb_lessons_completed b * 25)), st')"
  by (simp add: post_progress_def Let_def)

end
