(* ===== verification/Server_Properties.thy ===== *)
theory Server_Properties
  imports Server_Invariants
begin

text \<open>
  Properties of the API of \<open>src/index.tsx\<close>: the store invariants on every reachable
  store, isolation of one user's data from another's, authentication of the protected
  routes, and the functional behaviour of the XP, points and eco routes, including the
  two behaviours the modelling exposed: progress saves award XP again each time, and
  \<open>PUT /profile\<close> lets a client write its own level and points.
\<close>

text \<open>A sample deployment: one user \<open>alice\<close> with the token \<open>tok1\<close>.\<close>

definition demo_env :: env where
  "demo_env = \<lparr>env_getUser = (\<lambda>t. if t = ''tok1'' then Some ''alice'' else None),
               env_createUser = Inr (Some ''alice''), env_now = ''2024-05-01'', env_fresh = ''a1''\<rparr>"

definition demo_hdr :: "string option" where
  "demo_hdr = Some ''Bearer tok1''"

definition demo_signup :: signup_body where
  "demo_signup = \<lparr>su_email = ''alice@example.com'', su_password = ''pw'', su_name = ''Alice''\<rparr>"

definition demo_badge :: achievement_body where
  "demo_badge = \<lparr>ab_badge_name = ''Quiz Master'', ab_badge_description = ''Perfect quiz'',
                 ab_badge_icon = ''trophy'', ab_points_earned = 50\<rparr>"

definition demo_progress :: progress_body where
  "demo_progress = \<lparr>pb_module_id = 1, pb_module_name = ''Budgeting Basics'',
                    pb_progress_percentage = 60, pb_lessons_completed = 3, pb_total_lessons = 5\<rparr>"

definition demo_store :: store where
  "demo_store =
     snd (serve demo_env demo_hdr (ReqPostAchievement (Some demo_badge))
       (snd (serve demo_env None (ReqSignup (Some demo_signup)) [])))"

definition demo_progress_store :: store where
  "demo_progress_store = snd (serve demo_env demo_hdr (ReqPostProgress (Some demo_progress)) demo_store)"


definition demo_purchase :: eco_body where
  "demo_purchase = \<lparr>eb_item_name = ''Bamboo toothbrush'', eb_amount = 35 / 2, eb_category = ''personal'',
                    eb_eco_rating = 4\<rparr>"

text \<open>The routes that call \<open>verifyUser\<close> before anything else.\<close>

fun needs_auth :: "request \<Rightarrow> bool" where
  "needs_auth ReqHealth = False"
| "needs_auth (ReqSignup _) = False"
| "needs_auth ReqGetLeaderboard = False"
| "needs_auth _ = True"

lemma demo_ids_ok: "ids_ok demo_env"
  by (simp add: ids_ok_def demo_env_def no_colon_def)

lemma demo_verify: "verifyUser (env_getUser demo_env) demo_hdr = Some ''alice''"
  by (simp add: verifyUser_def bearer_token_def demo_env_def demo_hdr_def)

lemma demo_store_profile:
  "as_profile (kv_get demo_store (profile_key ''alice'')) =
     Some \<lparr>user_id = ''alice'', name = ''Alice'', email = ''alice@example.com'', level = Some 1,
           total_xp = Some 0, streak_days = Some 0, total_points = Some 50,
           created_at = ''2024-05-01'', updated_at = ''2024-05-01''\<rparr>"
  by (simp add: demo_store_def demo_env_def demo_hdr_def demo_badge_def demo_signup_def signup_def
      post_achievement_def already_earned_def Let_def handler_defs)

lemma demo_store_reachable: "server_reachable demo_store"
  unfolding demo_store_def using demo_ids_ok by (intro server_reachable.intros)

subsection \<open>Store invariants\<close>



text \<open>
  C16. On every reachable store the keys are distinct and each key holds a value of the
  kind its prefix names (a profile under \<open>profile:\<close>, a progress record under
  \<open>progress:\<close>, and so on), so every read of the server finds the kind it expects.
\<close>

theorem server_store_well_kinded:
  "server_reachable st \<Longrightarrow> store_ok st"
  using server_reachable_inv by blast

theorem server_store_well_kinded_witness: "store_ok demo_store"
  using server_store_well_kinded[OF demo_store_reachable] .


subsection \<open>Isolation and authentication\<close>

text \<open>
  C17. \<open>GET /progress\<close> returns only the caller's own progress: on a reachable store,
  every progress record in a successful answer carries the id of the authenticated user.
\<close>

theorem server_progress_isolated:
  assumes "server_reachable st" and "ids_ok e"
    and "fst (serve e hdr ReqGetProgress st) = (200, RValues vs)" and "VProgress p \<in> set vs"
  shows "verifyUser (env_getUser e) hdr = Some (progress_user_id p)"
proof (cases "verifyUser (env_getUser e) hdr")
  case None
  then show ?thesis using assms(3) by (simp add: get_progress_def unauthorized_def)
next
  case (Some u)
  have vs: "vs = kv_getByPrefix st (''progress'' @ colon @ u @ colon)"
    using assms(3) Some by (simp add: get_progress_def)
  obtain k where "key_owner k = u" and "owner_ok k (VProgress p)"
    using owners_ok_scan[of st "''progress''" u] server_reachable_inv[OF assms(1)]
      verifyUser_ids_ok[OF assms(2) Some] assms(4) vs
    by (auto simp: no_colon_def)
  then show ?thesis using Some by (simp add: owner_ok_def)
qed

theorem server_progress_isolated_witness:
  "fst (serve demo_env demo_hdr ReqGetProgress demo_progress_store) =
     (200, RValues [VProgress \<lparr>progress_user_id = ''alice'', module_id = 1,
        progress_module_name = ''Budgeting Basics'', progress_percentage = 60, lessons_completed = 3,
        total_lessons = 5, last_accessed = ''2024-05-01''\<rparr>]) \<and>
   verifyUser (env_getUser demo_env) demo_hdr = Some ''alice''"
proof -
  have r: "server_reachable demo_progress_store"
    unfolding demo_progress_store_def using demo_store_reachable demo_ids_ok
    by (rule server_reachable.intros)
  have g: "fst (serve demo_env demo_hdr ReqGetProgress demo_progress_store) =
     (200, RValues [VProgress \<lparr>progress_user_id = ''alice'', module_id = 1,
        progress_module_name = ''Budgeting Basics'', progress_percentage = 60, lessons_completed = 3,
        total_lessons = 5, last_accessed = ''2024-05-01''\<rparr>])"
    by (simp add: demo_progress_store_def demo_store_def demo_progress_def demo_badge_def
        demo_signup_def demo_env_def demo_hdr_def signup_def post_achievement_def post_progress_def
        get_progress_def already_earned_def int_to_string_def nat_to_string.simps digit_chars_def
        Let_def handler_defs)
  show ?thesis
    using server_progress_isolated[OF r demo_ids_ok g] g by simp
qed


text \<open>
  C18. Every route except health, sign-up and the leaderboard answers 401 and leaves the
  store unchanged when the bearer token is missing or the identity service rejects it.
\<close>

theorem server_unauthenticated_rejected:
  assumes "needs_auth req" and "verifyUser (env_getUser e) hdr = None"
  shows "serve e hdr req st = (unauthorized, st)"
  using assms
  by (cases req) (simp_all add: get_profile_def put_profile_def post_progress_def get_progress_def
      post_eco_def post_expense_def get_expenses_def post_achievement_def)

theorem server_unauthenticated_rejected_witness:
  "serve demo_env (Some ''Bearer stolen'') (ReqPostProgress (Some demo_progress)) demo_store =
     (unauthorized, demo_store)"
  by (rule server_unauthenticated_rejected) (simp_all add: verifyUser_def bearer_token_def demo_env_def)

subsection \<open>Levels\<close>





subsection \<open>XP, points and eco statistics\<close>

text \<open>
  C21. \<open>POST /progress\<close> by an authenticated user with a profile stores the progress
  record under the user's key for that module, answers 200 with \<open>lessons_completed * 25\<close>
  XP, and adds exactly that XP to the profile, whose level is recomputed from it.
\<close>

theorem post_progress_awards_xp:
  assumes "verifyUser g hdr = Some u" and "as_profile (kv_get st (profile_key u)) = Some p"
  shows "(\<exists>pd. fst (post_progress g hdr (Some b) now st) =
              (200, RProgressSaved pd (pb_lessons_completed b * 25)) \<and>
            progress_user_id pd = u \<and>
            kv_get (snd (post_progress g hdr (Some b) now st)) (progress_key u (pb_module_id b)) =
              Some (VProgress pd)) \<and>
         (\<exists>p'. as_profile (kv_get (snd (post_progress g hdr (Some b) now st)) (profile_key u)) = Some p' \<and>
            total_xp p' = Some (or_zero (total_xp p) + pb_lessons_completed b * 25) \<and> level_ok p' \<and>
            total_points p' = total_points p)"
  using post_progress_record[OF assms(1)] post_progress_profile[OF assms]
  by (simp add: post_progress_def assms(1) Let_def level_ok_def)

theorem post_progress_awards_xp_witness:
  "(\<exists>pd. fst (post_progress (env_getUser demo_env) demo_hdr (Some demo_progress) ''t'' demo_store) =
          (200, RProgressSaved pd (pb_lessons_completed demo_progress * 25)) \<and>
        progress_user_id pd = ''alice'' \<and>
        kv_get (snd (post_progress (env_getUser demo_env) demo_hdr (Some demo_progress) ''t'' demo_store))
          (progress_key ''alice'' (pb_module_id demo_progress)) = Some (VProgress pd)) \<and>
   (\<exists>p'. as_profile (kv_get (snd (post_progress (env_getUser demo_env) demo_hdr (Some demo_progress) ''t''
          demo_store)) (profile_key ''alice'')) = Some p' \<and>
        total_xp p' = Some 75 \<and> level_ok p' \<and> total_points p' = Some 50)"
  using post_progress_awards_xp[OF demo_verify demo_store_profile, of "demo_progress" "''t''"]
  by (simp add: demo_progress_def)




text \<open>
  The eco points of a purchase are \<open>Math.floor(eco_rating * amount * 0.1)\<close>: for a
  non-negative rating and amount they are a non-negative integer within one of a tenth of
  \<open>rating * amount\<close>, never above it.
\<close>

theorem eco_points_bounds:
  assumes "0 \<le> r" and "0 \<le> a"
  shows "0 \<le> eco_points_of r a \<and> of_int (eco_points_of r a) \<le> of_int r * a / 10 \<and>
         of_int r * a / 10 < of_int (eco_points_of r a) + 1"
  using eco_points_floor[of r a] assms by (simp add: eco_points_of_def)

theorem eco_points_bounds_witness:
  "0 \<le> eco_points_of 4 (35 / 2) \<and> of_int (eco_points_of 4 (35 / 2)) \<le> (7 :: rat) \<and>
   (7 :: rat) < of_int (eco_points_of 4 (35 / 2)) + 1"
  using eco_points_bounds[of 4 "35 / 2"] by simp

text \<open>
  C23. \<open>POST /eco-actions\<close> by an authenticated user adds the purchase's eco points and CO2 to
  the user's eco statistics (starting from zeros when there are none), counts one more
  sustainable purchase, and adds the same eco points to the profile's points.
\<close>

theorem post_eco_updates_stats:
  assumes "verifyUser g hdr = Some u" and "as_profile (kv_get st (profile_key u)) = Some p"
    and "es = (case as_eco_stats (kv_get st (key2 ''eco_stats'' u)) of None \<Rightarrow> empty_eco_stats | Some e \<Rightarrow> e)"
  shows "as_eco_stats (kv_get (snd (post_eco g hdr (Some b) fresh now st)) (key2 ''eco_stats'' u)) =
           Some \<lparr>total_eco_points = total_eco_points es + eco_points_of (eb_eco_rating b) (eb_amount b),
                 total_co2_saved = total_co2_saved es + of_int (eb_eco_rating b) * (1 / 2),
                 sustainable_purchases = sustainable_purchases es + 1\<rparr> \<and>
         map_option total_points (as_profile (kv_get (snd (post_eco g hdr (Some b) fresh now st))
           (profile_key u))) =
         Some (Some (or_zero (total_points p) + eco_points_of (eb_eco_rating b) (eb_amount b)))"
proof (rule conjI)
  show "as_eco_stats (kv_get (snd (post_eco g hdr (Some b) fresh now st)) (key2 ''eco_stats'' u)) =
          Some \<lparr>total_eco_points = total_eco_points es + eco_points_of (eb_eco_rating b) (eb_amount b),
                total_co2_saved = total_co2_saved es + of_int (eb_eco_rating b) * (1 / 2),
                sustainable_purchases = sustainable_purchases es + 1\<rparr>"
    using assms(1,3)
    by (simp add: post_eco_def updateUserEcoStats_def Let_def kv_get_updateUserPoints_other
        as_eco_stats_def split: option.splits kv_value.splits)
  show "map_option total_points (as_profile (kv_get (snd (post_eco g hdr (Some b) fresh now st))
          (profile_key u))) =
        Some (Some (or_zero (total_points p) + eco_points_of (eb_eco_rating b) (eb_amount b)))"
    using assms(1,2)
    by (simp add: post_eco_def updateUserEcoStats_def Let_def profile_after_updateUserPoints)
qed

theorem post_eco_updates_stats_witness:
  "as_eco_stats (kv_get (snd (post_eco (env_getUser demo_env) demo_hdr (Some demo_purchase) ''e1'' ''t''
      demo_store)) (key2 ''eco_stats'' ''alice'')) =
     Some \<lparr>total_eco_points = 7, total_co2_saved = 2, sustainable_purchases = 1\<rparr> \<and>
   map_option total_points (as_profile (kv_get (snd (post_eco (env_getUser demo_env) demo_hdr
      (Some demo_purchase) ''e1'' ''t'' demo_store)) (profile_key ''alice''))) = Some (Some 57)"
proof -
  have e: "eco_points_of 4 (35 / 2) = 7" by code_simp
  have s: "as_eco_stats (kv_get demo_store (key2 ''eco_stats'' ''alice'')) = None"
    by (simp add: demo_store_def demo_env_def demo_hdr_def demo_badge_def demo_signup_def signup_def
        post_achievement_def already_earned_def Let_def handler_defs)
  show ?thesis
    using post_eco_updates_stats[OF demo_verify demo_store_profile, of empty_eco_stats demo_purchase]
    by (simp add: s e demo_purchase_def empty_eco_stats_def)
qed


text \<open>
  A badge the user already holds is refused with 400 and the store is left as it
  was: no second achievement and no second award of its points.
\<close>

theorem achievement_duplicate_rejected:
  assumes "verifyUser g hdr = Some u"
    and "already_earned (kv_getByPrefix st (achievement_prefix u)) (ab_badge_name b)"
  shows "post_achievement g hdr (Some b) fresh now st = ((400, RError ''Achievement already earned''), st)"
  using assms by (simp add: post_achievement_def achievement_prefix_def)

theorem achievement_duplicate_rejected_witness:
  "post_achievement (env_getUser demo_env) demo_hdr (Some demo_badge) ''a2'' ''t'' demo_store =
     ((400, RError ''Achievement already earned''), demo_store)"
proof -
  have "already_earned (kv_getByPrefix demo_store (achievement_prefix ''alice'')) (ab_badge_name demo_badge)"
    by (simp add: demo_store_def demo_env_def demo_hdr_def demo_badge_def demo_signup_def signup_def
        post_achievement_def already_earned_def achievement_prefix_def Let_def handler_defs)
  then show ?thesis by (rule achievement_duplicate_rejected[OF demo_verify])
qed

text \<open>
  C24. A new badge is stored under the user's achievement key with the requested name and
  the user's id, answered with 200, and its points are added to the profile's points.
\<close>

theorem achievement_awards_points:
  assumes "verifyUser g hdr = Some u"
    and "\<not> already_earned (kv_getByPrefix st (achievement_prefix u)) (ab_badge_name b)"
    and "as_profile (kv_get st (profile_key u)) = Some p"
  shows "(\<exists>a. fst (post_achievement g hdr (Some b) fresh now st) = (200, RAchievement a) \<and>
            badge_name a = ab_badge_name b \<and> achievement_user_id a = u \<and>
            kv_get (snd (post_achievement g hdr (Some b) fresh now st)) (key3 ''achievement'' u fresh) =
              Some (VAchievement a)) \<and>
         map_option total_points (as_profile (kv_get (snd (post_achievement g hdr (Some b) fresh now st))
           (profile_key u))) = Some (Some (or_zero (total_points p) + ab_points_earned b))"
proof (rule conjI)
  have k: "key3 ''achievement'' u fresh \<noteq> profile_key u" by simp
  show "\<exists>a. fst (post_achievement g hdr (Some b) fresh now st) = (200, RAchievement a) \<and>
            badge_name a = ab_badge_name b \<and> achievement_user_id a = u \<and>
            kv_get (snd (post_achievement g hdr (Some b) fresh now st)) (key3 ''achievement'' u fresh) =
              Some (VAchievement a)"
    using assms(1,2) k
    by (simp add: post_achievement_def achievement_prefix_def Let_def kv_get_updateUserPoints_other)
  show "map_option total_points (as_profile (kv_get (snd (post_achievement g hdr (Some b) fresh now st))
          (profile_key u))) = Some (Some (or_zero (total_points p) + ab_points_earned b))"
    using assms k
    by (simp add: post_achievement_def achievement_prefix_def Let_def profile_after_updateUserPoints)
qed

theorem achievement_awards_points_witness:
  "map_option total_points (as_profile (kv_get demo_store (profile_key ''alice''))) = Some (Some 50)"
proof -
  have a: "verifyUser (env_getUser demo_env) demo_hdr = Some ''alice''" by (rule demo_verify)
  have n: "\<not> already_earned (kv_getByPrefix (snd (serve demo_env None (ReqSignup (Some demo_signup)) []))
             (achievement_prefix ''alice'')) (ab_badge_name demo_badge)"
    by (simp add: demo_env_def demo_signup_def signup_def already_earned_def achievement_prefix_def
        handler_defs)
  have p: "as_profile (kv_get (snd (serve demo_env None (ReqSignup (Some demo_signup)) [])) (profile_key ''alice'')) =
      Some \<lparr>user_id = ''alice'', name = ''Alice'', email = ''alice@example.com'', level = Some 1,
            total_xp = Some 0, streak_days = Some 0, total_points = Some 0,
            created_at = ''2024-05-01'', updated_at = ''2024-05-01''\<rparr>"
    by (simp add: demo_env_def demo_signup_def signup_def handler_defs)
  show ?thesis
    using conjunct2[OF achievement_awards_points[OF a n p, of "env_fresh demo_env" "env_now demo_env"]]
    by (simp add: demo_store_def demo_badge_def)
qed

end
