(* ===== verification/Api.thy ===== *)
theory Api
  imports Server
begin

text \<open>
  The client's API layer \<open>src/api.ts\<close>. \<open>makeRequest\<close> sends the session's access token
  (or the project's public anonymous key when there is no session) as a bearer token,
  and turns a non-2xx answer into a thrown \<open>Error\<close> whose message is the body's
  \<open>error\<close> field: here an \<open>Inl\<close> carrying the message. The network round trip is the
  server model \<open>serve\<close> itself, so a client call and the server state change are one
  step. Each endpoint method builds the request its route expects. The identity
  service calls \<open>signIn\<close>, \<open>signOut\<close> and \<open>getCurrentSession\<close> talk to Supabase auth,
  whose answer \<open>{ data, error }\<close> is an input (the error message when there is one, and
  the data); they throw on an error and return the data otherwise.
\<close>

text \<open>
  The answer of a Supabase auth call, \<open>{ data, error }\<close>: \<open>if (error) throw new
  Error(error.message)\<close>, else the data.
\<close>

definition auth_result :: "string option \<times> 'a \<Rightarrow> string + 'a" where
  "auth_result r = (case r of (Some msg, _) \<Rightarrow> Inl msg | (None, d) \<Rightarrow> Inr d)"

text \<open>\<open>signIn\<close>: \<open>signInWithPassword\<close>'s data is the signed-in user and their token.\<close>

definition signIn :: "string option \<times> (uid \<times> string) \<Rightarrow> string + (uid \<times> string)" where
  "signIn answer = auth_result answer"

definition signOut :: "string option \<Rightarrow> string + unit" where
  "signOut err = auth_result (err, ())"

text \<open>\<open>getCurrentSession\<close>: \<open>data.session\<close> is null when nobody is signed in.\<close>

definition getCurrentSession :: "string option \<times> (uid \<times> string) option \<Rightarrow> string + (uid \<times> string) option" where
  "getCurrentSession answer = auth_result answer"

text \<open>\<open>publicAnonKey\<close> comes from \<open>utils/supabase/info\<close>, outside the sources.\<close>

definition publicAnonKey :: string where
  "publicAnonKey = ''public-anon-key''"

text \<open>The toasts the components show, in order.\<close>

datatype toast = ToastSuccess string | ToastError string

definition access_token :: "string option \<Rightarrow> string" where
  "access_token session =
     (case session of None \<Rightarrow> publicAnonKey | Some t \<Rightarrow> if t = '''' then publicAnonKey else t)"

definition auth_header :: "string option \<Rightarrow> string option" where
  "auth_header session = Some (''Bearer '' @ access_token session)"

definition response_ok :: "nat \<Rightarrow> bool" where
  "response_ok status \<longleftrightarrow> 200 \<le> status \<and> status < 300"

definition error_text :: "resp_body \<Rightarrow> string" where
  "error_text b =
     (case b of RError m \<Rightarrow> if m = '''' then ''API request failed'' else m
      | _ \<Rightarrow> ''API request failed'')"

definition makeRequest ::
  "env \<Rightarrow> string option \<Rightarrow> request \<Rightarrow> store \<Rightarrow> (string + resp_body) \<times> store" where
  "makeRequest e session req st =
     (case serve e (auth_header session) req st of
        ((status, body), st') \<Rightarrow>
          (if response_ok status then Inr body else Inl (error_text body), st'))"

subsection \<open>Endpoints\<close>

definition signUp ::
  "env \<Rightarrow> string option \<Rightarrow> string \<Rightarrow> string \<Rightarrow> string \<Rightarrow> store \<Rightarrow> (string + resp_body) \<times> store" where
  "signUp e session em password nm =
     makeRequest e session (ReqSignup (Some \<lparr>su_email = em, su_password = password, su_name = nm\<rparr>))"

definition getUserProfile :: "env \<Rightarrow> string option \<Rightarrow> store \<Rightarrow> (string + resp_body) \<times> store" where
  "getUserProfile e session = makeRequest e session ReqGetProfile"

definition updateUserProfile_api ::
  "env \<Rightarrow> string option \<Rightarrow> profile_update \<Rightarrow> store \<Rightarrow> (string + resp_body) \<times> store" where
  "updateUserProfile_api e session updates = makeRequest e session (ReqPutProfile (Some updates))"

definition updateLearningProgress ::
  "env \<Rightarrow> string option \<Rightarrow> js_int \<Rightarrow> string \<Rightarrow> js_int \<Rightarrow> js_int \<Rightarrow> js_int \<Rightarrow> store \<Rightarrow>
   (string + resp_body) \<times> store" where
  "updateLearningProgress e session moduleId moduleName progressPercentage lessonsCompleted totalLessons =
     makeRequest e session (ReqPostProgress (Some
       \<lparr>pb_module_id = moduleId, pb_module_name = moduleName,
        pb_progress_percentage = progressPercentage, pb_lessons_completed = lessonsCompleted,
        pb_total_lessons = totalLessons\<rparr>))"

definition getLearningProgress :: "env \<Rightarrow> string option \<Rightarrow> store \<Rightarrow> (string + resp_body) \<times> store" where
  "getLearningProgress e session = makeRequest e session ReqGetProgress"

definition addEcoAction ::
  "env \<Rightarrow> string option \<Rightarrow> string \<Rightarrow> rat \<Rightarrow> string \<Rightarrow> js_int \<Rightarrow> store \<Rightarrow> (string + resp_body) \<times> store" where
  "addEcoAction e session itemName amount category ecoRating =
     makeRequest e session (ReqPostEco (Some
       \<lparr>eb_item_name = itemName, eb_amount = amount, eb_category = category, eb_eco_rating = ecoRating\<rparr>))"

definition addExpense ::
  "env \<Rightarrow> string option \<Rightarrow> string \<Rightarrow> rat \<Rightarrow> string \<Rightarrow> string \<Rightarrow> store \<Rightarrow> (string + resp_body) \<times> store" where
  "addExpense e session desc amount category date =
     makeRequest e session (ReqPostExpense (Some
       \<lparr>xb_description = desc, xb_amount = amount, xb_category = category, xb_date = date\<rparr>))"

definition getExpenses :: "env \<Rightarrow> string option \<Rightarrow> store \<Rightarrow> (string + resp_body) \<times> store" where
  "getExpenses e session = makeRequest e session ReqGetExpenses"

definition addAchievement ::
  "env \<Rightarrow> string option \<Rightarrow> string \<Rightarrow> string \<Rightarrow> string \<Rightarrow> js_int \<Rightarrow> store \<Rightarrow>
   (string + resp_body) \<times> store" where
  "addAchievement e session badgeName badgeDescription badgeIcon pointsEarned =
     makeRequest e session (ReqPostAchievement (Some
       \<lparr>ab_badge_name = badgeName, ab_badge_description = badgeDescription, ab_badge_icon = badgeIcon,
        ab_points_earned = pointsEarned\<rparr>))"

definition getLeaderboard :: "env \<Rightarrow> string option \<Rightarrow> store \<Rightarrow> (string + resp_body) \<times> store" where
  "getLeaderboard e session = makeRequest e session ReqGetLeaderboard"

declare access_token_def [handler_defs] auth_header_def [handler_defs] response_ok_def [handler_defs]
  error_text_def [handler_defs] makeRequest_def [handler_defs]

end
