(* ===== verification/App.thy ===== *)
theory App
  imports Api
begin

text \<open>
  The root component of \<open>src/App.tsx\<close>. Its \<open>useState\<close> hooks are the record
  \<open>app_state\<close>. The local \<open>userProfile\<close> is a plain JavaScript object: the profile the
  server sent, or \<open>null\<close>, later merged with \<open>updateUserProfile(updates)\<close> as
  \<open>{...prev, ...updates}\<close>. It is a \<open>profile_obj\<close>, a profile whose every field may
  be absent (and whose numeric fields may be \<open>null\<close>), the same shape as the body of
  \<open>PUT /profile\<close>. The components read \<open>userProfile?.total_points || 0\<close> with
  \<open>obj_points\<close> and \<open>obj_xp\<close>.
\<close>

type_synonym profile_obj = profile_update

record app_state =
  activeTab :: string
  app_user :: "uid option"
  userProfile :: "profile_obj option"
  showAuthModal :: bool
  app_loading :: bool

definition initial_app :: app_state where
  "initial_app = \<lparr>activeTab = ''dashboard'', app_user = None, userProfile = None,
                  showAuthModal = False, app_loading = True\<rparr>"

definition empty_obj :: profile_obj where
  "empty_obj = \<lparr>upd_user_id = None, upd_name = None, upd_email = None, upd_level = None,
                upd_total_xp = None, upd_streak_days = None, upd_total_points = None,
                upd_created_at = None\<rparr>"

text \<open>The profile object the server's JSON answer parses to: every field present.\<close>

definition obj_of_profile :: "profile \<Rightarrow> profile_obj" where
  "obj_of_profile p =
     \<lparr>upd_user_id = Some (user_id p), upd_name = Some (name p), upd_email = Some (email p),
      upd_level = Some (level p), upd_total_xp = Some (total_xp p),
      upd_streak_days = Some (streak_days p), upd_total_points = Some (total_points p),
      upd_created_at = Some (created_at p)\<rparr>"

text \<open>\<open>{...prev, ...updates}\<close>; spreading \<open>null\<close> contributes no field.\<close>

definition merge_obj :: "profile_obj \<Rightarrow> profile_obj \<Rightarrow> profile_obj" where
  "merge_obj prev upd =
     \<lparr>upd_user_id = (case upd_user_id upd of None \<Rightarrow> upd_user_id prev | x \<Rightarrow> x),
      upd_name = (case upd_name upd of None \<Rightarrow> upd_name prev | x \<Rightarrow> x),
      upd_email = (case upd_email upd of None \<Rightarrow> upd_email prev | x \<Rightarrow> x),
      upd_level = (case upd_level upd of None \<Rightarrow> upd_level prev | x \<Rightarrow> x),
      upd_total_xp = (case upd_total_xp upd of None \<Rightarrow> upd_total_xp prev | x \<Rightarrow> x),
      upd_streak_days = (case upd_streak_days upd of None \<Rightarrow> upd_streak_days prev | x \<Rightarrow> x),
      upd_total_points = (case upd_total_points upd of None \<Rightarrow> upd_total_points prev | x \<Rightarrow> x),
      upd_created_at = (case upd_created_at upd of None \<Rightarrow> upd_created_at prev | x \<Rightarrow> x)\<rparr>"

definition updateUserProfile :: "profile_obj \<Rightarrow> app_state \<Rightarrow> app_state" where
  "updateUserProfile updates s =
     s\<lparr>userProfile := Some (merge_obj (case userProfile s of None \<Rightarrow> empty_obj | Some p \<Rightarrow> p) updates)\<rparr>"

text \<open>
  \<open>userProfile?.total_points || 0\<close> and \<open>userProfile?.total_xp || 0\<close>: an absent
  profile, an absent field and \<open>null\<close> all read as 0.
\<close>

definition obj_points :: "profile_obj option \<Rightarrow> js_int" where
  "obj_points p = (case p of None \<Rightarrow> 0 | Some ob \<Rightarrow> (case upd_total_points ob of None \<Rightarrow> 0 | Some v \<Rightarrow> or_zero v))"

definition obj_xp :: "profile_obj option \<Rightarrow> js_int" where
  "obj_xp p = (case p of None \<Rightarrow> 0 | Some ob \<Rightarrow> (case upd_total_xp ob of None \<Rightarrow> 0 | Some v \<Rightarrow> or_zero v))"

text \<open>
  \<open>{ total_points: n }\<close> and \<open>{ total_xp: x, total_points: n }\<close>, the updates the
  components send.
\<close>

definition points_obj :: "js_int \<Rightarrow> profile_obj" where
  "points_obj n = empty_obj\<lparr>upd_total_points := Some (Some n)\<rparr>"

definition xp_points_obj :: "js_int \<Rightarrow> js_int \<Rightarrow> profile_obj" where
  "xp_points_obj x n = empty_obj\<lparr>upd_total_xp := Some (Some x), upd_total_points := Some (Some n)\<rparr>"

text \<open>
  \<open>loadUserProfile\<close>: \<open>const { profile } = await apiService.getUserProfile()\<close>; an
  error is logged and the state kept.
\<close>

definition loadUserProfile :: "env \<Rightarrow> string option \<Rightarrow> app_state \<Rightarrow> store \<Rightarrow> app_state \<times> store" where
  "loadUserProfile e session s st =
     (case getUserProfile e session st of
        (Inl _, st') \<Rightarrow> (s, st')
      | (Inr (RProfile (VProfile p)), st') \<Rightarrow> (s\<lparr>userProfile := Some (obj_of_profile p)\<rparr>, st')
      | (Inr _, st') \<Rightarrow> (s\<lparr>userProfile := None\<rparr>, st'))"

text \<open>
  \<open>checkAuth\<close>: the answer of \<open>getSession\<close> is an input. A thrown error is caught and
  logged; with a signed-in user (\<open>session?.user\<close>) the user is set and the profile
  loaded; loading ends either way (\<open>finally\<close>). \<open>handleAuthSuccess\<close> is \<open>checkAuth\<close>.
\<close>

definition checkAuth ::
  "env \<Rightarrow> string option \<times> (uid \<times> string) option \<Rightarrow> app_state \<Rightarrow> store \<Rightarrow> app_state \<times> store" where
  "checkAuth e answer s st =
     (case getCurrentSession answer of
        Inl _ \<Rightarrow> (s\<lparr>app_loading := False\<rparr>, st)
      | Inr None \<Rightarrow> (s\<lparr>app_loading := False\<rparr>, st)
      | Inr (Some (u, tok)) \<Rightarrow>
          (let (s1, st1) = loadUserProfile e (Some tok) (s\<lparr>app_user := Some u\<rparr>) st
           in (s1\<lparr>app_loading := False\<rparr>, st1)))"

text \<open>\<open>handleSignOut\<close>: when \<open>signOut\<close> throws, the error is logged and nothing changes.\<close>

definition handleSignOut :: "string option \<Rightarrow> app_state \<Rightarrow> app_state" where
  "handleSignOut signOutError s =
     (case signOut signOutError of Inr _ \<Rightarrow> s\<lparr>app_user := None, userProfile := None\<rparr> | Inl _ \<Rightarrow> s)"

text \<open>\<open>x || default\<close> on a string and on a numeric field of a profile object.\<close>

definition or_default_str :: "string option \<Rightarrow> string \<Rightarrow> string" where
  "or_default_str v d = (case v of Some s \<Rightarrow> if s = '''' then d else s | None \<Rightarrow> d)"

definition or_default_num :: "js_int option option \<Rightarrow> js_int \<Rightarrow> js_int" where
  "or_default_num v d = (case v of Some (Some n) \<Rightarrow> if n = 0 then d else n | _ \<Rightarrow> d)"

declare empty_obj_def [handler_defs] merge_obj_def [handler_defs] updateUserProfile_def [handler_defs]
  obj_points_def [handler_defs] obj_xp_def [handler_defs] points_obj_def [handler_defs]
  xp_points_obj_def [handler_defs]

lemma obj_after_points_update [simp]:
  "obj_points (userProfile (updateUserProfile (points_obj n) s)) = n"
  "obj_xp (userProfile (updateUserProfile (points_obj n) s)) = obj_xp (userProfile s)"
  by (auto simp: updateUserProfile_def points_obj_def merge_obj_def empty_obj_def obj_points_def
      obj_xp_def split: option.splits)

lemma obj_after_xp_points_obj [simp]:
  "obj_points (userProfile (updateUserProfile (xp_points_obj x n) s)) = n"
  "obj_xp (userProfile (updateUserProfile (xp_points_obj x n) s)) = x"
  by (auto simp: updateUserProfile_def xp_points_obj_def merge_obj_def empty_obj_def obj_points_def
      obj_xp_def split: option.splits)

lemma obj_of_profile_reads [simp]:
  "obj_points (Some (obj_of_profile p)) = or_zero (total_points p)"
  "obj_xp (Some (obj_of_profile p)) = or_zero (total_xp p)"
  by (simp_all add: obj_points_def obj_xp_def obj_of_profile_def)

lemma split_space_no_space: "CHR '' '' \<notin> set t \<Longrightarrow> split_space t = [t]"
  by (induction t) auto

lemma verifyUser_auth_header:
  assumes "env_getUser e t = Some u" and "u \<noteq> ''''" and "t \<noteq> ''''" and "CHR '' '' \<notin> set t"
  shows "verifyUser (env_getUser e) (auth_header (Some t)) = Some u"
  using assms by (simp add: verifyUser_def bearer_token_def auth_header_def access_token_def
      split_space_no_space)

text \<open>
  The error paths of the session calls: a failed \<open>getSession\<close> ends loading with no user
  and no request; a failed sign-out leaves the user signed in.
\<close>

lemma checkAuth_error: "checkAuth e (Some msg, sess) s st = (s\<lparr>app_loading := False\<rparr>, st)"
  by (simp add: checkAuth_def getCurrentSession_def auth_result_def)

lemma handleSignOut_error: "handleSignOut (Some msg) s = s"
  by (simp add: handleSignOut_def signOut_def auth_result_def)

lemma handleSignOut_ok: "handleSignOut None s = s\<lparr>app_user := None, userProfile := None\<rparr>"
  by (simp add: handleSignOut_def signOut_def auth_result_def)

end
