(* ===== verification/Leaderboard.thy ===== *)
theory Leaderboard
  imports App "HOL-Library.Multiset"
begin

text \<open>
  The leaderboard: the server's ranking \<open>leaderboard_of\<close> (in \<open>Server\<close>) and the view
  \<open>src/Leaderboard.tsx\<close>. The ranking sorts with \<open>Array.prototype.sort\<close> and the
  comparator \<open>(b.total_points || 0) - (a.total_points || 0)\<close>; the lemmas below show
  that \<open>js_sort\<close> with a comparator that agrees with a key order is the library's
  stable \<open>sort_key\<close>, so the ranking is the profiles in descending points, ties in
  store order. The view keeps the entries it shows in \<open>lb_view_state\<close>, falls back to a
  built-in list (\<open>mockLeaderboardData\<close>) when the request fails or answers no list,
  and filters the entries by a case-insensitive search on the name.
\<close>

text \<open>
  The entries the view keeps are JavaScript objects: the server's carry only the ranking
  fields, the built-in ones also the display fields (\<open>avatar\<close>, \<open>change\<close>, ...), so an
  entry is the ranking fields with the display fields when it has them.
\<close>

record lb_display =
  avatar :: string
  change :: js_int
  weeklyXP :: js_int
  mock_streak :: js_int
  badges :: js_int
  ecoPoints :: js_int
  lessonsCompleted :: js_int
  location :: string
  joinedDaysAgo :: js_int
  isCurrentUser :: bool

record lb_item = lb_entry +
  display :: "lb_display option"

definition server_item :: "lb_entry \<Rightarrow> lb_item" where
  "server_item e = \<lparr>rank = rank e, lb_name = lb_name e, lb_level = lb_level e,
                    lb_total_points = lb_total_points e, lb_user_id = lb_user_id e, display = None\<rparr>"

record lb_view_state =
  leaderboardData :: "lb_item list"
  lb_loading :: bool
  lb_activeTab :: string
  searchQuery :: string
  timeframe :: string

definition initial_lb_view :: lb_view_state where
  "initial_lb_view = \<lparr>leaderboardData = [], lb_loading = False, lb_activeTab = ''overall'',
                      searchQuery = '''', timeframe = ''week''\<rparr>"

text \<open>\<open>name?.split(' ').map(n => n[0]).join('')\<close>: the initials (an empty word adds nothing).\<close>

definition initials :: "string \<Rightarrow> string" where
  "initials s = concat (map (take 1) (split_space s))"

definition mockLeaderboardData :: "profile_obj option \<Rightarrow> lb_item list" where
  "mockLeaderboardData up =
     (let o_name = (case up of None \<Rightarrow> None | Some p \<Rightarrow> upd_name p);
          o_level = (case up of None \<Rightarrow> None | Some p \<Rightarrow> upd_level p);
          o_points = (case up of None \<Rightarrow> None | Some p \<Rightarrow> upd_total_points p);
          o_uid = (case up of None \<Rightarrow> None | Some p \<Rightarrow> upd_user_id p);
          o_streak = (case up of None \<Rightarrow> None | Some p \<Rightarrow> upd_streak_days p)
      in [\<lparr>rank = 1, lb_name = ''Priya Sharma'', lb_level = Some 12, lb_total_points = 24580, lb_user_id = ''1'',
           display = Some \<lparr>avatar = ''PS'', change = 2, weeklyXP = 1240, mock_streak = 28, badges = 15,
             ecoPoints = 2450, lessonsCompleted = 45, location = ''Mumbai'', joinedDaysAgo = 45,
             isCurrentUser = False\<rparr>\<rparr>,
          \<lparr>rank = 2, lb_name = ''Arjun Kumar'', lb_level = Some 11, lb_total_points = 22340, lb_user_id = ''2'',
           display = Some \<lparr>avatar = ''AK'', change = -1, weeklyXP = 980, mock_streak = 15, badges = 12,
             ecoPoints = 1980, lessonsCompleted = 38, location = ''Delhi'', joinedDaysAgo = 67,
             isCurrentUser = False\<rparr>\<rparr>,
          \<lparr>rank = 3, lb_name = ''Sneha Patel'', lb_level = Some 10, lb_total_points = 21750, lb_user_id = ''3'',
           display = Some \<lparr>avatar = ''SP'', change = 1, weeklyXP = 1120, mock_streak = 22, badges = 13,
             ecoPoints = 2100, lessonsCompleted = 41, location = ''Bangalore'', joinedDaysAgo = 52,
             isCurrentUser = False\<rparr>\<rparr>,
          \<lparr>rank = 4, lb_name = ''Rahul Singh'', lb_level = Some 9, lb_total_points = 19820, lb_user_id = ''4'',
           display = Some \<lparr>avatar = ''RS'', change = 0, weeklyXP = 850, mock_streak = 8, badges = 10,
             ecoPoints = 1650, lessonsCompleted = 35, location = ''Pune'', joinedDaysAgo = 38,
             isCurrentUser = False\<rparr>\<rparr>,
          \<lparr>rank = 5, lb_name = ''Anita Desai'', lb_level = Some 9, lb_total_points = 18950, lb_user_id = ''5'',
           display = Some \<lparr>avatar = ''AD'', change = 3, weeklyXP = 1350, mock_streak = 18, badges = 11,
             ecoPoints = 1890, lessonsCompleted = 33, location = ''Chennai'', joinedDaysAgo = 41,
             isCurrentUser = False\<rparr>\<rparr>,
          \<lparr>rank = 6, lb_name = or_default_str o_name ''You'', lb_level = Some (or_default_num o_level 7), lb_total_points = or_default_num o_points 15670, lb_user_id = or_default_str o_uid ''current'',
           display = Some \<lparr>avatar = or_default_str (map_option initials o_name) ''YO'', change = 1, weeklyXP = 720, mock_streak = or_default_num o_streak 12, badges = 8,
             ecoPoints = 1250, lessonsCompleted = 24, location = ''Your City'', joinedDaysAgo = 28,
             isCurrentUser = True\<rparr>\<rparr>])"

text \<open>
  \<open>loadLeaderboard\<close>: the answer's \<open>leaderboard\<close> list, or the mock list when the
  request throws or the answer has none (an empty list is kept: it is truthy).
\<close>

definition loadLeaderboard ::
  "env \<Rightarrow> string option \<Rightarrow> app_state \<Rightarrow> lb_view_state \<Rightarrow> store \<Rightarrow> lb_view_state \<times> store" where
  "loadLeaderboard e session app s st =
     (let mock = mockLeaderboardData (userProfile app)
      in case getLeaderboard e session st of
           (Inr (RLeaderboard l), st') \<Rightarrow>
             (s\<lparr>leaderboardData := map server_item l, lb_loading := False\<rparr>, st')
         | (_, st') \<Rightarrow> (s\<lparr>leaderboardData := mock, lb_loading := False\<rparr>, st'))"

text \<open>
  \<open>toLowerCase\<close> on the ASCII letters (other characters are kept) and
  \<open>String.prototype.includes\<close>: some position of the string starts the query.
\<close>

definition js_lower :: "char \<Rightarrow> char" where
  "js_lower c =
     (case map_of (zip ''ABCDEFGHIJKLMNOPQRSTUVWXYZ'' ''abcdefghijklmnopqrstuvwxyz'') c of
        Some d \<Rightarrow> d | None \<Rightarrow> c)"

definition js_includes :: "string \<Rightarrow> string \<Rightarrow> bool" where
  "js_includes s q = list_ex (\<lambda>i. take (length q) (drop i s) = q) [0..<Suc (length s)]"

definition filteredLeaderboard :: "lb_view_state \<Rightarrow> lb_item list" where
  "filteredLeaderboard s =
     filter (\<lambda>u. js_includes (map js_lower (lb_name u)) (map js_lower (searchQuery s))) (leaderboardData s)"

lemma mset_js_insert [simp]: "mset (js_insert cmp x ys) = add_mset x (mset ys)"
  by (induction ys) auto

lemma set_js_insert [simp]: "set (js_insert cmp x ys) = insert x (set ys)"
  by (induction ys) auto

lemma js_sort_Nil [simp]: "js_sort cmp [] = []"
  by (simp add: js_sort_def)

lemma js_sort_snoc [simp]: "js_sort cmp (xs @ [x]) = js_insert cmp x (js_sort cmp xs)"
  by (simp add: js_sort_def)

lemma mset_js_sort [simp]: "mset (js_sort cmp xs) = mset xs"
  by (induction xs rule: rev_induct) auto

lemma length_js_sort [simp]: "length (js_sort cmp xs) = length xs"
  using mset_js_sort[of cmp xs] by (metis size_mset)

lemma sorted_js_insert:
  fixes f :: "'a \<Rightarrow> 'b::linorder"
  assumes cmp: "\<And>x y. (cmp x y < 0) = (f x < f y)" and "sorted (map f ys)"
  shows "sorted (map f (js_insert cmp x ys))"
  using assms(2)
proof (induction ys)
  case Nil
  then show ?case by simp
next
  case (Cons y ys)
  then show ?case by (auto simp: cmp)
qed

lemma filter_js_insert:
  fixes f :: "'a \<Rightarrow> 'b::linorder"
  assumes cmp: "\<And>x y. (cmp x y < 0) = (f x < f y)" and "sorted (map f ys)"
  shows "filter (\<lambda>z. f k = f z) (js_insert cmp x ys) =
           filter (\<lambda>z. f k = f z) ys @ filter (\<lambda>z. f k = f z) [x]"
  using assms(2)
proof (induction ys)
  case Nil
  then show ?case by simp
next
  case (Cons y ys)
  show ?case
  proof (cases "f x < f y")
    case True
    with Cons.prems have "\<forall>z \<in> set (y # ys). f x < f z" by auto
    then have "filter (\<lambda>z. f x = f z) (y # ys) = []" by (auto simp: filter_empty_conv)
    with True show ?thesis by (auto simp: cmp)
  next
    case False
    with Cons show ?thesis by (auto simp: cmp)
  qed
qed

lemma js_sort_sort_key:
  fixes f :: "'a \<Rightarrow> 'b::linorder"
  assumes cmp: "\<And>x y. (cmp x y < 0) = (f x < f y)"
  shows "js_sort cmp xs = sort_key f xs"
proof -
  have "sorted (map f (js_sort cmp xs)) \<and>
        (\<forall>k. filter (\<lambda>z. f k = f z) (js_sort cmp xs) = filter (\<lambda>z. f k = f z) xs)"
  proof (induction xs rule: rev_induct)
    case Nil
    then show ?case by (simp add: js_sort_def)
  next
    case (snoc x xs)
    then have s: "sorted (map f (js_sort cmp xs))"
      and fk: "\<And>k. filter (\<lambda>z. f k = f z) (js_sort cmp xs) = filter (\<lambda>z. f k = f z) xs"
      by auto
    show ?case
      using filter_js_insert[OF cmp s] sorted_js_insert[OF cmp s] by (simp only: js_sort_snoc fk filter_append) simp
  qed
  then show ?thesis
    by (intro properties_for_sort_key[symmetric]) auto
qed

end
