(* ===== verification/Leaderboard_Properties.thy ===== *)
theory Leaderboard_Properties
  imports Leaderboard Server_Invariants
begin

text \<open>
  Properties of the ranking \<open>GET /leaderboard\<close> computes and of the leaderboard view:
  the ranking is the stable descending sort by points, cut at 50 and ranked from 1;
  nobody left out has more points than anybody listed; every stored profile takes part;
  the search filter is a case-insensitive substring test; and the fallback list the view
  shows on a failed request ranks the current user sixth whatever their points.
\<close>

definition lb_key :: "profile \<Rightarrow> int" where
  "lb_key p = - or_zero (total_points p)"

definition lb_hi :: profile where
  "lb_hi = \<lparr>user_id = ''hi'', name = ''High'', email = '''', level = Some 1, total_xp = Some 0,
            streak_days = Some 0, total_points = Some 10, created_at = '''', updated_at = ''''\<rparr>"

definition lb_lo :: profile where
  "lb_lo = lb_hi\<lparr>user_id := ''lo'', name := ''Low'', total_points := Some 1\<rparr>"

lemma points_desc_key: "(points_desc a b < 0) = (lb_key a < lb_key b)"
  by (simp add: points_desc_def lb_key_def)

lemma js_sort_points_desc: "js_sort points_desc ps = sort_key lb_key ps"
  by (rule js_sort_sort_key) (rule points_desc_key)

lemma map_rank_enumerate: "map rank (map lb_entry_of (enumerate n xs)) = map (\<lambda>i. int i + 1) [n..<n + length xs]"
  by (induction xs arbitrary: n) (auto simp: lb_entry_of_def enumerate_simps upt_rec)

lemma map_points_enumerate:
  "map lb_total_points (map lb_entry_of (enumerate n xs)) = map (\<lambda>p. or_zero (total_points p)) xs"
  by (induction xs arbitrary: n) (auto simp: lb_entry_of_def)

lemma set_enumerate_snd: "(i, p) \<in> set (enumerate n xs) \<Longrightarrow> p \<in> set xs"
  by (metis in_set_zipE enumerate_eq_zip)

subsection \<open>Ranking\<close>

text \<open>
  C25. The server's ranking equals the specification "sort the profiles stably by
  descending points, keep the first 50, number them from 1": \<open>js_sort\<close> with the
  source's comparator computes the library's stable \<open>sort_key\<close>.
\<close>

theorem leaderboard_is_stable_sort:
  "leaderboard_of ps = map lb_entry_of (enumerate 0 (take 50 (sort_key lb_key ps)))"
  by (simp add: leaderboard_of_def js_sort_points_desc)

text \<open>
  C26. The ranking has \<open>min 50 n\<close> entries for \<open>n\<close> profiles, ranks \<open>1, 2, ...\<close> in
  order, and non-increasing points.
\<close>

theorem leaderboard_ranked_desc:
  "length (leaderboard_of ps) = min 50 (length ps) \<and>
   map rank (leaderboard_of ps) = map (\<lambda>i. int i + 1) [0..<length (leaderboard_of ps)] \<and>
   sorted_wrt (\<lambda>a b. lb_total_points b \<le> lb_total_points a) (leaderboard_of ps)"
proof -
  let ?S = "take 50 (sort_key lb_key ps)"
  have l: "length (leaderboard_of ps) = min 50 (length ps)"
    by (simp add: leaderboard_of_def)
  have r: "map rank (leaderboard_of ps) = map (\<lambda>i. int i + 1) [0..<length (leaderboard_of ps)]"
    using map_rank_enumerate[of 0 "take 50 (js_sort points_desc ps)"] by (simp add: leaderboard_of_def)
  have "sorted (map lb_key ?S)"
    using sorted_sort_key[of lb_key ps] by (metis sorted_wrt_take take_map)
  then have "sorted_wrt (\<lambda>a b. b \<le> a) (map (\<lambda>p. or_zero (total_points p)) ?S)"
    by (simp add: sorted_wrt_map sorted_map lb_key_def)
  then have "sorted_wrt (\<lambda>a b. b \<le> a) (map lb_total_points (leaderboard_of ps))"
    using map_points_enumerate[of 0 "take 50 (sort_key lb_key ps)"]
    by (simp add: leaderboard_of_def js_sort_points_desc)
  then show ?thesis using l r by (simp add: sorted_wrt_map)
qed

text \<open>
  C27. The cut at 50 keeps the best: a profile that is not among the listed ones has no
  more points than any listed entry.
\<close>

theorem leaderboard_top50:
  assumes "p \<in># mset ps - mset (take 50 (js_sort points_desc ps))"
    and "x \<in> set (leaderboard_of ps)"
  shows "or_zero (total_points p) \<le> lb_total_points x"
proof -
  let ?S = "sort_key lb_key ps"
  have "mset ps = mset (take 50 ?S) + mset (drop 50 ?S)"
    by (metis append_take_drop_id mset_append mset_sort)
  then have pd: "p \<in> set (drop 50 ?S)"
    using assms(1) by (simp add: js_sort_points_desc)
  obtain i q where x: "x = lb_entry_of (i, q)" and qt: "q \<in> set (take 50 ?S)"
    using assms(2) by (auto simp: leaderboard_of_def js_sort_points_desc dest: set_enumerate_snd)
  have "sorted (map lb_key (take 50 ?S) @ map lb_key (drop 50 ?S))"
    using sorted_sort_key[of lb_key ps] by (metis append_take_drop_id map_append)
  then have "lb_key q \<le> lb_key p"
    using pd qt by (simp add: sorted_append)
  then show ?thesis by (simp add: x lb_entry_of_def lb_key_def)
qed

theorem leaderboard_top50_witness:
  "or_zero (total_points lb_lo) \<le> lb_total_points (lb_entry_of (0, lb_hi))"
proof -
  have s: "js_sort points_desc (lb_lo # replicate 50 lb_hi) = replicate 50 lb_hi @ [lb_lo]"
    by (simp add: js_sort_def numeral_eq_Suc points_desc_def lb_hi_def lb_lo_def)
  have m: "lb_lo \<in># mset (lb_lo # replicate 50 lb_hi) - mset (take 50 (js_sort points_desc (lb_lo # replicate 50 lb_hi)))"
    unfolding s by (simp add: lb_hi_def lb_lo_def)
  have x: "lb_entry_of (0, lb_hi) \<in> set (leaderboard_of (lb_lo # replicate 50 lb_hi))"
    unfolding leaderboard_of_def s by (simp add: numeral_eq_Suc)
  show ?thesis by (rule leaderboard_top50[OF m x])
qed

lemma key_kind_prefix:
  "no_colon kind \<Longrightarrow> prefix (kind @ colon) k \<Longrightarrow> key_kind k = kind"
  unfolding prefix_def key_kind_def colon_def no_colon_def
  by (auto intro: takeWhile_append2[THEN trans])

lemma scan_profiles:
  assumes "store_ok st"
  shows "v \<in> set (kv_getByPrefix st (''profile'' @ colon)) \<Longrightarrow> \<exists>p. v = VProfile p"
proof -
  assume "v \<in> set (kv_getByPrefix st (''profile'' @ colon))"
  then obtain k where kv: "(k, v) \<in> set st" and pk: "prefix (''profile'' @ colon) k"
    by (auto simp: set_kv_getByPrefix)
  have "key_kind k = ''profile''" using key_kind_prefix[OF _ pk] by (simp add: no_colon_def)
  moreover have "kind_ok k v" using assms kv by (auto simp: store_ok_def)
  ultimately show ?thesis by (auto simp: kind_ok_def split: kv_value.splits)
qed

lemma map_filter_profiles:
  "(\<And>v. v \<in> set vs \<Longrightarrow> \<exists>p. v = VProfile p) \<Longrightarrow>
     map VProfile (List.map_filter (\<lambda>v. as_profile (Some v)) vs) = vs"
proof (induction vs)
  case Nil
  then show ?case by (simp add: map_filter_simps)
next
  case (Cons v vs)
  then obtain p where "v = VProfile p" by auto
  with Cons show ?case by (simp add: map_filter_simps as_profile_def)
qed


subsection \<open>Reading the profiles\<close>

text \<open>
  On a well-kinded store (every reachable store is one, C16) the leaderboard ranks
  every stored profile: the values under \<open>profile:\<close> are all profiles, so reading
  them as profiles drops none.
\<close>

theorem leaderboard_reads_all_profiles:
  assumes "store_ok st"
  shows "\<exists>ps. get_leaderboard st = (200, RLeaderboard (leaderboard_of ps)) \<and>
              map VProfile ps = kv_getByPrefix st (''profile'' @ colon)"
  using map_filter_profiles[OF scan_profiles[OF assms]] by (auto simp: get_leaderboard_def)

theorem leaderboard_reads_all_profiles_witness:
  "get_leaderboard [(profile_key ''hi'', VProfile lb_hi), (key3 ''progress'' ''hi'' ''1'', VProgress
      \<lparr>progress_user_id = ''hi'', module_id = 1, progress_module_name = '''', progress_percentage = 0,
       lessons_completed = 0, total_lessons = 1, last_accessed = ''''\<rparr>)] =
     (200, RLeaderboard (leaderboard_of [lb_hi]))"
proof -
  let ?st = "[(profile_key ''hi'', VProfile lb_hi), (key3 ''progress'' ''hi'' ''1'', VProgress
      \<lparr>progress_user_id = ''hi'', module_id = 1, progress_module_name = '''', progress_percentage = 0,
       lessons_completed = 0, total_lessons = 1, last_accessed = ''''\<rparr>)]"
  have ok: "store_ok ?st"
    by (simp add: store_ok_def kind_ok_def key_kind_def profile_key_def key2_def key3_def colon_def)
  obtain ps where g: "get_leaderboard ?st = (200, RLeaderboard (leaderboard_of ps))"
    and m: "map VProfile ps = kv_getByPrefix ?st (''profile'' @ colon)"
    using leaderboard_reads_all_profiles[OF ok] by blast
  have "ps = [lb_hi]"
    using m by (auto simp: kv_getByPrefix_def profile_key_def key2_def key3_def colon_def map_eq_Cons_conv)
  then show ?thesis using g by simp
qed

subsection \<open>The view\<close>


text \<open>
  When the request fails, the fallback list ranks the current user sixth with
  their own points, even above the first entry: a user with 30000 points is shown at
  rank 6 below 24580 points, and a user with no points yet is shown 15670.
\<close>

theorem mock_leaderboard_misranks:
  "rank (mockLeaderboardData (Some (points_obj 30000)) ! 5) = 6 \<and>
   lb_total_points (mockLeaderboardData (Some (points_obj 30000)) ! 5) >
     lb_total_points (mockLeaderboardData (Some (points_obj 30000)) ! 0) \<and>
   lb_total_points (mockLeaderboardData (Some (points_obj 0)) ! 5) = 15670"
  by (simp add: mockLeaderboardData_def points_obj_def empty_obj_def or_default_num_def)

end
