(* ===== verification/Learning.thy ===== *)
theory Learning
  imports App Quiz
begin

text \<open>
  The learning tab \<open>src/LearningModules.tsx\<close>: the module catalogue and the sample quiz
  questions (constants of the component), its \<open>useState\<close> hooks as \<open>lm_state\<close>, and
  the handlers that start a lesson, open a quiz and record a completed quiz. The
  lesson-start reward runs in a \<open>setTimeout\<close> 1.5 s after the click with the
  \<open>userProfile\<close> of the render that created it; a pending timer is kept in the state
  with that snapshot and fires as its own event. \<open>handleQuizComplete\<close> saves progress
  through the API and then merges the quiz XP into the local profile.
\<close>

record module_info =
  mod_id :: js_int
  title :: string
  mod_description :: string
  lessons :: js_int
  duration :: string
  mod_difficulty :: string
  mod_progress :: js_int
  completed :: bool
  locked :: bool
  xpReward :: js_int
  topics :: "string list"
  participants :: js_int
  hasQuiz :: bool
  quizQuestions_count :: js_int
  averageScore :: js_int

text \<open>The catalogue (\<open>locked\<close> is absent, hence falsy, on the first four modules).\<close>

definition modules :: "module_info list" where
  "modules =
    [\<lparr>mod_id = 1, title = ''Financial Basics'', mod_description = ''Learn the fundamentals of money management'',
      lessons = 8, duration = ''45 min'', mod_difficulty = ''Beginner'', mod_progress = 100, completed = True,
      locked = False, xpReward = 250,
      topics = [''Budgeting Basics'', ''Saving Strategies'', ''Understanding Interest'', ''Banking Fundamentals''],
      participants = 1247, hasQuiz = True, quizQuestions_count = 12, averageScore = 85\<rparr>,
     \<lparr>mod_id = 2, title = ''Smart Spending'', mod_description = ''Make informed purchasing decisions'',
      lessons = 6, duration = ''35 min'', mod_difficulty = ''Beginner'', mod_progress = 67, completed = False,
      locked = False, xpReward = 200,
      topics = [''Needs vs Wants'', ''Price Comparison'', ''Quality Assessment'', ''Avoiding Impulse Buys''],
      participants = 892, hasQuiz = True, quizQuestions_count = 10, averageScore = 78\<rparr>,
     \<lparr>mod_id = 3, title = ''Investment Fundamentals'', mod_description = ''Start your investment journey safely'',
      lessons = 10, duration = ''60 min'', mod_difficulty = ''Intermediate'', mod_progress = 20, completed = False,
      locked = False, xpReward = 400,
      topics = [''Types of Investments'', ''Risk Management'', ''Portfolio Basics'', ''Long-term Planning''],
      participants = 654, hasQuiz = True, quizQuestions_count = 15, averageScore = 72\<rparr>,
     \<lparr>mod_id = 4, title = ''Sustainable Finance'', mod_description = ''Align money with environmental values'',
      lessons = 7, duration = ''40 min'', mod_difficulty = ''Intermediate'', mod_progress = 0, completed = False,
      locked = False, xpReward = 300,
      topics = [''Green Investing'', ''Eco-friendly Spending'', ''Carbon Footprint'', ''Sustainable Brands''],
      participants = 423, hasQuiz = True, quizQuestions_count = 8, averageScore = 81\<rparr>,
     \<lparr>mod_id = 5, title = ''Financial Security'', mod_description = ''Protect yourself from financial risks'',
      lessons = 9, duration = ''50 min'', mod_difficulty = ''Advanced'', mod_progress = 0, completed = False,
      locked = True, xpReward = 450,
      topics = [''Insurance Basics'', ''Emergency Funds'', ''Identity Protection'', ''Fraud Prevention''],
      participants = 156, hasQuiz = True, quizQuestions_count = 18, averageScore = 68\<rparr>]"

record lesson_info =
  lesson_title :: string
  lesson_description :: string
  lesson_duration :: string
  lesson_type :: string
  lesson_questions :: js_int
  lesson_xpReward :: js_int
  lesson_moduleId :: js_int

definition currentLesson :: lesson_info where
  "currentLesson =
     \<lparr>lesson_title = ''Understanding Credit Scores'',
      lesson_description = ''Learn how credit scores work and how to improve them'',
      lesson_duration = ''8 min'', lesson_type = ''Interactive Quiz'', lesson_questions = 12,
      lesson_xpReward = 50, lesson_moduleId = 2\<rparr>"

text \<open>The sample questions, keyed by module id; modules 3 to 5 have none.\<close>

definition quizQuestions :: "(js_int \<times> question list) list" where
  "quizQuestions =
    [(1,
      [\<lparr>qid = 1, question_text = ''What is the recommended percentage of income to save each month?'',
        options = [''5-10%'', ''10-20%'', ''20-30%'', ''30-40%''], correctAnswer = 1,
        explanation = ''Financial experts generally recommend saving 10-20% of your income each month. This creates a good balance between current needs and future security.'',
        difficulty = Easy, points = 25\<rparr>,
       \<lparr>qid = 2, question_text = ''What is compound interest?'',
        options = [''Interest only on the principal amount'',
                   ''Interest on both principal and previously earned interest'',
                   ''A type of loan interest'', ''Interest that decreases over time''],
        correctAnswer = 1,
        explanation = ''Compound interest is interest calculated on both the initial principal and the accumulated interest from previous periods. This creates exponential growth over time.'',
        difficulty = Medium, points = 35\<rparr>,
       \<lparr>qid = 3, question_text = ''Which of these is NOT a good budgeting strategy?'',
        options = [''The 50/30/20 rule'', ''Zero-based budgeting'', ''Spending first, saving what's left'',
                   ''Envelope method''],
        correctAnswer = 2,
        explanation = ''Spending first and saving what's left is not a good strategy. You should prioritize saving by paying yourself first, then spending what remains.'',
        difficulty = Easy, points = 20\<rparr>]),
     (2,
      [\<lparr>qid = 1, question_text = ''What's the best way to avoid impulse purchases?'',
        options = [''Shop when you're hungry'', ''Use the 24-hour rule'', ''Shop without a list'',
                   ''Buy everything you want immediately''],
        correctAnswer = 1,
        explanation = ''The 24-hour rule involves waiting a day before making non-essential purchases. This helps you distinguish between wants and needs.'',
        difficulty = Easy, points = 25\<rparr>,
       \<lparr>qid = 2, question_text = ''When comparing prices, what should you consider besides the initial cost?'',
        options = [''Only the brand name'', ''Total cost of ownership including maintenance'',
                   ''The most expensive option is always best'', ''Only the cheapest option matters''],
        correctAnswer = 1,
        explanation = ''Total cost of ownership includes purchase price, maintenance, operating costs, and disposal costs. This gives you the true cost comparison.'',
        difficulty = Medium, points = 35\<rparr>])]"

text \<open>\<open>quizQuestions[currentQuizModule.id] || []\<close>, the questions handed to \<open>QuizModal\<close>.\<close>

definition questions_for :: "module_info \<Rightarrow> question list" where
  "questions_for m = (case map_of quizQuestions (mod_id m) of None \<Rightarrow> [] | Some qs \<Rightarrow> qs)"

record lm_state =
  selectedModule :: "js_int option"
  startingLesson :: "js_int option"
  showQuiz :: bool
  currentQuizModule :: "module_info option"
  pendingLessonTimers :: "profile_obj option list"

definition initial_lm :: lm_state where
  "initial_lm = \<lparr>selectedModule = None, startingLesson = None, showQuiz = False,
                 currentQuizModule = None, pendingLessonTimers = []\<rparr>"

text \<open>
  \<open>handleStartLesson\<close>: marks the lesson as starting and schedules the reward with the
  current \<open>userProfile\<close>; the button is disabled while that lesson is starting.
\<close>

definition handleStartLesson :: "app_state \<Rightarrow> lm_state \<Rightarrow> lm_state" where
  "handleStartLesson app lm =
     lm\<lparr>startingLesson := Some (lesson_moduleId currentLesson),
        pendingLessonTimers := pendingLessonTimers lm @ [userProfile app]\<rparr>"

text \<open>The timeout callback, reading the profile its render captured.\<close>

definition lessonTimerFires ::
  "profile_obj option \<Rightarrow> app_state \<Rightarrow> lm_state \<Rightarrow> app_state \<times> lm_state \<times> toast list" where
  "lessonTimerFires captured app lm =
     (let xpGained = lesson_xpReward currentLesson
      in (updateUserProfile (xp_points_obj (obj_xp captured + xpGained) (obj_points captured + xpGained)) app,
          lm\<lparr>startingLesson := None\<rparr>,
          [ToastSuccess (''Lesson started! +'' @ int_to_string xpGained @ '' XP earned!'')]))"

definition handleStartQuiz :: "module_info \<Rightarrow> lm_state \<Rightarrow> lm_state" where
  "handleStartQuiz m lm = lm\<lparr>currentQuizModule := Some m, showQuiz := True\<rparr>"

text \<open>
  \<open>handleQuizComplete(score, xpEarned)\<close>. Reading \<open>currentQuizModule.id\<close> of \<open>null\<close>
  throws inside the \<open>try\<close>, as does a failed request: both end in the error toast.
\<close>

definition quiz_toasts :: "js_int \<Rightarrow> toast list" where
  "quiz_toasts sc =
     (if sc \<ge> 90 then [ToastSuccess ''Achievement: Quiz Master! Perfect score!'']
      else if sc \<ge> 75 then [ToastSuccess ''Great job on the quiz!''] else [])"

definition handleQuizComplete ::
  "env \<Rightarrow> string option \<Rightarrow> js_int \<Rightarrow> js_int \<Rightarrow> app_state \<Rightarrow> lm_state \<Rightarrow> store \<Rightarrow>
   (app_state \<times> lm_state \<times> toast list) \<times> store" where
  "handleQuizComplete e session sc xpEarned app lm st =
     (case currentQuizModule lm of
        None \<Rightarrow> ((app, lm, [ToastError ''Failed to save quiz results'']), st)
      | Some m \<Rightarrow>
          (case updateLearningProgress e session (mod_id m) (title m) (min (mod_progress m + 20) 100)
                  (lessons m) (lessons m) st of
             (Inl _, st') \<Rightarrow> ((app, lm, [ToastError ''Failed to save quiz results'']), st')
           | (Inr _, st') \<Rightarrow>
               ((updateUserProfile (xp_points_obj (obj_xp (userProfile app) + xpEarned)
                                     (obj_points (userProfile app) + xpEarned)) app,
                 lm\<lparr>showQuiz := False, currentQuizModule := None\<rparr>, quiz_toasts sc), st')))"

definition closeQuiz :: "lm_state \<Rightarrow> lm_state" where
  "closeQuiz lm = lm\<lparr>showQuiz := False, currentQuizModule := None\<rparr>"

text \<open>
  The events of the tab: a click on a module card (ignored when locked), a click on a
  quiz button (rendered for unlocked modules with a quiz, for the current lesson's
  module, and for the selected module), the start-lesson button (disabled while
  starting), the oldest pending lesson timer firing, closing the quiz.
\<close>

definition module_by_id :: "js_int \<Rightarrow> module_info option" where
  "module_by_id i = find (\<lambda>m. mod_id m = i) modules"

datatype lm_event =
    SelectModule js_int
  | StartQuizOf js_int
  | StartLesson
  | LessonTimer
  | CloseQuiz

fun lm_step :: "app_state \<Rightarrow> lm_state \<Rightarrow> lm_event \<Rightarrow> app_state \<times> lm_state \<times> toast list" where
  "lm_step app lm (SelectModule i) =
     (case module_by_id i of
        Some m \<Rightarrow> (app, if locked m then lm else lm\<lparr>selectedModule := Some i\<rparr>, [])
      | None \<Rightarrow> (app, lm, []))"
| "lm_step app lm (StartQuizOf i) =
     (case module_by_id i of
        Some m \<Rightarrow> (app, if \<not> locked m \<and> hasQuiz m then handleStartQuiz m lm else lm, [])
      | None \<Rightarrow> (app, lm, []))"
| "lm_step app lm StartLesson =
     (if startingLesson lm = Some (lesson_moduleId currentLesson) then (app, lm, [])
      else (app, handleStartLesson app lm, []))"
| "lm_step app lm LessonTimer =
     (case pendingLessonTimers lm of
        [] \<Rightarrow> (app, lm, [])
      | c # cs \<Rightarrow> lessonTimerFires c app (lm\<lparr>pendingLessonTimers := cs\<rparr>))"
| "lm_step app lm CloseQuiz = (app, closeQuiz lm, [])"

declare questions_for_def [handler_defs] handleStartLesson_def [handler_defs]
  lessonTimerFires_def [handler_defs] handleStartQuiz_def [handler_defs] quiz_toasts_def [handler_defs]
  handleQuizComplete_def [handler_defs] closeQuiz_def [handler_defs] module_by_id_def [handler_defs]

end
