(* ===== verification/Budget.thy ===== *)
theory Budget
  imports App
begin

text \<open>
  The budgeting tab \<open>src/BudgetingTools.tsx\<close>. Its hooks are \<open>budget_state\<close>; the
  expense list holds the server's expense documents. The amount field is an
  \<open>input type="number"\<close>, whose value is empty or a numeral: the model keeps its parsed
  value (\<open>parseFloat\<close> of it) or \<open>None\<close> when empty. The derived figures of the render
  (month spending, per-category spending, recent transactions, spending status) are
  functions of the list; reading a date (\<open>new Date(exp.date)\<close> in local time) is the
  parameter \<open>month_of\<close> or \<open>time_of\<close>.
\<close>

record expense_form =
  form_category :: string
  form_amount :: "rat option"
  form_description :: string

record budget_state =
  newExpense :: expense_form
  expenses :: "expense list"
  budget_loading :: bool
  addingExpense :: bool

definition empty_expense_form :: expense_form where
  "empty_expense_form = \<lparr>form_category = '''', form_amount = None, form_description = ''''\<rparr>"

definition initial_budget :: budget_state where
  "initial_budget = \<lparr>newExpense = empty_expense_form, expenses = [], budget_loading = False,
                     addingExpense = False\<rparr>"

definition as_expense :: "kv_value \<Rightarrow> expense option" where
  "as_expense v = (case v of VExpense x \<Rightarrow> Some x | _ \<Rightarrow> None)"

definition loadExpenses ::
  "env \<Rightarrow> string option \<Rightarrow> budget_state \<Rightarrow> store \<Rightarrow> (budget_state \<times> toast list) \<times> store" where
  "loadExpenses e session s st =
     (case getExpenses e session st of
        (Inl _, st') \<Rightarrow> ((s\<lparr>budget_loading := False\<rparr>, [ToastError ''Failed to load expenses'']), st')
      | (Inr (RValues vs), st') \<Rightarrow>
          ((s\<lparr>expenses := List.map_filter as_expense vs, budget_loading := False\<rparr>, []), st')
      | (Inr _, st') \<Rightarrow> ((s\<lparr>expenses := [], budget_loading := False\<rparr>, []), st'))"

definition monthly_total :: js_int where
  "monthly_total = 25000"

text \<open>\<open>monthlyBudget.spent\<close>: the expenses dated in the current month of the current year.\<close>

definition monthly_spent :: "(string \<Rightarrow> int \<times> int) \<Rightarrow> int \<times> int \<Rightarrow> expense list \<Rightarrow> rat" where
  "monthly_spent month_of current exps =
     foldl (\<lambda>sum x. if month_of (expense_date x) = current then sum + expense_amount x else sum) 0 exps"

definition monthly_remaining :: "(string \<Rightarrow> int \<times> int) \<Rightarrow> int \<times> int \<Rightarrow> expense list \<Rightarrow> rat" where
  "monthly_remaining month_of current exps = of_int monthly_total - monthly_spent month_of current exps"

definition category_budgets :: "(string \<times> js_int) list" where
  "category_budgets =
     [(''Food & Dining'', 8000), (''Transportation'', 5000), (''Shopping'', 4000), (''Housing'', 6000),
      (''Entertainment'', 2000)]"

definition category_spent :: "string \<Rightarrow> expense list \<Rightarrow> rat" where
  "category_spent cat exps =
     foldl (\<lambda>sum x. sum + expense_amount x) 0 (filter (\<lambda>x. expense_category x = cat) exps)"

definition recentTransactions :: "(string \<Rightarrow> int) \<Rightarrow> expense list \<Rightarrow> expense list" where
  "recentTransactions time_of exps =
     take 10 (js_sort (\<lambda>a b. time_of (expense_created_at b) - time_of (expense_created_at a)) exps)"

record savings_goal =
  goal_name :: string
  goal_target :: js_int
  goal_current :: js_int

definition savingsGoals :: "savings_goal list" where
  "savingsGoals =
     [\<lparr>goal_name = ''Emergency Fund'', goal_target = 50000, goal_current = 32000\<rparr>,
      \<lparr>goal_name = ''Vacation Trip'', goal_target = 15000, goal_current = 8500\<rparr>,
      \<lparr>goal_name = ''New Laptop'', goal_target = 60000, goal_current = 45000\<rparr>]"

definition getSpendingStatus :: "rat \<Rightarrow> js_int \<Rightarrow> string" where
  "getSpendingStatus spent budget =
     (let percentage = spent / of_int budget * 100
      in if percentage \<ge> 90 then ''danger'' else if percentage \<ge> 75 then ''warning'' else ''good'')"

text \<open>\<open>new Date().toISOString().split('T')[0]\<close>: the date part of the client's clock.\<close>

definition iso_date :: "string \<Rightarrow> string" where
  "iso_date now = takeWhile (\<lambda>c. c \<noteq> CHR ''T'') now"

definition handleAddExpense ::
  "env \<Rightarrow> string option \<Rightarrow> string \<Rightarrow> app_state \<Rightarrow> budget_state \<Rightarrow> store \<Rightarrow>
   (app_state \<times> budget_state \<times> toast list) \<times> store" where
  "handleAddExpense e session now app s st =
     (let f = newExpense s in
      case form_amount f of
        Some amount \<Rightarrow>
          (if form_category f \<noteq> '''' \<and> form_description f \<noteq> '''' then
             (case addExpense e session (form_description f) amount (form_category f) (iso_date now) st of
                (Inl _, st') \<Rightarrow> ((app, s, [ToastError ''Failed to add expense'']), st')
              | (Inr b, st') \<Rightarrow>
                  (let pointsEarned = 10;
                       s' = s\<lparr>expenses := (case b of RExpense x \<Rightarrow> x # expenses s | _ \<Rightarrow> expenses s),
                             newExpense := empty_expense_form\<rparr>
                   in ((updateUserProfile (points_obj (obj_points (userProfile app) + pointsEarned)) app, s',
                        [ToastSuccess ''Expense added successfully!'',
                         ToastSuccess (''+'' @ int_to_string pointsEarned @ '' points for tracking expense!'')]),
                       st')))
           else ((app, s, [ToastError ''Please fill in all fields'']), st))
      | None \<Rightarrow> ((app, s, [ToastError ''Please fill in all fields'']), st))"

declare as_expense_def [handler_defs] handleAddExpense_def [handler_defs] iso_date_def [handler_defs]

end
