(* ===== verification/Eco_Tracker.thy ===== *)
theory Eco_Tracker
  imports App
begin

text \<open>
  The sustainability tab \<open>src/SustainableTracker.tsx\<close>: the purchase form (its amount an
  \<open>input type="number"\<close>, kept as its parsed value or \<open>None\<close> when empty; the rating a
  range slider from 1 to 5), the displayed statistics, the catalogue constants of the
  component, and \<open>handleAddPurchase\<close>, which logs the purchase through the API and adds
  the eco points the server answered to the local profile. Non-ASCII characters of the
  display strings (the subscript of CO2) are written in ASCII.
\<close>

record purchase_form =
  pf_item :: string
  pf_amount :: "rat option"
  pf_category :: string
  pf_ecoRating :: js_int

record eco_tracker_state =
  newPurchase :: purchase_form
  addingPurchase :: bool

definition empty_purchase_form :: purchase_form where
  "empty_purchase_form = \<lparr>pf_item = '''', pf_amount = None, pf_category = '''', pf_ecoRating = 5\<rparr>"

definition initial_eco_tracker :: eco_tracker_state where
  "initial_eco_tracker = \<lparr>newPurchase = empty_purchase_form, addingPurchase = False\<rparr>"

record eco_view_stats =
  totalEcoPoints :: js_int
  monthlyGoal :: js_int
  carbonSaved :: rat
  treesEquivalent :: js_int
  waterSaved :: js_int
  ecoRank :: string

text \<open>\<open>totalEcoPoints: userProfile?.total_points || 1250\<close>; the rest are constants.\<close>

definition ecoStats_view :: "app_state \<Rightarrow> eco_view_stats" where
  "ecoStats_view app =
     \<lparr>totalEcoPoints = (let p = obj_points (userProfile app) in if p = 0 then 1250 else p),
      monthlyGoal = 2000, carbonSaved = 452 / 10, treesEquivalent = 12, waterSaved = 1200,
      ecoRank = ''Eco Warrior''\<rparr>"

record eco_category =
  cat_name :: string
  cat_points :: js_int
  cat_purchases :: js_int
  cat_impact :: string

definition sustainableCategories :: "eco_category list" where
  "sustainableCategories =
     [\<lparr>cat_name = ''Renewable Energy'', cat_points = 420, cat_purchases = 3, cat_impact = ''15kg CO2 saved''\<rparr>,
      \<lparr>cat_name = ''Organic Food'', cat_points = 380, cat_purchases = 12, cat_impact = ''8kg CO2 saved''\<rparr>,
      \<lparr>cat_name = ''Eco Transport'', cat_points = 290, cat_purchases = 8, cat_impact = ''12kg CO2 saved''\<rparr>,
      \<lparr>cat_name = ''Sustainable Fashion'', cat_points = 160, cat_purchases = 2, cat_impact = ''5kg CO2 saved''\<rparr>]"

record eco_purchase_entry =
  ep_id :: js_int
  ep_item :: string
  ep_amount :: js_int
  ep_ecoPoints :: js_int
  ep_date :: string
  ep_category :: string
  ep_impact :: string

definition recentEcoPurchases :: "eco_purchase_entry list" where
  "recentEcoPurchases =
     [\<lparr>ep_id = 1, ep_item = ''Solar Power Bank'', ep_amount = 1500, ep_ecoPoints = 50, ep_date = ''2024-12-19'',
       ep_category = ''Renewable Energy'', ep_impact = ''Reduces electronic waste''\<rparr>,
      \<lparr>ep_id = 2, ep_item = ''Organic Vegetables'', ep_amount = 450, ep_ecoPoints = 25, ep_date = ''2024-12-18'',
       ep_category = ''Organic Food'', ep_impact = ''Pesticide-free farming''\<rparr>,
      \<lparr>ep_id = 3, ep_item = ''Bamboo Toothbrush Set'', ep_amount = 200, ep_ecoPoints = 15, ep_date = ''2024-12-17'',
       ep_category = ''Sustainable Products'', ep_impact = ''Biodegradable alternative''\<rparr>,
      \<lparr>ep_id = 4, ep_item = ''Public Transport Pass'', ep_amount = 800, ep_ecoPoints = 40, ep_date = ''2024-12-16'',
       ep_category = ''Eco Transport'', ep_impact = ''Reduces carbon footprint''\<rparr>]"

record eco_tip =
  tip_text :: string
  tip_points :: js_int
  tip_action :: string

definition ecoTips :: "eco_tip list" where
  "ecoTips =
     [\<lparr>tip_text = ''Buy local produce to reduce transportation emissions'', tip_points = 10, tip_action = ''Shop Local''\<rparr>,
      \<lparr>tip_text = ''Choose products with minimal packaging'', tip_points = 15, tip_action = ''Reduce Waste''\<rparr>,
      \<lparr>tip_text = ''Invest in energy-efficient appliances'', tip_points = 25, tip_action = ''Save Energy''\<rparr>,
      \<lparr>tip_text = ''Support brands with sustainability certifications'', tip_points = 20,
       tip_action = ''Choose Certified''\<rparr>]"

record eco_reward =
  reward_name :: string
  reward_description :: string
  achieved :: bool
  reward_points :: js_int

definition rewards :: "eco_reward list" where
  "rewards =
     [\<lparr>reward_name = ''Eco Beginner'', reward_description = ''First sustainable purchase'', achieved = True,
       reward_points = 100\<rparr>,
      \<lparr>reward_name = ''Green Shopper'', reward_description = ''10 eco-friendly purchases'', achieved = True,
       reward_points = 250\<rparr>,
      \<lparr>reward_name = ''Carbon Saver'', reward_description = ''Saved 50kg CO2'', achieved = False,
       reward_points = 500\<rparr>,
      \<lparr>reward_name = ''Eco Champion'', reward_description = ''100 sustainable actions'', achieved = False,
       reward_points = 1000\<rparr>]"

definition handleAddPurchase ::
  "env \<Rightarrow> string option \<Rightarrow> app_state \<Rightarrow> eco_tracker_state \<Rightarrow> store \<Rightarrow>
   (app_state \<times> eco_tracker_state \<times> toast list) \<times> store" where
  "handleAddPurchase e session app s st =
     (let f = newPurchase s in
      case pf_amount f of
        Some amount \<Rightarrow>
          (if pf_item f \<noteq> '''' \<and> pf_category f \<noteq> '''' then
             (case addEcoAction e session (pf_item f) amount (pf_category f) (pf_ecoRating f) st of
                (Inl _, st') \<Rightarrow> ((app, s, [ToastError ''Failed to log eco purchase'']), st')
              | (Inr (REcoSaved _ eco_pts), st') \<Rightarrow>
                  ((updateUserProfile (points_obj (obj_points (userProfile app) + eco_pts)) app,
                    s\<lparr>newPurchase := empty_purchase_form\<rparr>,
                    ToastSuccess (''Eco purchase logged! +'' @ int_to_string eco_pts @ '' eco points earned!'') #
                    (if eco_pts \<ge> 50 then [ToastSuccess ''Achievement: High Impact Purchase!''] else [])),
                   st')
              | (Inr _, st') \<Rightarrow> ((app, s, [ToastError ''Failed to log eco purchase'']), st'))
           else ((app, s, [ToastError ''Please fill in all required fields'']), st))
      | None \<Rightarrow> ((app, s, [ToastError ''Please fill in all required fields'']), st))"

definition handleTipAction :: "eco_tip \<Rightarrow> toast list" where
  "handleTipAction tip =
     [ToastSuccess (''Great choice! '' @ tip_action tip @ '' can earn you +'' @ int_to_string (tip_points tip) @
                    '' eco points!'')]"

declare handleAddPurchase_def [handler_defs] ecoStats_view_def [handler_defs]

end
