(* ===== verification/Quiz_View.thy ===== *)
theory Quiz_View
  imports Quiz
begin

text \<open>
  What the quiz modal (\<open>src/QuizModal.tsx\<close>) shows besides its controls: the title, the
  header of a running attempt (question number, score, progress bar, clock, streak and
  perfect counters) and the results screen (performance message and colour, the four
  figures, the bonus badges). The percentage behind the message divides the score by 50
  points per question; with no question it is \<open>0 / 0\<close>, which JavaScript takes to
  \<open>NaN\<close>, here \<open>None\<close>, and every comparison with \<open>NaN\<close> is false. The emoji of the
  messages and badges are left out.
\<close>

text \<open>\<open>formatTime\<close>: minutes, a colon, and the seconds padded to two digits.\<close>

definition padStart2 :: "string \<Rightarrow> string" where
  "padStart2 str = replicate (2 - length str) (CHR ''0'') @ str"

definition formatTime :: "js_int \<Rightarrow> string" where
  "formatTime seconds = int_to_string (seconds div 60) @ '':'' @ padStart2 (int_to_string (js_rem seconds 60))"

definition score_percentage :: "question list \<Rightarrow> js_int \<Rightarrow> rat option" where
  "score_percentage qs sc =
     (if qs = [] then None else Some (of_int sc / (of_nat (length qs) * 50) * 100))"

definition at_least :: "rat option \<Rightarrow> rat \<Rightarrow> bool" where
  "at_least p x = (case p of None \<Rightarrow> False | Some v \<Rightarrow> v \<ge> x)"

definition getScoreColor :: "question list \<Rightarrow> js_int \<Rightarrow> string" where
  "getScoreColor qs sc =
     (let p = score_percentage qs sc
      in if at_least p 90 then ''text-green-600'' else if at_least p 70 then ''text-blue-600''
         else if at_least p 50 then ''text-yellow-600'' else ''text-red-600'')"

definition getPerformanceMessage :: "question list \<Rightarrow> js_int \<Rightarrow> string \<times> string" where
  "getPerformanceMessage qs sc =
     (let p = score_percentage qs sc
      in if at_least p 90 then (''Outstanding!'', ''text-green-600'')
         else if at_least p 70 then (''Great job!'', ''text-blue-600'')
         else if at_least p 50 then (''Good effort!'', ''text-yellow-600'')
         else (''Keep practicing!'', ''text-red-600''))"

definition quiz_title :: "string \<Rightarrow> string" where
  "quiz_title moduleTitle = moduleTitle @ '' Quiz''"

text \<open>
  The header of a running attempt: \<open>Question {i + 1} of {n}\<close>, the score, the bar
  \<open>(i + 1) / n * 100\<close>, the clock (red under a minute), and the streak and perfect
  counters when positive.
\<close>

record running_header =
  rh_position :: "nat \<times> nat"
  rh_score :: js_int
  rh_progress :: rat
  rh_clock :: string
  rh_clock_red :: bool
  rh_streak :: "js_int option"
  rh_perfect :: "js_int option"

definition running_header_of :: "question list \<Rightarrow> quiz_state \<Rightarrow> running_header" where
  "running_header_of qs s =
     \<lparr>rh_position = (currentQuestionIndex s + 1, length qs), rh_score = score s,
      rh_progress = of_nat (currentQuestionIndex s + 1) / of_nat (length qs) * 100,
      rh_clock = formatTime (timeLeft s), rh_clock_red = (timeLeft s < 60),
      rh_streak = (if streak s > 0 then Some (streak s) else None),
      rh_perfect = (if perfectAnswers s > 0 then Some (perfectAnswers s) else None)\<rparr>"

datatype result_badge = PerfectBadge | SpeedBadge | StreakBadge js_int

record results_view =
  rv_message :: "string \<times> string"
  rv_score :: js_int
  rv_score_color :: string
  rv_correct :: nat
  rv_perfect :: js_int
  rv_time_used :: string
  rv_badges :: "result_badge list"

definition results_view_of :: "question list \<Rightarrow> quiz_state \<Rightarrow> results_view" where
  "results_view_of qs s =
     \<lparr>rv_message = getPerformanceMessage qs (score s), rv_score = score s,
      rv_score_color = getScoreColor qs (score s), rv_correct = correct_count qs (selectedAnswers s),
      rv_perfect = perfectAnswers s, rv_time_used = formatTime (300 - timeLeft s),
      rv_badges = (if perfectAnswers s = int (length qs) then [PerfectBadge] else []) @
                  (if timeLeft s > 150 then [SpeedBadge] else []) @
                  (if streak s \<ge> 3 then [StreakBadge (25 * streak s)] else [])\<rparr>"

subsection \<open>Lemmas\<close>

lemma formatTime_examples:
  "formatTime 300 = ''5:00'' \<and> formatTime 65 = ''1:05'' \<and> formatTime 9 = ''0:09''"
  by (simp add: formatTime_def padStart2_def js_rem_def int_to_string_def nat_to_string.simps digit_chars_def)

text \<open>The results badges are exactly the bonuses \<open>completeQuiz\<close> adds to the reported total.\<close>

lemma results_badges_are_bonus:
  "bonusXP qs s =
     sum_list (map (\<lambda>b. case b of PerfectBadge \<Rightarrow> 100 | SpeedBadge \<Rightarrow> 50 | StreakBadge x \<Rightarrow> x)
                (rv_badges (results_view_of qs s)))"
  by (simp add: bonusXP_def results_view_of_def Let_def)

end
