(* ===== verification/Client_Properties.thy ===== *)
theory Client_Properties
  imports Learning Budget Eco_Tracker Quiz_Invariants Quiz_View Server_Invariants
begin

text \<open>
  Properties that span the client components and the server: how each handler that
  awards points or XP changes the local profile of \<open>App\<close> and the stored profile, and
  what the learning tab does with a finished quiz. \<open>session_ok\<close> is a session whose
  access token the identity service maps to a user; \<open>profile_synced\<close> says the local
  profile shows the stored profile's points and XP.
\<close>

definition session_ok :: "env \<Rightarrow> string \<Rightarrow> uid \<Rightarrow> bool" where
  "session_ok e t u \<longleftrightarrow> env_getUser e t = Some u \<and> u \<noteq> '''' \<and> t \<noteq> '''' \<and> CHR '' '' \<notin> set t"

definition profile_synced :: "uid \<Rightarrow> app_state \<Rightarrow> store \<Rightarrow> bool" where
  "profile_synced u app st \<longleftrightarrow>
     (\<exists>p. as_profile (kv_get st (profile_key u)) = Some p \<and>
          obj_points (userProfile app) = or_zero (total_points p) \<and>
          obj_xp (userProfile app) = or_zero (total_xp p))"

definition quiz_progress_body :: "module_info \<Rightarrow> progress_body" where
  "quiz_progress_body m =
     \<lparr>pb_module_id = mod_id m, pb_module_name = title m,
      pb_progress_percentage = min (mod_progress m + 20) 100, pb_lessons_completed = lessons m,
      pb_total_lessons = lessons m\<rparr>"

text \<open>A sample session: \<open>alice\<close> signed in with the token \<open>tok\<close>, 100 points, 200 XP.\<close>

definition cl_env :: env where
  "cl_env = \<lparr>env_getUser = (\<lambda>t. if t = ''tok'' then Some ''alice'' else None),
             env_createUser = Inr (Some ''alice''), env_now = ''2024-12-20T10:00:00Z'', env_fresh = ''x1''\<rparr>"

definition cl_profile :: profile where
  "cl_profile = \<lparr>user_id = ''alice'', name = ''Alice'', email = ''alice@example.com'', level = Some 1,
                 total_xp = Some 200, streak_days = Some 3, total_points = Some 100,
                 created_at = ''2024-12-01'', updated_at = ''2024-12-01''\<rparr>"

definition cl_store :: store where
  "cl_store = [(profile_key ''alice'', VProfile cl_profile)]"

definition cl_app :: app_state where
  "cl_app = initial_app\<lparr>app_user := Some ''alice'', userProfile := Some (obj_of_profile cl_profile),
                         app_loading := False\<rparr>"

lemma session_verify:
  "session_ok e t u \<Longrightarrow> verifyUser (env_getUser e) (auth_header (Some t)) = Some u"
  unfolding session_ok_def by (blast intro: verifyUser_auth_header)

lemma handleQuizComplete_ok:
  assumes "session_ok e t u" and "currentQuizModule lm = Some m"
  shows "handleQuizComplete e (Some t) sc x app lm st =
           ((updateUserProfile (xp_points_obj (obj_xp (userProfile app) + x) (obj_points (userProfile app) + x)) app,
             lm\<lparr>showQuiz := False, currentQuizModule := None\<rparr>, quiz_toasts sc),
            snd (post_progress (env_getUser e) (auth_header (Some t)) (Some (quiz_progress_body m)) (env_now e) st))"
proof -
  have v: "verifyUser (env_getUser e) (auth_header (Some t)) = Some u" by (rule session_verify[OF assms(1)])
  obtain pd st2 where r: "post_progress (env_getUser e) (auth_header (Some t)) (Some (quiz_progress_body m))
      (env_now e) st = ((200, RProgressSaved pd (lessons m * 25)), st2)"
    using post_progress_shape[OF v, of "quiz_progress_body m" "env_now e" st]
    by (auto simp: quiz_progress_body_def)
  have "updateLearningProgress e (Some t) (mod_id m) (title m) (min (mod_progress m + 20) 100)
          (lessons m) (lessons m) st = (Inr (RProgressSaved pd (lessons m * 25)), st2)"
    using r unfolding updateLearningProgress_def makeRequest_def serve.simps quiz_progress_body_def
    by (simp add: response_ok_def)
  then show ?thesis using assms(2) r by (simp add: handleQuizComplete_def)
qed

subsection \<open>Local profile and stored profile\<close>

text \<open>
  Signing in with a valid session loads the stored profile into the app: the user
  is set, loading ends, and the local profile shows the stored points and XP.
\<close>

theorem checkAuth_loads_profile:
  assumes "session_ok e t u" and "kv_get st (profile_key u) = Some (VProfile p)"
  shows "snd (checkAuth e (None, Some (u, t)) app st) = st \<and>
         app_user (fst (checkAuth e (None, Some (u, t)) app st)) = Some u \<and>
         \<not> app_loading (fst (checkAuth e (None, Some (u, t)) app st)) \<and>
         profile_synced u (fst (checkAuth e (None, Some (u, t)) app st)) st"
  using session_verify[OF assms(1)] assms(2)
  by (simp add: checkAuth_def getCurrentSession_def auth_result_def loadUserProfile_def getUserProfile_def makeRequest_def get_profile_def
      response_ok_def profile_synced_def as_profile_def)

text \<open>
  C29. Logging an eco purchase keeps the local profile in step with the stored one: the
  server adds the eco points it computed to the stored points and the tracker adds the
  same answered points to the local points.
\<close>

theorem eco_purchase_keeps_sync:
  assumes "session_ok e t u" and "profile_synced u app st"
    and "pf_amount (newPurchase s) = Some a" and "pf_item (newPurchase s) \<noteq> ''''"
    and "pf_category (newPurchase s) \<noteq> ''''"
  shows "profile_synced u (fst (fst (handleAddPurchase e (Some t) app s st)))
           (snd (handleAddPurchase e (Some t) app s st))"
proof -
  let ?b = "\<lparr>eb_item_name = pf_item (newPurchase s), eb_amount = a, eb_category = pf_category (newPurchase s),
             eb_eco_rating = pf_ecoRating (newPurchase s)\<rparr>"
  have v: "verifyUser (env_getUser e) (auth_header (Some t)) = Some u" by (rule session_verify[OF assms(1)])
  obtain p where p: "as_profile (kv_get st (profile_key u)) = Some p"
    and sp: "obj_points (userProfile app) = or_zero (total_points p)"
    and sx: "obj_xp (userProfile app) = or_zero (total_xp p)"
    using assms(2) by (auto simp: profile_synced_def)
  obtain ea st2 where r: "post_eco (env_getUser e) (auth_header (Some t)) (Some ?b) (env_fresh e) (env_now e) st =
      ((200, REcoSaved ea (eco_points_of (pf_ecoRating (newPurchase s)) a)), st2)"
    using post_eco_shape[OF v, of ?b "env_fresh e" "env_now e" st] by auto
  let ?n = "eco_points_of (pf_ecoRating (newPurchase s)) a"
  have m: "addEcoAction e (Some t) (pf_item (newPurchase s)) a (pf_category (newPurchase s))
             (pf_ecoRating (newPurchase s)) st = (Inr (REcoSaved ea ?n), st2)"
    unfolding addEcoAction_def makeRequest_def serve.simps r by (simp add: response_ok_def)
  have h: "handleAddPurchase e (Some t) app s st =
      ((updateUserProfile (points_obj (obj_points (userProfile app) + ?n)) app,
        s\<lparr>newPurchase := empty_purchase_form\<rparr>,
        ToastSuccess (''Eco purchase logged! +'' @ int_to_string ?n @ '' eco points earned!'') #
        (if ?n \<ge> 50 then [ToastSuccess ''Achievement: High Impact Purchase!''] else [])), st2)"
    unfolding handleAddPurchase_def Let_def using assms(3-5) m by simp
  have st2: "st2 = snd (post_eco (env_getUser e) (auth_header (Some t)) (Some ?b) (env_fresh e) (env_now e) st)"
    using r by simp
  show ?thesis
    unfolding h profile_synced_def
    using post_eco_profile[OF v p, of ?b "env_fresh e" "env_now e"] sp sx st2 by simp
qed

text \<open>
  C30. Adding an expense awards 10 points locally only: the route stores the expense and
  leaves the stored profile as it was, while the budgeting tab adds 10 to the local
  points, so after it the local points exceed the stored ones by 10.
\<close>

theorem expense_points_local_only:
  assumes "session_ok e t u" and "as_profile (kv_get st (profile_key u)) = Some p"
    and "obj_points (userProfile app) = or_zero (total_points p)"
    and "form_amount (newExpense s) = Some a" and "form_category (newExpense s) \<noteq> ''''"
    and "form_description (newExpense s) \<noteq> ''''"
  shows "as_profile (kv_get (snd (handleAddExpense e (Some t) now app s st)) (profile_key u)) = Some p \<and>
         obj_points (userProfile (fst (fst (handleAddExpense e (Some t) now app s st)))) =
           or_zero (total_points p) + 10"
proof -
  let ?b = "\<lparr>xb_description = form_description (newExpense s), xb_amount = a,
             xb_category = form_category (newExpense s), xb_date = iso_date now\<rparr>"
  have v: "verifyUser (env_getUser e) (auth_header (Some t)) = Some u" by (rule session_verify[OF assms(1)])
  obtain x st2 where r: "post_expense (env_getUser e) (auth_header (Some t)) (Some ?b) (env_fresh e) (env_now e) st =
      ((200, RExpense x), st2)"
    using post_expense_shape[OF v, of ?b "env_fresh e" "env_now e" st] by auto
  have m: "addExpense e (Some t) (form_description (newExpense s)) a (form_category (newExpense s))
             (iso_date now) st = (Inr (RExpense x), st2)"
    unfolding addExpense_def makeRequest_def serve.simps r by (simp add: response_ok_def)
  have st2: "kv_get st2 (profile_key u) = kv_get st (profile_key u)"
    using r post_expense_profile[of "env_getUser e" "auth_header (Some t)" "Some ?b" "env_fresh e" "env_now e" st u]
    by simp
  show ?thesis
    using assms(2-6) m st2 by (simp add: handleAddExpense_def Let_def)
qed

text \<open>
  C31. A finished quiz moves the two profiles apart: the learning tab adds the quiz's
  total XP to both the local XP and the local points, while the server adds
  \<open>lessons * 25\<close> XP for the module's progress save and no points at all.
\<close>

theorem quiz_complete_diverges:
  assumes "session_ok e t u" and "as_profile (kv_get st (profile_key u)) = Some p"
    and "profile_synced u app st" and "currentQuizModule lm = Some m"
  shows "obj_xp (userProfile (fst (fst (handleQuizComplete e (Some t) sc x app lm st)))) =
           or_zero (total_xp p) + x \<and>
         obj_points (userProfile (fst (fst (handleQuizComplete e (Some t) sc x app lm st)))) =
           or_zero (total_points p) + x \<and>
         map_option (\<lambda>q. (total_xp q, total_points q))
           (as_profile (kv_get (snd (handleQuizComplete e (Some t) sc x app lm st)) (profile_key u))) =
           Some (Some (or_zero (total_xp p) + lessons m * 25), total_points p)"
proof -
  have v: "verifyUser (env_getUser e) (auth_header (Some t)) = Some u" by (rule session_verify[OF assms(1)])
  have sp: "obj_points (userProfile app) = or_zero (total_points p)"
    and sx: "obj_xp (userProfile app) = or_zero (total_xp p)"
    using assms(2,3) by (auto simp: profile_synced_def)
  show ?thesis
    using sp sx post_progress_profile[OF v assms(2), of "quiz_progress_body m" "env_now e"]
    by (simp add: handleQuizComplete_ok[OF assms(1,4)] quiz_progress_body_def)
qed

text \<open>
  The progress a finished quiz saves comes from the constant module catalogue:
  every completion of a module's quiz stores \<open>min(progress + 20, 100)\<close> of the
  catalogue's figure and all its lessons as completed, so the saved progress never
  accumulates across attempts.
\<close>

theorem quiz_progress_from_catalogue:
  assumes "session_ok e t u" and "currentQuizModule lm = Some m"
  shows "\<exists>pd. kv_get (snd (handleQuizComplete e (Some t) sc x app lm st)) (progress_key u (mod_id m)) =
                Some (VProgress pd) \<and>
              progress_percentage pd = min (mod_progress m + 20) 100 \<and> lessons_completed pd = lessons m"
  using post_progress_record[OF session_verify[OF assms(1)], of "quiz_progress_body m" "env_now e" st]
  by (simp add: handleQuizComplete_ok[OF assms] quiz_progress_body_def)

subsection \<open>Quiz results in the learning tab\<close>

lemma answered_score_le:
  assumes "\<forall>q \<in> set qs. 0 \<le> points q"
  shows "answered_score qs ans \<le> sum_list (map points qs)"
proof -
  have "answered_score qs ans \<le> (\<Sum>i\<leftarrow>[0..<length qs]. points (qs ! i))"
    unfolding answered_score_def using assms by (intro sum_list_mono) auto
  also have "map (\<lambda>i. points (qs ! i)) [0..<length qs] = map points qs"
    by (rule nth_equalityI) auto
  finally show ?thesis .
qed

lemma catalogue_questions:
  "m \<in> set modules \<Longrightarrow>
     (\<forall>q \<in> set (questions_for m). 0 \<le> points q) \<and> sum_list (map points (questions_for m)) \<le> 80"
  unfolding modules_def by (simp add: questions_for_def quizQuestions_def)

lemma catalogue_points_ratio:
  "m \<in> set modules \<Longrightarrow> questions_for m \<noteq> [] \<Longrightarrow>
     100 * sum_list (map points (questions_for m)) < 70 * (50 * int (length (questions_for m)))"
  unfolding modules_def by (auto simp: questions_for_def quizQuestions_def)

lemma catalogue_score_le:
  assumes "m \<in> set modules" and "quiz_reachable (questions_for m) s"
  shows "score s \<le> sum_list (map points (questions_for m))"
proof -
  have "score s = answered_score (questions_for m) (selectedAnswers s)"
    using reachable_quiz_inv[OF assms(2)] by (simp add: quiz_inv_def answers_inv_def)
  then show ?thesis
    using answered_score_le[of "questions_for m" "selectedAnswers s"] catalogue_questions[OF assms(1)] by simp
qed

text \<open>
  C32. The quiz toasts compare the raw score with 90 and 75 as if it were a percentage,
  but the score is the sum of the points of the correct answers: for every module of the
  catalogue it never exceeds 80, so the "Quiz Master" toast can never be shown.
\<close>

theorem quiz_master_unreachable:
  assumes "m \<in> set modules" and "quiz_reachable (questions_for m) s"
  shows "score s < 90 \<and> quiz_toasts (score s) \<noteq> [ToastSuccess ''Achievement: Quiz Master! Perfect score!'']"
proof -
  have "score s \<le> 80"
    using catalogue_score_le[OF assms] catalogue_questions[OF assms(1)] by linarith
  then show ?thesis by (simp add: quiz_toasts_def)
qed

text \<open>
  The results screen has the same flaw: its message divides the score by 50 points per
  question, while the catalogue's questions are worth less on average, so no quiz of the
  catalogue, even answered perfectly, shows ``Outstanding!'' or ``Great job!''.
\<close>

lemma quiz_message_never_great:
  assumes "m \<in> set modules" and "quiz_reachable (questions_for m) s"
  shows "fst (getPerformanceMessage (questions_for m) (score s)) \<in> {''Good effort!'', ''Keep practicing!''}"
proof (cases "questions_for m = []")
  case True
  then show ?thesis by (simp add: getPerformanceMessage_def score_percentage_def at_least_def)
next
  case False
  let ?n = "int (length (questions_for m))"
  have "100 * score s < 70 * (50 * ?n)"
    using catalogue_score_le[OF assms] catalogue_points_ratio[OF assms(1) False] by linarith
  then have "of_int (score s) / (of_nat (length (questions_for m)) * 50) * 100 < (70 :: rat)"
    using False by (simp add: field_simps)
  then show ?thesis using False
    by (auto simp: getPerformanceMessage_def score_percentage_def at_least_def Let_def)
qed

text \<open>
  C33. The lesson-start reward overwrites a quiz's XP: the reward's timeout computes the
  new XP from the profile of the render in which the lesson was started. When a quiz is
  completed in the 1.5 s between the click and the timeout, the quiz's XP first reaches
  the local profile and is then lost when the timeout sets the XP to the old value
  plus 50.
\<close>

theorem lesson_timer_loses_quiz_xp:
  assumes "session_ok e t u" and "currentQuizModule lm = Some m"
    and "startingLesson lm \<noteq> Some (lesson_moduleId currentLesson)" and "pendingLessonTimers lm = []"
  shows "let lm1 = fst (snd (lm_step app lm StartLesson));
             r = handleQuizComplete e (Some t) sc x app lm1 st;
             app3 = fst (lm_step (fst (fst r)) (fst (snd (fst r))) LessonTimer)
         in obj_xp (userProfile (fst (fst r))) = obj_xp (userProfile app) + x \<and>
            obj_xp (userProfile app3) = obj_xp (userProfile app) + 50"
proof -
  have lm1: "fst (snd (lm_step app lm StartLesson)) = handleStartLesson app lm"
    using assms(3) by simp
  have q: "currentQuizModule (handleStartLesson app lm) = Some m"
    using assms(2) by (simp add: handleStartLesson_def)
  show ?thesis
    unfolding Let_def lm1 handleQuizComplete_ok[OF assms(1) q]
    using assms(4) by (simp add: handleStartLesson_def lessonTimerFires_def currentLesson_def)
qed

text \<open>
  Two unlocked modules of the catalogue offer a quiz that has no questions: the
  quiz of modules 3 and 4 opens with \<open>quizQuestions[id] || []\<close>, the empty list, whose
  time-out pays the perfect-quiz bonus (C13).
\<close>

theorem modules_with_empty_quiz:
  "map mod_id (filter (\<lambda>m. \<not> locked m \<and> hasQuiz m \<and> questions_for m = []) modules) = [3, 4]"
  by (simp add: modules_def questions_for_def quizQuestions_def)

subsection \<open>Witnesses\<close>

lemma cl_session: "session_ok cl_env ''tok'' ''alice''"
  by (simp add: session_ok_def cl_env_def)

lemma cl_kv: "kv_get cl_store (profile_key ''alice'') = Some (VProfile cl_profile)"
  by (simp add: cl_store_def kv_get_def)

lemma cl_as_profile: "as_profile (kv_get cl_store (profile_key ''alice'')) = Some cl_profile"
  by (simp add: cl_kv as_profile_def)

lemma cl_synced: "profile_synced ''alice'' cl_app cl_store"
  by (simp add: profile_synced_def cl_as_profile cl_app_def)

theorem checkAuth_loads_profile_witness:
  "app_user (fst (checkAuth cl_env (None, Some (''alice'', ''tok'')) initial_app cl_store)) = Some ''alice'' \<and>
   profile_synced ''alice'' (fst (checkAuth cl_env (None, Some (''alice'', ''tok'')) initial_app cl_store)) cl_store"
  using checkAuth_loads_profile[OF cl_session cl_kv, of initial_app] by simp

theorem eco_purchase_keeps_sync_witness:
  "profile_synced ''alice''
     (fst (fst (handleAddPurchase cl_env (Some ''tok'') cl_app
        \<lparr>newPurchase = \<lparr>pf_item = ''Bamboo brush'', pf_amount = Some 20, pf_category = ''personal'',
                         pf_ecoRating = 5\<rparr>, addingPurchase = False\<rparr> cl_store)))
     (snd (handleAddPurchase cl_env (Some ''tok'') cl_app
        \<lparr>newPurchase = \<lparr>pf_item = ''Bamboo brush'', pf_amount = Some 20, pf_category = ''personal'',
                         pf_ecoRating = 5\<rparr>, addingPurchase = False\<rparr> cl_store))"
  by (rule eco_purchase_keeps_sync[OF cl_session cl_synced]) simp_all

theorem expense_points_local_only_witness:
  "obj_points (userProfile (fst (fst (handleAddExpense cl_env (Some ''tok'') ''2024-12-20T10:00:00Z'' cl_app
     \<lparr>newExpense = \<lparr>form_category = ''Shopping'', form_amount = Some 450, form_description = ''Shoes''\<rparr>,
      expenses = [], budget_loading = False, addingExpense = False\<rparr> cl_store)))) = 110"
  using expense_points_local_only[OF cl_session cl_as_profile, of cl_app
      "\<lparr>newExpense = \<lparr>form_category = ''Shopping'', form_amount = Some 450, form_description = ''Shoes''\<rparr>,
        expenses = [], budget_loading = False, addingExpense = False\<rparr>" 450 "''2024-12-20T10:00:00Z''"]
  by (simp add: cl_app_def cl_profile_def)

theorem quiz_complete_diverges_witness:
  "obj_xp (userProfile (fst (fst (handleQuizComplete cl_env (Some ''tok'') 80 330 cl_app
      (initial_lm\<lparr>currentQuizModule := Some (modules ! 1), showQuiz := True\<rparr>) cl_store)))) = 530"
  using quiz_complete_diverges[OF cl_session cl_as_profile cl_synced,
      of "initial_lm\<lparr>currentQuizModule := Some (modules ! 1), showQuiz := True\<rparr>" "modules ! 1" 80 330]
  by (simp add: cl_profile_def)

theorem quiz_progress_from_catalogue_witness:
  "\<exists>pd. kv_get (snd (handleQuizComplete cl_env (Some ''tok'') 80 330 cl_app
          (initial_lm\<lparr>currentQuizModule := Some (modules ! 1), showQuiz := True\<rparr>) cl_store))
          (progress_key ''alice'' 2) = Some (VProgress pd) \<and> progress_percentage pd = 87 \<and>
          lessons_completed pd = 6"
  using quiz_progress_from_catalogue[OF cl_session,
      of "initial_lm\<lparr>currentQuizModule := Some (modules ! 1), showQuiz := True\<rparr>" "modules ! 1" 80 330 cl_app
      cl_store]
  by (simp add: modules_def)

theorem quiz_master_unreachable_witness:
  "score initial_quiz < 90"
  using quiz_master_unreachable[of "modules ! 0" initial_quiz]
  by (simp add: quiz_reachable.start) (simp add: modules_def)

theorem lesson_timer_loses_quiz_xp_witness:
  "let lm1 = fst (snd (lm_step cl_app (initial_lm\<lparr>currentQuizModule := Some (modules ! 1)\<rparr>) StartLesson));
       r = handleQuizComplete cl_env (Some ''tok'') 80 330 cl_app lm1 cl_store
   in obj_xp (userProfile (fst (lm_step (fst (fst r)) (fst (snd (fst r))) LessonTimer))) = 250"
  using lesson_timer_loses_quiz_xp[OF cl_session,
      of "initial_lm\<lparr>currentQuizModule := Some (modules ! 1)\<rparr>" "modules ! 1" cl_app 80 330 cl_store]
  by (simp add: Let_def initial_lm_def currentLesson_def cl_app_def cl_profile_def)

subsection \<open>Round trips through the API\<close>

lemma scan_contains:
  assumes "kv_get st (key3 kind u f) = Some v"
  shows "v \<in> set (kv_getByPrefix st (kind @ colon @ u @ colon))"
  using kv_get_in_set[OF assms] prefix_key3_own[of kind u f] by (auto simp: set_kv_getByPrefix)

text \<open>
  C39. What a signed-in client stores through the API it reads back: after
  \<open>addExpense\<close> the list \<open>getExpenses\<close> answers holds the expense with the fields sent,
  and after \<open>updateLearningProgress\<close> the list \<open>getLearningProgress\<close> answers holds the
  progress record with the fields sent.
\<close>

theorem api_store_read_roundtrip:
  assumes "session_ok e t u"
  shows "(\<exists>vs. fst (getExpenses e (Some t) (snd (addExpense e (Some t) d a c dt st))) = Inr (RValues vs) \<and>
            VExpense \<lparr>expense_id = env_fresh e, expense_user_id = u, description = d, expense_amount = a,
                      expense_category = c, expense_date = dt, expense_created_at = env_now e\<rparr> \<in> set vs) \<and>
         (\<exists>vs. fst (getLearningProgress e (Some t) (snd (updateLearningProgress e (Some t) m n pct l tot st))) =
                 Inr (RValues vs) \<and>
            VProgress \<lparr>progress_user_id = u, module_id = m, progress_module_name = n, progress_percentage = pct,
                       lessons_completed = l, total_lessons = tot, last_accessed = env_now e\<rparr> \<in> set vs)"
proof -
  have v: "verifyUser (env_getUser e) (auth_header (Some t)) = Some u" by (rule session_verify[OF assms])
  let ?b = "\<lparr>pb_module_id = m, pb_module_name = n, pb_progress_percentage = pct, pb_lessons_completed = l,
             pb_total_lessons = tot\<rparr>"
  have x: "kv_get (snd (addExpense e (Some t) d a c dt st)) (key3 ''expense'' u (env_fresh e)) =
      Some (VExpense \<lparr>expense_id = env_fresh e, expense_user_id = u, description = d, expense_amount = a,
                      expense_category = c, expense_date = dt, expense_created_at = env_now e\<rparr>)"
    using v by (simp add: addExpense_def makeRequest_def post_expense_def case_prod_beta Let_def)
  have p: "kv_get (snd (updateLearningProgress e (Some t) m n pct l tot st))
             (key3 ''progress'' u (int_to_string m)) =
      Some (VProgress \<lparr>progress_user_id = u, module_id = m, progress_module_name = n, progress_percentage = pct,
                       lessons_completed = l, total_lessons = tot, last_accessed = env_now e\<rparr>)"
    using post_progress_record[OF v, of ?b "env_now e" st]
    by (simp add: updateLearningProgress_def makeRequest_def progress_key_def case_prod_beta)
  show ?thesis
    using scan_contains[OF x] scan_contains[OF p] v
    by (simp add: getExpenses_def getLearningProgress_def makeRequest_def get_expenses_def get_progress_def
        response_ok_def)
qed

theorem api_store_read_roundtrip_witness:
  "\<exists>vs. fst (getExpenses cl_env (Some ''tok'') (snd (addExpense cl_env (Some ''tok'') ''Shoes'' 450 ''Shopping''
      ''2024-12-20'' cl_store))) = Inr (RValues vs) \<and>
     VExpense \<lparr>expense_id = ''x1'', expense_user_id = ''alice'', description = ''Shoes'', expense_amount = 450,
               expense_category = ''Shopping'', expense_date = ''2024-12-20'',
               expense_created_at = ''2024-12-20T10:00:00Z''\<rparr> \<in> set vs"
  using api_store_read_roundtrip[OF cl_session, of "''Shoes''" 450 "''Shopping''" "''2024-12-20''" cl_store 2 "''Smart Spending''" 87 6 6]
  by (simp add: cl_env_def)

end
