(* ===== verification/Concurrency.thy ===== *)
theory Concurrency
  imports Server_Invariants
begin

text \<open>
  The route handlers of \<open>src/index.tsx\<close> are \<open>async\<close>: between two \<open>await\<close>s on the
  store another request's handler may run. \<open>Server\<close> models each handler as one
  atomic step; this theory splits the three handlers that read and then write the store
  (\<open>POST /achievements\<close>, \<open>POST /eco-actions\<close>, \<open>POST /learning/progress\<close>, with
  the helpers they call) at their store calls. A \<open>thread\<close> is a handler suspended
  before its next store call, with the values it holds; \<open>thread_step\<close> performs that
  one call (\<open>kv.get\<close>, \<open>kv.getByPrefix\<close> or \<open>kv.set\<close>) and the synchronous code up to
  the next one. The awaits before the first store call (\<open>verifyUser\<close>,
  \<open>c.req.json()\<close>) touch no store and are taken as done: a thread starts with the
  authenticated user and the parsed body. \<open>conc_step\<close> lets any unfinished thread
  move; \<open>run_alone\<close> runs one thread to its response.
\<close>

datatype thread =
    AchCheck uid achievement_body string string
  | AchWrite uid achievement_body string string
  | EcoWrite uid eco_body string string
  | StatsRead uid js_int rat string response
  | StatsWrite uid eco_stats js_int rat string response
  | ProgWrite uid progress_body string
  | XpRead uid js_int string response
  | XpWrite uid profile js_int string response
  | PointsRead uid js_int string response
  | PointsWrite uid profile js_int string response
  | Finished response

text \<open>The achievement the handler builds from its body, id and clock.\<close>

definition new_achievement :: "uid \<Rightarrow> achievement_body \<Rightarrow> string \<Rightarrow> string \<Rightarrow> achievement" where
  "new_achievement u b fresh now =
     \<lparr>achievement_id = fresh, achievement_user_id = u, badge_name = ab_badge_name b,
      badge_description = ab_badge_description b, badge_icon = ab_badge_icon b,
      points_earned = ab_points_earned b, earned_at = now\<rparr>"

definition new_eco_action :: "uid \<Rightarrow> eco_body \<Rightarrow> string \<Rightarrow> string \<Rightarrow> eco_action" where
  "new_eco_action u b fresh now =
     \<lparr>eco_id = fresh, eco_user_id = u, item_name = eb_item_name b, eco_amount = eb_amount b,
      eco_category = eb_category b, eco_points = eco_points_of (eb_eco_rating b) (eb_amount b),
      co2_saved = of_int (eb_eco_rating b) * (1 / 2), eco_created_at = now\<rparr>"

definition new_progress :: "uid \<Rightarrow> progress_body \<Rightarrow> string \<Rightarrow> progress" where
  "new_progress u b now =
     \<lparr>progress_user_id = u, module_id = pb_module_id b, progress_module_name = pb_module_name b,
      progress_percentage = pb_progress_percentage b, lessons_completed = pb_lessons_completed b,
      total_lessons = pb_total_lessons b, last_accessed = now\<rparr>"

fun thread_step :: "store \<Rightarrow> thread \<Rightarrow> store \<times> thread" where
  "thread_step st (AchCheck u b fresh now) =
     (if already_earned (kv_getByPrefix st (''achievement'' @ colon @ u @ colon)) (ab_badge_name b)
      then (st, Finished (400, RError ''Achievement already earned''))
      else (st, AchWrite u b fresh now))"
| "thread_step st (AchWrite u b fresh now) =
     (let a = new_achievement u b fresh now
      in (kv_set (key3 ''achievement'' u fresh) (VAchievement a) st,
          PointsRead u (ab_points_earned b) now (200, RAchievement a)))"
| "thread_step st (EcoWrite u b fresh now) =
     (let ea = new_eco_action u b fresh now
      in (kv_set (key3 ''eco'' u fresh) (VEcoAction ea) st,
          StatsRead u (eco_points ea) (co2_saved ea) now (200, REcoSaved ea (eco_points ea))))"
| "thread_step st (StatsRead u pts co2 now r) =
     (st, StatsWrite u (case as_eco_stats (kv_get st (key2 ''eco_stats'' u)) of
                          None \<Rightarrow> empty_eco_stats | Some e \<Rightarrow> e) pts co2 now r)"
| "thread_step st (StatsWrite u es pts co2 now r) =
     (kv_set (key2 ''eco_stats'' u)
        (VEcoStats (es\<lparr>total_eco_points := total_eco_points es + pts,
                       total_co2_saved := total_co2_saved es + co2,
                       sustainable_purchases := sustainable_purchases es + 1\<rparr>)) st,
      PointsRead u pts now r)"
| "thread_step st (ProgWrite u b now) =
     (let pd = new_progress u b now
      in (kv_set (progress_key u (pb_module_id b)) (VProgress pd) st,
          XpRead u (pb_lessons_completed b * 25) now (200, RProgressSaved pd (pb_lessons_completed b * 25))))"
| "thread_step st (XpRead u x now r) =
     (case as_profile (kv_get st (profile_key u)) of
        None \<Rightarrow> (st, Finished r)
      | Some p \<Rightarrow> (st, XpWrite u p x now r))"
| "thread_step st (XpWrite u p x now r) =
     (let newXP = or_zero (total_xp p) + x
      in (kv_set (profile_key u)
            (VProfile (p\<lparr>total_xp := Some newXP, level := Some (newXP div 1000 + 1), updated_at := now\<rparr>)) st,
          Finished r))"
| "thread_step st (PointsRead u x now r) =
     (case as_profile (kv_get st (profile_key u)) of
        None \<Rightarrow> (st, Finished r)
      | Some p \<Rightarrow> (st, PointsWrite u p x now r))"
| "thread_step st (PointsWrite u p x now r) =
     (kv_set (profile_key u)
        (VProfile (p\<lparr>total_points := Some (or_zero (total_points p) + x), updated_at := now\<rparr>)) st,
      Finished r)"
| "thread_step st (Finished r) = (st, Finished r)"

text \<open>How many store calls a thread has left at most; every step of an unfinished thread lowers it.\<close>

fun thread_rank :: "thread \<Rightarrow> nat" where
  "thread_rank (AchCheck _ _ _ _) = 4"
| "thread_rank (AchWrite _ _ _ _) = 3"
| "thread_rank (EcoWrite _ _ _ _) = 5"
| "thread_rank (StatsRead _ _ _ _ _) = 4"
| "thread_rank (StatsWrite _ _ _ _ _ _) = 3"
| "thread_rank (ProgWrite _ _ _) = 3"
| "thread_rank (XpRead _ _ _ _) = 2"
| "thread_rank (XpWrite _ _ _ _ _) = 1"
| "thread_rank (PointsRead _ _ _ _) = 2"
| "thread_rank (PointsWrite _ _ _ _ _) = 1"
| "thread_rank (Finished _) = 0"

fun finished :: "thread \<Rightarrow> bool" where
  "finished (Finished _) = True"
| "finished _ = False"

text \<open>
  Requests served at the same time: the store and the suspended handlers. Any handler
  that has not answered may perform its next store call.
\<close>

type_synonym conc_state = "store \<times> thread list"

inductive conc_step :: "conc_state \<Rightarrow> conc_state \<Rightarrow> bool" where
  step: "i < length ts \<Longrightarrow> \<not> finished (ts ! i) \<Longrightarrow> thread_step st (ts ! i) = (st', t') \<Longrightarrow>
           conc_step (st, ts) (st', ts[i := t'])"

text \<open>One particular interleaving: the listed handlers move in turn (a finished one is skipped).\<close>

fun run_schedule :: "nat list \<Rightarrow> conc_state \<Rightarrow> conc_state" where
  "run_schedule [] s = s"
| "run_schedule (i # is) (st, ts) =
     (if i < length ts \<and> \<not> finished (ts ! i)
      then run_schedule is (fst (thread_step st (ts ! i)), ts[i := snd (thread_step st (ts ! i))])
      else run_schedule is (st, ts))"

definition conc_rank :: "conc_state \<Rightarrow> nat" where
  "conc_rank s = sum_list (map thread_rank (snd s))"

function run_alone :: "store \<Rightarrow> thread \<Rightarrow> response \<times> store" where
  "run_alone st t =
     (case t of
        Finished r \<Rightarrow> (r, st)
      | _ \<Rightarrow> (case thread_step st t of (st', t') \<Rightarrow> run_alone st' t'))"
  by pat_completeness auto
termination
  by (relation "measure (\<lambda>(st, t). thread_rank t)")
     (auto simp: Let_def split: option.splits if_splits)

declare run_alone.simps [simp del]

lemma thread_step_rank: "\<not> finished t \<Longrightarrow> thread_rank (snd (thread_step st t)) < thread_rank t"
  by (cases "(st, t)" rule: thread_step.cases) (auto simp: Let_def split: option.splits)

lemma run_alone_Finished [simp]: "run_alone st (Finished r) = (r, st)"
  by (simp add: run_alone.simps)

lemma run_alone_step:
  "\<not> finished t \<Longrightarrow> run_alone st t = run_alone (fst (thread_step st t)) (snd (thread_step st t))"
  by (subst run_alone.simps) (cases t; simp add: case_prod_beta)

lemmas run_alone_steps [simp] =
  run_alone_step[of "AchCheck u b f n" for u b f n] run_alone_step[of "AchWrite u b f n" for u b f n]
  run_alone_step[of "EcoWrite u b f n" for u b f n] run_alone_step[of "StatsRead u x c n r" for u x c n r]
  run_alone_step[of "StatsWrite u e x c n r" for u e x c n r] run_alone_step[of "ProgWrite u b n" for u b n]
  run_alone_step[of "XpRead u x n r" for u x n r] run_alone_step[of "XpWrite u p x n r" for u p x n r]
  run_alone_step[of "PointsRead u x n r" for u x n r] run_alone_step[of "PointsWrite u p x n r" for u p x n r]

lemma run_alone_points:
  "run_alone st (PointsRead u x now r) = (r, updateUserPoints now u x st)"
  by (simp add: updateUserPoints_def split: option.splits)

lemma run_alone_xp:
  "run_alone st (XpRead u x now r) = (r, updateUserXP now u x st)"
  by (simp add: updateUserXP_def Let_def split: option.splits)

lemma run_alone_achievement:
  "verifyUser g hdr = Some u \<Longrightarrow>
     run_alone st (AchCheck u b fresh now) = post_achievement g hdr (Some b) fresh now st"
  by (simp add: post_achievement_def new_achievement_def run_alone_points Let_def)

lemma run_alone_eco:
  "verifyUser g hdr = Some u \<Longrightarrow>
     run_alone st (EcoWrite u b fresh now) = post_eco g hdr (Some b) fresh now st"
  by (simp add: post_eco_def new_eco_action_def updateUserEcoStats_def run_alone_points Let_def)

lemma run_alone_progress:
  "verifyUser g hdr = Some u \<Longrightarrow>
     run_alone st (ProgWrite u b now) = post_progress g hdr (Some b) now st"
  by (simp add: post_progress_def new_progress_def run_alone_xp Let_def)

subsection \<open>The scheduler\<close>

lemma run_schedule_steps: "conc_step\<^sup>*\<^sup>* s (run_schedule is s)"
proof (induction "is" arbitrary: s)
  case Nil
  then show ?case by simp
next
  case (Cons i "is")
  obtain st ts where s: "s = (st, ts)" by fastforce
  show ?case
  proof (cases "i < length ts \<and> \<not> finished (ts ! i)")
    case True
    then have "conc_step (st, ts) (fst (thread_step st (ts ! i)), ts[i := snd (thread_step st (ts ! i))])"
      by (intro conc_step.step) auto
    then show ?thesis using Cons.IH True s by (auto intro: converse_rtranclp_into_rtranclp)
  next
    case False
    then have "run_schedule (i # is) (st, ts) = run_schedule is (st, ts)" by auto
    then show ?thesis using Cons.IH s by simp
  qed
qed

lemma sum_list_update_less:
  fixes f :: "'a \<Rightarrow> nat"
  shows "i < length xs \<Longrightarrow> f y < f (xs ! i) \<Longrightarrow>
     sum_list (map f (xs[i := y])) < sum_list (map f xs)"
  by (induction xs arbitrary: i) (auto split: nat.splits)

lemma conc_step_rank: "conc_step s s' \<Longrightarrow> conc_rank s' < conc_rank s"
proof (induction rule: conc_step.induct)
  case (step i ts st st' t')
  then have "thread_rank t' < thread_rank (ts ! i)"
    using thread_step_rank[OF step(2), of st] by simp
  with step(1) show ?case by (simp add: conc_rank_def sum_list_update_less)
qed

lemma conc_step_one: "conc_step (st, [t]) s' \<longleftrightarrow> \<not> finished t \<and> s' = (fst (thread_step st t), [snd (thread_step st t)])"
proof
  assume "conc_step (st, [t]) s'"
  then show "\<not> finished t \<and> s' = (fst (thread_step st t), [snd (thread_step st t)])"
    by (cases rule: conc_step.cases) (auto simp: prod_eq_iff)
next
  assume a: "\<not> finished t \<and> s' = (fst (thread_step st t), [snd (thread_step st t)])"
  have "conc_step (st, [t]) (fst (thread_step st t), [t][0 := snd (thread_step st t)])"
    using a by (intro conc_step.step) auto
  then show "conc_step (st, [t]) s'" using a by simp
qed

lemma finished_no_step: "finished t \<Longrightarrow> \<not> conc_step (st, [t]) s'"
  by (simp add: conc_step_one)

lemma finished_cases: "finished t \<Longrightarrow> \<exists>r. t = Finished r"
  by (cases t) auto

lemma single_thread_run:
  assumes "conc_step\<^sup>*\<^sup>* (st, ts) (st', ts')" and "ts = [t]"
  shows "\<exists>t'. ts' = [t'] \<and> run_alone st' t' = run_alone st t"
  using assms
proof (induction arbitrary: t rule: converse_rtranclp_induct2)
  case refl
  then show ?case by simp
next
  case (step a b aa ba)
  from step.prems step.hyps(1) have nf: "\<not> finished t"
    and s1: "(aa, ba) = (fst (thread_step a t), [snd (thread_step a t)])"
    by (simp_all add: conc_step_one)
  then obtain t' where "ts' = [t']" and "run_alone st' t' = run_alone aa (snd (thread_step a t))"
    using step.IH by auto
  then show ?case using nf s1 run_alone_step[OF nf, of a] by auto
qed

end
