(* ===== verification/Client_Types.thy ===== *)
theory Client_Types
  imports Server
begin










subsection \<open>The JSON the server stores\<close>











end
