(* ===== verification/User_Profile.thy ===== *)
theory User_Profile
  imports Leaderboard Server_Invariants
begin

text \<open>
  The profile page (\<open>src/UserProfile.tsx\<close>). The component takes no props: its profile,
  statistics, badges, monthly progress and timeline are constants of the function body,
  and its one hook, \<open>isEditing\<close>, is toggled by the edit button and read nowhere. The
  page is modelled as those constants, the toggle, and one view function per part of the
  JSX that shows a computed value (the header, the badge grid, the monthly bars and the
  timeline), so that what the page displays can be compared with the rest of the app.
  Icons (emoji) and class names other than the rarity colours are presentation.
\<close>

record up_profile =
  up_name :: string
  up_email :: string
  up_level :: js_int
  up_totalXP :: js_int
  up_nextLevelXP :: js_int
  up_joinDate :: string
  up_streak :: js_int
  up_rank :: js_int
  up_totalPoints :: js_int

definition userProfile_up :: up_profile where
  "userProfile_up = \<lparr>up_name = ''Alex Johnson'', up_email = ''alex.johnson@email.com'', up_level = 9,
     up_totalXP = 7240, up_nextLevelXP = 8000, up_joinDate = ''March 2024'', up_streak = 12,
     up_rank = 6, up_totalPoints = 15670\<rparr>"

record up_stats =
  lessonsCompleted :: js_int
  totalMinutesLearned :: js_int
  averageQuizScore :: js_int
  sustainablePurchases :: js_int
  co2Saved :: rat
  moneySaved :: js_int
  budgetGoalsMet :: js_int
  savingsRate :: js_int

definition stats_up :: up_stats where
  "stats_up = \<lparr>lessonsCompleted = 24, totalMinutesLearned = 180, averageQuizScore = 85,
     sustainablePurchases = 18, co2Saved = 452 / 10, moneySaved = 28500, budgetGoalsMet = 8,
     savingsRate = 25\<rparr>"

record up_badge =
  up_badge_id :: js_int
  up_badge_name :: string
  up_badge_description :: string
  up_earned :: bool
  up_rarity :: string

definition badges_up :: "up_badge list" where
  "badges_up =
     [\<lparr>up_badge_id = 1, up_badge_name = ''Quick Learner'', up_badge_description = ''Completed first 5 lessons'',
       up_earned = True, up_rarity = ''common''\<rparr>,
      \<lparr>up_badge_id = 2, up_badge_name = ''Eco Warrior'', up_badge_description = ''10 sustainable purchases'',
       up_earned = True, up_rarity = ''uncommon''\<rparr>,
      \<lparr>up_badge_id = 3, up_badge_name = ''Budget Master'', up_badge_description = ''Met budget goals for 3 months'',
       up_earned = True, up_rarity = ''rare''\<rparr>,
      \<lparr>up_badge_id = 4, up_badge_name = ''Streak Champion'', up_badge_description = ''30-day learning streak'',
       up_earned = False, up_rarity = ''epic''\<rparr>,
      \<lparr>up_badge_id = 5, up_badge_name = ''Top 10'', up_badge_description = ''Ranked in top 10 globally'',
       up_earned = False, up_rarity = ''legendary''\<rparr>,
      \<lparr>up_badge_id = 6, up_badge_name = ''Carbon Saver'', up_badge_description = ''Saved 100kg CO2'',
       up_earned = False, up_rarity = ''rare''\<rparr>]"

record month_progress =
  mp_month :: string
  mp_lessonsCompleted :: js_int
  mp_ecoPoints :: js_int
  mp_moneySaved :: js_int

definition monthlyProgress :: "month_progress list" where
  "monthlyProgress =
     [\<lparr>mp_month = ''Jan'', mp_lessonsCompleted = 6, mp_ecoPoints = 180, mp_moneySaved = 2200\<rparr>,
      \<lparr>mp_month = ''Feb'', mp_lessonsCompleted = 8, mp_ecoPoints = 220, mp_moneySaved = 2800\<rparr>,
      \<lparr>mp_month = ''Mar'', mp_lessonsCompleted = 10, mp_ecoPoints = 280, mp_moneySaved = 3200\<rparr>,
      \<lparr>mp_month = ''Apr'', mp_lessonsCompleted = 12, mp_ecoPoints = 320, mp_moneySaved = 3600\<rparr>,
      \<lparr>mp_month = ''May'', mp_lessonsCompleted = 15, mp_ecoPoints = 380, mp_moneySaved = 4100\<rparr>,
      \<lparr>mp_month = ''Jun'', mp_lessonsCompleted = 18, mp_ecoPoints = 420, mp_moneySaved = 4800\<rparr>]"

record timeline_entry =
  te_title :: string
  te_date :: string
  te_points :: js_int

definition achievements_up :: "timeline_entry list" where
  "achievements_up =
     [\<lparr>te_title = ''First Budget Created'', te_date = ''2024-03-15'', te_points = 100\<rparr>,
      \<lparr>te_title = ''Completed Financial Basics'', te_date = ''2024-04-02'', te_points = 250\<rparr>,
      \<lparr>te_title = ''First Eco Purchase'', te_date = ''2024-04-10'', te_points = 50\<rparr>,
      \<lparr>te_title = ''7-Day Learning Streak'', te_date = ''2024-05-01'', te_points = 150\<rparr>,
      \<lparr>te_title = ''10 Sustainable Actions'', te_date = ''2024-05-15'', te_points = 200\<rparr>,
      \<lparr>te_title = ''Budget Goal Met'', te_date = ''2024-06-01'', te_points = 300\<rparr>]"

text \<open>\<open>getBadgeRarityColor\<close>: a \<open>switch\<close> on the rarity with a default.\<close>

definition getBadgeRarityColor :: "string \<Rightarrow> string" where
  "getBadgeRarityColor r =
     (if r = ''common'' then ''bg-gray-100 text-gray-800''
      else if r = ''uncommon'' then ''bg-green-100 text-green-800''
      else if r = ''rare'' then ''bg-blue-100 text-blue-800''
      else if r = ''epic'' then ''bg-purple-100 text-purple-800''
      else if r = ''legendary'' then ''bg-yellow-100 text-yellow-800''
      else ''bg-gray-100 text-gray-800'')"

text \<open>The one hook and its handler, the edit button's \<open>setIsEditing(!isEditing)\<close>.\<close>

record up_state =
  isEditing :: bool

definition initial_up :: up_state where
  "initial_up = \<lparr>isEditing = False\<rparr>"

definition toggleEditing :: "up_state \<Rightarrow> up_state" where
  "toggleEditing s = s\<lparr>isEditing := \<not> isEditing s\<rparr>"

subsection \<open>What the page shows\<close>

text \<open>
  The header: avatar initials, name, e-mail, join date, level, the XP bar's value
  \<open>totalXP / nextLevelXP * 100\<close> and its caption, rank, streak and points.
\<close>

record header_view =
  hv_initials :: string
  hv_name :: string
  hv_email :: string
  hv_level :: js_int
  hv_xp_bar :: rat
  hv_xp_caption :: "js_int \<times> js_int"
  hv_rank :: js_int
  hv_streak :: js_int
  hv_points :: js_int

definition profile_header :: "up_profile \<Rightarrow> header_view" where
  "profile_header p =
     \<lparr>hv_initials = initials (up_name p), hv_name = up_name p, hv_email = up_email p,
      hv_level = up_level p, hv_xp_bar = of_int (up_totalXP p) / of_int (up_nextLevelXP p) * 100,
      hv_xp_caption = (up_totalXP p, up_nextLevelXP p), hv_rank = up_rank p,
      hv_streak = up_streak p, hv_points = up_totalPoints p\<rparr>"

text \<open>The badge grid: the count of earned badges, and per badge its colour and marker.\<close>

record badge_card =
  bc_name :: string
  bc_rarity :: string
  bc_color :: string
  bc_description :: string
  bc_not_earned :: bool

definition badge_card_of :: "up_badge \<Rightarrow> badge_card" where
  "badge_card_of b =
     \<lparr>bc_name = up_badge_name b, bc_rarity = up_rarity b, bc_color = getBadgeRarityColor (up_rarity b),
      bc_description = up_badge_description b, bc_not_earned = \<not> up_earned b\<rparr>"

definition badges_view :: "up_badge list \<Rightarrow> (nat \<times> nat) \<times> badge_card list" where
  "badges_view bs = ((length (filter up_earned bs), length bs), map badge_card_of bs)"

text \<open>The monthly rows: the three bars are the month's figures scaled by 20, 500 and 5000.\<close>

definition month_bars :: "month_progress \<Rightarrow> string \<times> rat \<times> rat \<times> rat" where
  "month_bars m =
     (mp_month m, of_int (mp_lessonsCompleted m) / 20 * 100, of_int (mp_ecoPoints m) / 500 * 100,
      of_int (mp_moneySaved m) / 5000 * 100)"

definition progress_view :: "month_progress list \<Rightarrow> (string \<times> rat \<times> rat \<times> rat) list" where
  "progress_view ms = map month_bars ms"

definition timeline_view :: "timeline_entry list \<Rightarrow> (string \<times> string \<times> js_int) list" where
  "timeline_view es = map (\<lambda>e. (te_title e, te_date e, te_points e)) es"

text \<open>
  The whole page. \<open>App\<close> renders \<open><UserProfile userProfile={userProfile} .../>\<close>, but
  the component declares no parameters, so the app state is not an input of the view:
  every user sees the same page.
\<close>

definition profile_page ::
  "up_state \<Rightarrow> header_view \<times> ((nat \<times> nat) \<times> badge_card list) \<times> (string \<times> rat \<times> rat \<times> rat) list \<times>
      (string \<times> string \<times> js_int) list" where
  "profile_page s =
     (profile_header userProfile_up, badges_view badges_up, progress_view monthlyProgress,
      timeline_view achievements_up)"

text \<open>
  The overview tab: three cards of labelled figures, each printed with its unit (the
  rupee sign written \<open>Rs\<close>, the grouping of \<open>toLocaleString\<close> left out), and the fixed
  eco rank.
\<close>

datatype shown_value = ShownInt string js_int string | ShownRat rat string | ShownText string

definition overview_view :: "up_stats \<Rightarrow> (string \<times> (string \<times> shown_value) list) list" where
  "overview_view st =
     [(''Learning Stats'',
       [(''Lessons Completed'', ShownInt [] (lessonsCompleted st) []),
        (''Minutes Learned'', ShownInt [] (totalMinutesLearned st) []),
        (''Quiz Average'', ShownInt [] (averageQuizScore st) ''%'')]),
      (''Eco Impact'',
       [(''Sustainable Purchases'', ShownInt [] (sustainablePurchases st) []),
        (''CO2 Saved'', ShownRat (co2Saved st) ''kg''),
        (''Eco Rank'', ShownText ''Eco Warrior'')]),
      (''Financial Health'',
       [(''Money Saved'', ShownInt ''Rs'' (moneySaved st) []),
        (''Budget Goals Met'', ShownInt [] (budgetGoalsMet st) []),
        (''Savings Rate'', ShownInt [] (savingsRate st) ''%'')])]"

lemma profile_page_header: "fst (profile_page s) = profile_header userProfile_up"
  by (simp add: profile_page_def)

text \<open>
  The page's figures are not those of the app. It shows level 9 for 7240 XP, while the
  server's rule (\<open>updateUserXP\<close>) gives a profile that has earned 7240 XP level 8; and it
  shows the ``Top 10'' badge as not earned next to a global rank of 6.
\<close>

lemma profile_page_level_not_server_level:
  assumes "as_profile (kv_get st (profile_key u)) = Some p" and "total_xp p = Some 0"
  shows "map_option level (as_profile (kv_get (updateUserXP now u (up_totalXP userProfile_up) st) (profile_key u)))
           = Some (Some 8) \<and>
         hv_level (fst (profile_page s)) = 9"
  using profile_after_updateUserXP[OF assms(1)] assms(2)
  by (simp add: profile_page_def profile_header_def userProfile_up_def)

lemma profile_page_top10_unearned:
  "up_rank userProfile_up \<le> 10 \<and> bc_name (snd (fst (snd (profile_page s))) ! 4) = ''Top 10'' \<and>
   bc_not_earned (snd (fst (snd (profile_page s))) ! 4)"
  by (simp add: profile_page_def badges_view_def badges_up_def badge_card_of_def userProfile_up_def)

lemma profile_page_xp_bar: "hv_xp_bar (fst (profile_page s)) = 905 / 10"
  by (simp add: profile_page_def profile_header_def userProfile_up_def)

end
