(* ===== verification/Leaderboard_View.thy ===== *)
theory Leaderboard_View
  imports Leaderboard
begin

text \<open>
  What the leaderboard tab (\<open>src/Leaderboard.tsx\<close>) renders: the rows of the overall
  ranking, the weekly and per-category lists, the achievement cards and the two cards
  about the user. A row reads display fields (\<open>avatar\<close>, \<open>change\<close>, \<open>weeklyXP\<close>, ...)
  that only the built-in entries have; on the server's entries they are \<open>undefined\<close>.
  React prints \<open>undefined\<close> as nothing and a number in decimal, and JavaScript compares
  \<open>undefined\<close> with a number as false and takes \<open>Math.abs(undefined)\<close> to \<open>NaN\<close>, which
  React prints as \<open>NaN\<close>. Icons are constructors; class names other than the rarity
  colours are presentation.
\<close>

datatype rank_icon = CrownIcon | SilverMedal | BronzeMedal | RankText js_int

definition getRankIcon :: "js_int \<Rightarrow> rank_icon" where
  "getRankIcon r = (if r = 1 then CrownIcon else if r = 2 then SilverMedal else if r = 3 then BronzeMedal
                    else RankText r)"

datatype change_icon = ArrowUpIcon | ArrowDownIcon | MinusIcon

text \<open>\<open>getChangeIcon\<close> on a number that may be \<open>undefined\<close> (\<open>None\<close>).\<close>

definition getChangeIcon :: "js_int option \<Rightarrow> change_icon" where
  "getChangeIcon c =
     (case c of Some n \<Rightarrow> if n > 0 then ArrowUpIcon else if n < 0 then ArrowDownIcon else MinusIcon
      | None \<Rightarrow> MinusIcon)"

definition getRarityColor :: "string \<Rightarrow> string" where
  "getRarityColor r =
     (if r = ''legendary'' then ''bg-gradient-to-r from-yellow-400 to-orange-500 text-white''
      else if r = ''epic'' then ''bg-gradient-to-r from-purple-500 to-pink-500 text-white''
      else if r = ''rare'' then ''bg-gradient-to-r from-blue-500 to-cyan-500 text-white''
      else if r = ''uncommon'' then ''bg-gradient-to-r from-green-500 to-emerald-500 text-white''
      else ''bg-gray-100 text-gray-800'')"

text \<open>\<open>{n}\<close> in JSX for a number that may be \<open>undefined\<close>.\<close>

definition show_num :: "js_int option \<Rightarrow> string" where
  "show_num v = (case v of None \<Rightarrow> [] | Some n \<Rightarrow> int_to_string n)"

text \<open>
  \<open>{user.change !== 0 && <span>{Math.abs(user.change)}</span>}\<close>: nothing for a change
  of 0, the magnitude otherwise, and \<open>NaN\<close> when the field is \<open>undefined\<close>.
\<close>

definition change_badge :: "js_int option \<Rightarrow> string option" where
  "change_badge c = (case c of None \<Rightarrow> Some ''NaN'' | Some n \<Rightarrow> if n = 0 then None else Some (int_to_string \<bar>n\<bar>))"

record lb_row =
  row_icon :: rank_icon
  row_highlight :: bool
  row_avatar :: string
  row_name :: string
  row_change_icon :: change_icon
  row_change :: "string option"
  row_level :: string
  row_location :: string
  row_streak :: string
  row_points :: js_int
  row_weekly :: string
  row_badges :: string

definition lb_row_of :: "lb_item \<Rightarrow> lb_row" where
  "lb_row_of u =
     (let d = display u
      in \<lparr>row_icon = getRankIcon (rank u),
          row_highlight = (case d of Some x \<Rightarrow> isCurrentUser x | None \<Rightarrow> False),
          row_avatar = (case d of Some x \<Rightarrow> avatar x | None \<Rightarrow> []),
          row_name = lb_name u,
          row_change_icon = getChangeIcon (map_option change d),
          row_change = change_badge (map_option change d),
          row_level = ''Level '' @ show_num (lb_level u),
          row_location = (case d of Some x \<Rightarrow> location x | None \<Rightarrow> []),
          row_streak = show_num (map_option mock_streak d),
          row_points = lb_total_points u,
          row_weekly = ''+'' @ show_num (map_option weeklyXP d),
          row_badges = show_num (map_option badges d) @ '' badges''\<rparr>)"

definition overall_rows :: "lb_view_state \<Rightarrow> lb_row list" where
  "overall_rows s = map lb_row_of (filteredLeaderboard s)"

subsection \<open>The other tabs\<close>

definition weeklyLeaders :: "(string \<times> js_int \<times> string) list" where
  "weeklyLeaders = [(''Priya Sharma'', 1240, ''+2 ranks''), (''Anita Desai'', 1350, ''+3 ranks''),
                    (''Sneha Patel'', 1120, ''+1 rank'')]"

definition learning_leaders :: "(string \<times> js_int \<times> js_int) list" where
  "learning_leaders = [(''Rahul Singh'', 45, 1125), (''Priya Sharma'', 42, 1050), (''Sneha Patel'', 38, 950)]"

definition eco_leaders :: "(string \<times> js_int \<times> js_int) list" where
  "eco_leaders = [(''Priya Sharma'', 2450, 125), (''Sneha Patel'', 2100, 98), (''Anita Desai'', 1890, 87)]"

definition savings_leaders :: "(string \<times> js_int \<times> js_int) list" where
  "savings_leaders = [(''Arjun Kumar'', 45000, 32), (''Priya Sharma'', 38500, 28), (''Rahul Singh'', 32000, 25)]"

text \<open>Each list is shown in its order, numbered by \<open>index + 1\<close>.\<close>

definition numbered :: "'a list \<Rightarrow> (nat \<times> 'a) list" where
  "numbered xs = zip [1..<Suc (length xs)] xs"

definition weekly_rows :: "(nat \<times> string \<times> string \<times> string) list" where
  "weekly_rows = map (\<lambda>(i, n, xp, c). (i, n, c, ''+'' @ int_to_string xp @ '' XP'')) (numbered weeklyLeaders)"

text \<open>\<open>(leader.savedAmount / 1000).toFixed(0)\<close> in thousands.\<close>

definition savings_rows :: "(nat \<times> string \<times> string \<times> string) list" where
  "savings_rows =
     map (\<lambda>(i, n, amt, rate). (i, n, int_to_string (toFixed0 (of_int amt / 1000)) @ ''k'', int_to_string rate @ ''% rate''))
       (numbered savings_leaders)"

record lb_achievement =
  la_title :: string
  la_description :: string
  la_rarity :: string

definition lb_achievements :: "lb_achievement list" where
  "lb_achievements =
     [\<lparr>la_title = ''Top Performer'', la_description = ''Ranked #1 for 7 days'', la_rarity = ''legendary''\<rparr>,
      \<lparr>la_title = ''Streak Master'', la_description = ''30-day learning streak'', la_rarity = ''epic''\<rparr>,
      \<lparr>la_title = ''Eco Champion'', la_description = ''Saved 100kg CO2'', la_rarity = ''rare''\<rparr>,
      \<lparr>la_title = ''Quiz Master'', la_description = ''Perfect score on 10 quizzes'', la_rarity = ''uncommon''\<rparr>]"

definition achievement_cards :: "(string \<times> string \<times> string) list" where
  "achievement_cards = map (\<lambda>a. (la_title a, getRarityColor (la_rarity a), la_rarity a)) lb_achievements"

text \<open>
  The user's cards. \<open>#{userProfile?.rank || 6}\<close>: profile objects have no \<open>rank\<close>
  field (\<open>profile_obj\<close> has none), so the read is always \<open>undefined\<close>. The streak card
  shows \<open>(streak_days || 12)/30\<close> and a bar of that fraction.
\<close>

definition your_rank :: "profile_obj option \<Rightarrow> js_int" where
  "your_rank up = or_default_num None 6"

definition streak_card :: "profile_obj option \<Rightarrow> js_int \<times> rat" where
  "streak_card up =
     (let k = or_default_num (case up of None \<Rightarrow> None | Some p \<Rightarrow> upd_streak_days p) 12
      in (k, of_int k / 30 * 100))"

definition learning_rows :: "(nat \<times> string \<times> string \<times> string) list" where
  "learning_rows =
     map (\<lambda>(i, n, lessons, pts). (i, n, int_to_string lessons, ''+'' @ int_to_string pts @ '' pts''))
       (numbered learning_leaders)"

definition eco_rows :: "(nat \<times> string \<times> string \<times> string) list" where
  "eco_rows =
     map (\<lambda>(i, n, pts, co2). (i, n, int_to_string pts, int_to_string co2 @ ''kg CO2''))
       (numbered eco_leaders)"

subsection \<open>Lemmas\<close>

text \<open>
  The controls of the tab: the search box, the refresh button (disabled while loading),
  the tab triggers, and the 30 s interval. The effect that loads the list and starts the
  interval depends on \<open>[activeTab, timeframe]\<close>, so a tab switch loads the list again.
\<close>

datatype lb_event = SearchInput string | RefreshClick | LbTab string | RefreshTick

fun lb_step :: "env \<Rightarrow> string option \<Rightarrow> app_state \<Rightarrow> lb_view_state \<Rightarrow> store \<Rightarrow> lb_event \<Rightarrow> lb_view_state \<times> store" where
  "lb_step e session app s st (SearchInput q) = (s\<lparr>searchQuery := q\<rparr>, st)"
| "lb_step e session app s st RefreshClick =
     (if lb_loading s then (s, st) else loadLeaderboard e session app s st)"
| "lb_step e session app s st (LbTab t) =
     (if t = lb_activeTab s then (s, st) else loadLeaderboard e session app (s\<lparr>lb_activeTab := t\<rparr>) st)"
| "lb_step e session app s st RefreshTick = loadLeaderboard e session app s st"

lemma lb_row_of_server_item:
  "row_change (lb_row_of (server_item e)) = Some ''NaN'' \<and> row_change_icon (lb_row_of (server_item e)) = MinusIcon \<and>
   row_avatar (lb_row_of (server_item e)) = [] \<and> row_weekly (lb_row_of (server_item e)) = ''+'' \<and>
   row_badges (lb_row_of (server_item e)) = '' badges'' \<and> \<not> row_highlight (lb_row_of (server_item e))"
  by (simp add: lb_row_of_def server_item_def change_badge_def getChangeIcon_def show_num_def)

text \<open>
  With the server's answer, every row of the overall tab shows \<open>NaN\<close> as its rank change
  beside a neutral icon, an empty avatar, \<open>+\<close> with no weekly XP and \<open>badges\<close> with no
  count, and no row is marked as the user's.
\<close>

lemma server_rows_show_NaN:
  assumes "getLeaderboard e session st = (Inr (RLeaderboard l), st')"
    and "r \<in> set (overall_rows (fst (loadLeaderboard e session app s st)))"
  shows "row_change r = Some ''NaN'' \<and> row_weekly r = ''+'' \<and> \<not> row_highlight r"
  using assms lb_row_of_server_item
  by (auto simp: overall_rows_def filteredLeaderboard_def loadLeaderboard_def)

lemma mock_rows_change:
  "map row_change (map lb_row_of (mockLeaderboardData up)) = [Some ''2'', Some ''1'', Some ''1'', None, Some ''3'', Some ''1'']"
  by (simp add: mockLeaderboardData_def lb_row_of_def change_badge_def Let_def int_to_string_def nat_to_string.simps digit_chars_def)

text \<open>The category lists are in descending order of their figure; the weekly list is not.\<close>

lemma weekly_not_ranked_by_xp:
  "sorted_wrt (\<ge>) (map (fst \<circ> snd) learning_leaders) \<and> sorted_wrt (\<ge>) (map (fst \<circ> snd) eco_leaders) \<and>
   sorted_wrt (\<ge>) (map (fst \<circ> snd) savings_leaders) \<and> \<not> sorted_wrt (\<ge>) (map (fst \<circ> snd) weeklyLeaders)"
  by (simp add: learning_leaders_def eco_leaders_def savings_leaders_def weeklyLeaders_def)

end
