(* ===== verification/Learning_View.thy ===== *)
theory Learning_View
  imports Learning Quiz_View
begin

text \<open>
  What the learning tab (\<open>src/LearningModules.tsx\<close>) shows around its handlers: the
  difficulty colours, the log line of \<open>handleModuleAction\<close> (its only effect), the current
  lesson card with its start button, the selected module's topics and quiz prompt, and
  the quiz modal it mounts (title and questions).
\<close>

definition getDifficultyColor :: "string \<Rightarrow> string" where
  "getDifficultyColor d =
     (if d = ''Beginner'' then ''bg-green-100 text-green-800''
      else if d = ''Intermediate'' then ''bg-yellow-100 text-yellow-800''
      else if d = ''Advanced'' then ''bg-red-100 text-red-800'' else ''bg-gray-100 text-gray-800'')"

text \<open>\<open>handleModuleAction\<close>: nothing for a locked module, else the line it logs.\<close>

definition handleModuleAction :: "module_info \<Rightarrow> string option" where
  "handleModuleAction m =
     (if locked m then None
      else Some ((if completed m then ''Reviewing'' else if mod_progress m > 0 then ''Continuing'' else ''Starting'') @
                 '' module: '' @ title m))"

text \<open>The lesson card: title, description, duration, question count, reward, and the start button.\<close>

record lesson_card =
  lc_title :: string
  lc_description :: string
  lc_duration :: string
  lc_questions :: string
  lc_reward :: string
  lc_starting :: bool

definition lesson_card_of :: "lm_state \<Rightarrow> lesson_card" where
  "lesson_card_of lm =
     \<lparr>lc_title = lesson_title currentLesson, lc_description = lesson_description currentLesson,
      lc_duration = lesson_duration currentLesson,
      lc_questions = int_to_string (lesson_questions currentLesson) @ '' questions'',
      lc_reward = ''+'' @ int_to_string (lesson_xpReward currentLesson) @ '' XP'',
      lc_starting = (startingLesson lm = Some (lesson_moduleId currentLesson))\<rparr>"

text \<open>
  The selected module's panel: its topics and \<open>Test your knowledge with {quizQuestions}
  interactive questions\<close>, the count the module object advertises.
\<close>

definition selected_panel :: "lm_state \<Rightarrow> (string list \<times> string) option" where
  "selected_panel lm =
     (case selectedModule lm of
        None \<Rightarrow> None
      | Some i \<Rightarrow> map_option (\<lambda>m. (topics m, ''Test your knowledge with '' @
                                int_to_string (quizQuestions_count m) @ '' interactive questions''))
                    (module_by_id i))"

text \<open>The mounted quiz modal: its title and \<open>quizQuestions[id] || []\<close>.\<close>

definition quiz_modal_props :: "lm_state \<Rightarrow> (string \<times> question list) option" where
  "quiz_modal_props lm =
     (if showQuiz lm then map_option (\<lambda>m. (quiz_title (title m), questions_for m)) (currentQuizModule lm)
      else None)"

subsection \<open>Lemmas\<close>

text \<open>
  The quiz prompt of the first four modules advertises 12, 10, 15 and 8 questions; the
  modal they open has 3, 2, 0 and 0.
\<close>

lemma advertised_vs_actual_questions:
  "map (\<lambda>m. (quizQuestions_count m, length (questions_for m))) (take 4 modules) =
     [(12, 3), (10, 2), (15, 0), (8, 0)]"
  by (simp add: modules_def questions_for_def quizQuestions_def)

lemma quiz_modal_after_start:
  "quiz_modal_props (handleStartQuiz m lm) = Some (quiz_title (title m), questions_for m)"
  by (simp add: quiz_modal_props_def handleStartQuiz_def)

end
