(* ===== verification/App_View.thy ===== *)
theory App_View
  imports App
begin

text \<open>
  What the root component (\<open>src/App.tsx\<close>) renders and the events of its own controls:
  the loading screen while the session check runs, then either the guest view (with the
  sign-in and get-started buttons) or the header with the user's name, level and points
  and the six tabs; the auth modal's open, close and success. The signed-in user's e-mail
  comes with the session and is a parameter.
\<close>

datatype app_screen = LoadingScreen | GuestView | TabsView string

definition app_screen_of :: "app_state \<Rightarrow> app_screen" where
  "app_screen_of s =
     (if app_loading s then LoadingScreen
      else case app_user s of None \<Rightarrow> GuestView | Some _ \<Rightarrow> TabsView (activeTab s))"

text \<open>
  The header's user box: \<open>userProfile?.name || user.email\<close>, and, when there is a profile,
  \<open>Level {level} - {total_points} pts\<close> (the bullet written as a dash; React prints a
  missing or \<open>null\<close> field as nothing).
\<close>

definition show_opt_num :: "js_int option option \<Rightarrow> string" where
  "show_opt_num v = (case v of Some (Some n) \<Rightarrow> int_to_string n | _ \<Rightarrow> [])"

definition header_user :: "string \<Rightarrow> app_state \<Rightarrow> (string \<times> string option) option" where
  "header_user user_email s =
     (case app_user s of
        None \<Rightarrow> None
      | Some _ \<Rightarrow>
          Some (or_default_str (case userProfile s of None \<Rightarrow> None | Some p \<Rightarrow> upd_name p) user_email,
                map_option (\<lambda>p. ''Level '' @ show_opt_num (upd_level p) @ '' - '' @
                                 show_opt_num (upd_total_points p) @ '' pts'') (userProfile s)))"

definition app_tabs :: "string list" where
  "app_tabs = [''dashboard'', ''learn'', ''budget'', ''sustainable'', ''leaderboard'', ''profile'']"

text \<open>
  The events of the shell: a tab trigger (rendered only for a signed-in user), the
  sign-in and get-started buttons (rendered only for a guest), the modal's close, a run of
  \<open>checkAuth\<close> (the mount effect, and the modal's success callback
  \<open>handleAuthSuccess\<close>), with the session answer as input, and the sign-out button with
  the identity service's answer.
\<close>

datatype app_event =
    SelectTab string
  | OpenAuthModal
  | CloseAuthModal
  | RunCheckAuth "string option \<times> (uid \<times> string) option"
  | SignOutClick "string option"

fun app_step :: "env \<Rightarrow> app_state \<Rightarrow> store \<Rightarrow> app_event \<Rightarrow> app_state \<times> store" where
  "app_step e s st (SelectTab t) =
     (if app_user s \<noteq> None \<and> \<not> app_loading s \<and> t \<in> set app_tabs then (s\<lparr>activeTab := t\<rparr>, st) else (s, st))"
| "app_step e s st OpenAuthModal =
     (if app_user s = None \<and> \<not> app_loading s then (s\<lparr>showAuthModal := True\<rparr>, st) else (s, st))"
| "app_step e s st CloseAuthModal = (s\<lparr>showAuthModal := False\<rparr>, st)"
| "app_step e s st (RunCheckAuth answer) = checkAuth e answer s st"
| "app_step e s st (SignOutClick err) =
     (if app_user s \<noteq> None \<and> \<not> app_loading s then (handleSignOut err s, st) else (s, st))"

subsection \<open>Lemmas\<close>

lemma app_screen_initial: "app_screen_of initial_app = LoadingScreen"
  by (simp add: app_screen_of_def initial_app_def)

text \<open>
  Whatever the session check answers, loading ends, and an error or no session leaves a
  guest; signing out returns to the guest view.
\<close>

lemma app_screen_after_check:
  "app_user s = None \<Longrightarrow> snd answer = None \<or> fst answer \<noteq> None \<Longrightarrow>
     app_screen_of (fst (app_step e s st (RunCheckAuth answer))) = GuestView"
  by (cases answer) (auto simp: app_screen_of_def checkAuth_def getCurrentSession_def auth_result_def
      split: option.splits)

lemma app_screen_after_sign_out:
  "app_user s \<noteq> None \<Longrightarrow> \<not> app_loading s \<Longrightarrow>
     app_screen_of (fst (app_step e s st (SignOutClick None))) = GuestView"
  by (simp add: app_screen_of_def handleSignOut_ok)

lemma app_step_store:
  "(\<forall>answer. ev \<noteq> RunCheckAuth answer) \<Longrightarrow> snd (app_step e s st ev) = st"
  by (cases ev) auto

end
