(* ===== verification/Dashboard.thy ===== *)
theory Dashboard
  imports App
begin

text \<open>
  The dashboard tab \<open>src/Dashboard.tsx\<close>: the statistics it shows from the local profile
  (with demonstration defaults where a field is missing or zero), its constant chart and
  goal data, and \<open>handleQuickAction\<close>, which awards the action's points in the local
  profile and marks the action as done for two seconds (its button is disabled
  meanwhile). The clearing timeout is a pending event. Emoji icons are omitted and the
  rupee sign is written \<open>Rs\<close>.
\<close>

record dashboard_state =
  completedAction :: "string option"
  timeRange :: string
  pendingClears :: nat

definition initial_dashboard :: dashboard_state where
  "initial_dashboard = \<lparr>completedAction = None, timeRange = ''7d'', pendingClears = 0\<rparr>"

record user_stats =
  us_level :: js_int
  us_xp :: js_int
  us_xpToNext :: js_int
  us_streak :: js_int
  us_totalPoints :: js_int
  us_completedLessons :: js_int
  us_sustainableActions :: js_int
  us_savedMoney :: js_int

definition userStats :: "app_state \<Rightarrow> user_stats" where
  "userStats app =
     (let fld = (\<lambda>f. case userProfile app of None \<Rightarrow> None | Some p \<Rightarrow> f p)
      in \<lparr>us_level = or_default_num (fld upd_level) 7, us_xp = or_default_num (fld upd_total_xp) 2450,
          us_xpToNext = 3000, us_streak = or_default_num (fld upd_streak_days) 12,
          us_totalPoints = or_default_num (fld upd_total_points) 15670, us_completedLessons = 24,
          us_sustainableActions = 18, us_savedMoney = 1240\<rparr>)"

definition weeklyProgressData :: "(string \<times> js_int \<times> js_int \<times> js_int) list" where
  "weeklyProgressData =
     [(''Mon'', 150, 45, 320), (''Tue'', 280, 60, 450), (''Wed'', 190, 35, 280), (''Thu'', 350, 80, 600),
      (''Fri'', 420, 95, 380), (''Sat'', 300, 70, 520), (''Sun'', 250, 55, 290)]"

definition categorySpendingData :: "(string \<times> js_int \<times> js_int \<times> string) list" where
  "categorySpendingData =
     [(''Food & Dining'', 35, 8750, ''#3b82f6''), (''Transportation'', 20, 5000, ''#10b981''),
      (''Shopping'', 25, 6250, ''#8b5cf6''), (''Housing'', 15, 3750, ''#f59e0b''),
      (''Entertainment'', 5, 1250, ''#ef4444'')]"

definition monthlyTrends :: "(string \<times> js_int \<times> js_int \<times> js_int) list" where
  "monthlyTrends =
     [(''Aug'', 25000, 18500, 6500), (''Sep'', 26000, 19200, 6800), (''Oct'', 25500, 17800, 7700),
      (''Nov'', 27000, 20100, 6900), (''Dec'', 26500, 19500, 7000)]"

record dash_achievement =
  da_id :: js_int
  da_title :: string
  da_description :: string
  da_earned :: string
  da_clickable :: bool
  da_points :: js_int

definition recentAchievements :: "dash_achievement list" where
  "recentAchievements =
     [\<lparr>da_id = 1, da_title = ''Budget Master'', da_description = ''Created your first budget'',
       da_earned = ''2 days ago'', da_clickable = True, da_points = 100\<rparr>,
      \<lparr>da_id = 2, da_title = ''Eco Warrior'', da_description = ''10 sustainable purchases'',
       da_earned = ''1 week ago'', da_clickable = True, da_points = 250\<rparr>,
      \<lparr>da_id = 3, da_title = ''Streak Champion'', da_description = ''7-day learning streak'',
       da_earned = ''3 days ago'', da_clickable = True, da_points = 150\<rparr>]"

record weekly_goal =
  wg_id :: js_int
  wg_title :: string
  wg_progress :: js_int
  wg_current :: js_int
  wg_target :: js_int
  wg_actionable :: bool
  wg_reward :: js_int

definition weeklyGoals :: "weekly_goal list" where
  "weeklyGoals =
     [\<lparr>wg_id = 1, wg_title = ''Complete 3 lessons'', wg_progress = 67, wg_current = 2, wg_target = 3,
       wg_actionable = True, wg_reward = 100\<rparr>,
      \<lparr>wg_id = 2, wg_title = ''Track daily expenses'', wg_progress = 86, wg_current = 6, wg_target = 7,
       wg_actionable = True, wg_reward = 50\<rparr>,
      \<lparr>wg_id = 3, wg_title = ''Make 2 sustainable purchases'', wg_progress = 50, wg_current = 1, wg_target = 2,
       wg_actionable = True, wg_reward = 75\<rparr>,
      \<lparr>wg_id = 4, wg_title = ''Save 15% of income'', wg_progress = 80, wg_current = 12, wg_target = 15,
       wg_actionable = False, wg_reward = 200\<rparr>]"

record quick_action =
  qa_id :: js_int
  qa_title :: string
  qa_color :: string
  qa_tab :: string
  qa_points :: js_int

definition quickActions :: "quick_action list" where
  "quickActions =
     [\<lparr>qa_id = 1, qa_title = ''Continue Learning'', qa_color = ''bg-blue-600 hover:bg-blue-700'', qa_tab = ''learn'',
       qa_points = 25\<rparr>,
      \<lparr>qa_id = 2, qa_title = ''Add Expense'', qa_color = ''border-purple-200 text-purple-700 hover:bg-purple-50'',
       qa_tab = ''budget'', qa_points = 10\<rparr>,
      \<lparr>qa_id = 3, qa_title = ''Log Eco Purchase'', qa_color = ''border-green-200 text-green-700 hover:bg-green-50'',
       qa_tab = ''sustainable'', qa_points = 15\<rparr>]"

record challenge =
  ch_id :: js_int
  ch_title :: string
  ch_description :: string
  ch_reward :: js_int
  ch_timeLeft :: string
  ch_difficulty :: string

definition upcomingChallenges :: "challenge list" where
  "upcomingChallenges =
     [\<lparr>ch_id = 1, ch_title = ''Weekend Saver Challenge'', ch_description = ''Spend less than Rs1000 this weekend'',
       ch_reward = 200, ch_timeLeft = ''2 days'', ch_difficulty = ''Medium''\<rparr>,
      \<lparr>ch_id = 2, ch_title = ''Green Shopping Spree'', ch_description = ''Make 3 eco-friendly purchases'',
       ch_reward = 150, ch_timeLeft = ''5 days'', ch_difficulty = ''Easy''\<rparr>,
      \<lparr>ch_id = 3, ch_title = ''Financial Quiz Master'', ch_description = ''Score 90%+ on investment quiz'',
       ch_reward = 300, ch_timeLeft = ''1 week'', ch_difficulty = ''Hard''\<rparr>]"

definition handleQuickAction :: "quick_action \<Rightarrow> app_state \<Rightarrow> dashboard_state \<Rightarrow> app_state \<times> dashboard_state" where
  "handleQuickAction action app s =
     (updateUserProfile (points_obj (obj_points (userProfile app) + qa_points action)) app,
      s\<lparr>completedAction := Some (qa_title action), pendingClears := Suc (pendingClears s)\<rparr>)"

text \<open>
  The events: a quick-action button (disabled while its action is marked done), the
  oldest pending two-second timeout, and the time-range buttons.
\<close>

datatype dash_event = QuickAction nat | ClearCompleted | SetTimeRange string

fun dash_step :: "app_state \<Rightarrow> dashboard_state \<Rightarrow> dash_event \<Rightarrow> app_state \<times> dashboard_state" where
  "dash_step app s (QuickAction i) =
     (if i < length quickActions \<and> completedAction s \<noteq> Some (qa_title (quickActions ! i))
      then handleQuickAction (quickActions ! i) app s else (app, s))"
| "dash_step app s ClearCompleted =
     (case pendingClears s of 0 \<Rightarrow> (app, s)
      | Suc n \<Rightarrow> (app, s\<lparr>completedAction := None, pendingClears := n\<rparr>))"
| "dash_step app s (SetTimeRange r) = (app, s\<lparr>timeRange := r\<rparr>)"

end
