(* ===== verification/Dashboard_View.thy ===== *)
theory Dashboard_View
  imports Dashboard
begin

text \<open>
  What the dashboard (\<open>src/Dashboard.tsx\<close>) renders from its state and the app's: the
  four statistic cards, the time-range buttons, the spending legend, the weekly goals with
  their reward total, the challenges and achievements, and the quick-action buttons with
  their done marker. Charts are drawn by the chart library from the constant series and
  are not modelled; formatting by \<open>toLocaleString\<close> is left out (the number is kept).
\<close>

record stat_cards =
  sc_level :: js_int
  sc_xp_bar :: rat
  sc_xp_caption :: "js_int \<times> js_int"
  sc_streak :: js_int
  sc_streak_dots :: "bool list"
  sc_points :: js_int
  sc_saved :: string

text \<open>
  The level card's bar is \<open>xp / xpToNext * 100\<close>; the streak card lights the dots
  \<open>i < streak % 7\<close> of \<open>[...Array(7)]\<close>.
\<close>

definition streak_dots :: "js_int \<Rightarrow> bool list" where
  "streak_dots k = map (\<lambda>i. int i < js_rem k 7) [0..<7]"

definition stat_cards_of :: "user_stats \<Rightarrow> stat_cards" where
  "stat_cards_of u =
     \<lparr>sc_level = us_level u, sc_xp_bar = of_int (us_xp u) / of_int (us_xpToNext u) * 100,
      sc_xp_caption = (us_xp u, us_xpToNext u), sc_streak = us_streak u,
      sc_streak_dots = streak_dots (us_streak u), sc_points = us_totalPoints u,
      sc_saved = ''Rs'' @ int_to_string (us_savedMoney u)\<rparr>"

text \<open>The two time-range buttons: the selected one has the \<open>default\<close> variant.\<close>

definition time_range_buttons :: "dashboard_state \<Rightarrow> (string \<times> bool) list" where
  "time_range_buttons s = map (\<lambda>r. (r, timeRange s = r)) [''7d'', ''30d'']"

definition spending_legend :: "string list" where
  "spending_legend = map (\<lambda>(n, v, amt, c). n @ '': '' @ int_to_string v @ ''%'') categorySpendingData"

text \<open>
  A goal shows \<open>current/target\<close> on a badge that is highlighted at progress 100, its
  reward, a \<open>Do\<close> button when it is actionable and below 100, and the completed line at
  100; the header sums the rewards with \<open>reduce\<close>.
\<close>

record goal_row =
  gr_title :: string
  gr_badge :: string
  gr_badge_default :: bool
  gr_reward :: string
  gr_do_button :: bool
  gr_bar :: js_int
  gr_completed :: bool

definition goal_row_of :: "weekly_goal \<Rightarrow> goal_row" where
  "goal_row_of g =
     \<lparr>gr_title = wg_title g, gr_badge = int_to_string (wg_current g) @ ''/'' @ int_to_string (wg_target g),
      gr_badge_default = (wg_progress g = 100), gr_reward = ''+'' @ int_to_string (wg_reward g) @ '' pts'',
      gr_do_button = (wg_actionable g \<and> wg_progress g < 100), gr_bar = wg_progress g,
      gr_completed = (wg_progress g = 100)\<rparr>"

definition goals_available :: "weekly_goal list \<Rightarrow> js_int" where
  "goals_available gs = foldl (\<lambda>acc g. acc + wg_reward g) 0 gs"

definition goals_card :: "js_int \<times> goal_row list" where
  "goals_card = (goals_available weeklyGoals, map goal_row_of weeklyGoals)"

definition challenge_rows :: "(string \<times> string \<times> string \<times> string \<times> string) list" where
  "challenge_rows =
     map (\<lambda>c. (ch_title c, ch_difficulty c, ch_description c, ch_timeLeft c @ '' left'',
               ''+'' @ int_to_string (ch_reward c) @ '' pts'')) upcomingChallenges"

text \<open>An achievement shows its points and age, and an arrow when it is clickable.\<close>

definition achievement_rows :: "(string \<times> string \<times> string \<times> string \<times> bool) list" where
  "achievement_rows =
     map (\<lambda>a. (da_title a, da_description a, ''+'' @ int_to_string (da_points a) @ '' pts'', da_earned a,
               da_clickable a)) recentAchievements"

text \<open>
  A quick-action button: disabled and covered by \<open>+points pts!\<close> while its title is the
  completed action; the first one has the \<open>default\<close> variant and its colour class.
\<close>

record action_button =
  ab_title :: string
  ab_disabled :: bool
  ab_overlay :: "string option"
  ab_default :: bool
  ab_caption :: string

definition action_button_of :: "dashboard_state \<Rightarrow> quick_action \<Rightarrow> action_button" where
  "action_button_of s a =
     (let done = (completedAction s = Some (qa_title a))
      in \<lparr>ab_title = qa_title a, ab_disabled = done,
          ab_overlay = (if done then Some (''+'' @ int_to_string (qa_points a) @ '' pts!'') else None),
          ab_default = (qa_id a = 1), ab_caption = ''+'' @ int_to_string (qa_points a) @ '' points''\<rparr>)"

definition action_buttons :: "dashboard_state \<Rightarrow> action_button list" where
  "action_buttons s = map (action_button_of s) quickActions"

subsection \<open>Lemmas\<close>

text \<open>
  The other click handlers only log: an achievement's details (its \<open>onClick\<close> runs only
  for a clickable one), a goal's \<open>Do\<close> button, and joining a challenge.
\<close>

definition handleAchievementClick :: "dash_achievement \<Rightarrow> string option" where
  "handleAchievementClick a = (if da_clickable a then Some (''Showing details for '' @ da_title a) else None)"

definition handleGoalAction :: "weekly_goal \<Rightarrow> string" where
  "handleGoalAction g = ''Taking action for goal: '' @ wg_title g"

definition handleChallengeJoin :: "challenge \<Rightarrow> string" where
  "handleChallengeJoin c = ''Joining challenge: '' @ ch_title c"

lemma count_below: "length (filter (\<lambda>i. int i < m) [0..<n]) = nat (min (max m 0) (int n))"
  by (induction n) auto

text \<open>
  The streak dots count the days past the last full week: a streak of 7, 14, ... days
  lights no dot at all.
\<close>

lemma streak_dots_lit:
  "0 \<le> k \<Longrightarrow> length (filter id (streak_dots k)) = nat (k mod 7)"
  unfolding streak_dots_def js_rem_def by (simp add: count_below comp_def)

lemma streak_week_unlit:
  "streak_dots 7 = [False, False, False, False, False, False, False] \<and>
   streak_dots 6 = [True, True, True, True, True, True, False]"
  by (simp add: streak_dots_def js_rem_def upt_rec)

text \<open>
  The level bar divides by a constant 3000, while the server raises the level every 1000
  XP: from 3000 XP on the bar is full whatever the progress to the next level.
\<close>

lemma xp_bar_full:
  assumes "userProfile app = Some ob" and "upd_total_xp ob = Some (Some x)" and "3000 \<le> x"
  shows "100 \<le> sc_xp_bar (stat_cards_of (userStats app))"
  using assms by (simp add: stat_cards_of_def userStats_def or_default_num_def)

text \<open>The rendered \<open>disabled\<close> of a quick action is exactly the guard of \<open>dash_step\<close>.\<close>

lemma action_button_disabled_iff_ignored:
  assumes "i < length quickActions"
  shows "ab_disabled (action_buttons s ! i) \<longleftrightarrow> dash_step app s (QuickAction i) = (app, s)"
  using assms
  by (auto simp: action_buttons_def action_button_of_def Let_def handleQuickAction_def
      dest!: arg_cong[where f = pendingClears])

end
