(* ===== verification/Budget_View.thy ===== *)
theory Budget_View
  imports Budget
begin

text \<open>
  The events and the rendering of the budgeting tab (\<open>src/BudgetingTools.tsx\<close>): the
  form's \<open>onChange\<close> handlers and the add button, the overview card, the category
  breakdown with its status icons, the savings goals and the transaction list. Dates are
  read through the parameters \<open>month_of\<close> and \<open>time_of\<close> as in \<open>Budget\<close>;
  \<open>toLocaleDateString\<close> and \<open>toLocaleString\<close> are formatting and not modelled.
\<close>

datatype budget_event =
    EditExpenseCategory string
  | EditExpenseAmount "rat option"
  | EditExpenseDescription string
  | AddExpenseClick

fun budget_step ::
  "env \<Rightarrow> string option \<Rightarrow> string \<Rightarrow> app_state \<Rightarrow> budget_state \<Rightarrow> store \<Rightarrow> budget_event \<Rightarrow>
   (app_state \<times> budget_state \<times> toast list) \<times> store" where
  "budget_step e session now app s st (EditExpenseCategory v) =
     ((app, s\<lparr>newExpense := (newExpense s)\<lparr>form_category := v\<rparr>\<rparr>, []), st)"
| "budget_step e session now app s st (EditExpenseAmount v) =
     ((app, s\<lparr>newExpense := (newExpense s)\<lparr>form_amount := v\<rparr>\<rparr>, []), st)"
| "budget_step e session now app s st (EditExpenseDescription v) =
     ((app, s\<lparr>newExpense := (newExpense s)\<lparr>form_description := v\<rparr>\<rparr>, []), st)"
| "budget_step e session now app s st AddExpenseClick =
     (if addingExpense s then ((app, s, []), st) else handleAddExpense e session now app s st)"

subsection \<open>What the tab shows\<close>

text \<open>The overview card: total, spent this month, remaining, and the bar \<open>spent / total * 100\<close>.\<close>

definition overview_card :: "(string \<Rightarrow> int \<times> int) \<Rightarrow> int \<times> int \<Rightarrow> expense list \<Rightarrow> js_int \<times> rat \<times> rat \<times> rat" where
  "overview_card month_of current exps =
     (monthly_total, monthly_spent month_of current exps, monthly_remaining month_of current exps,
      monthly_spent month_of current exps / of_int monthly_total * 100)"

datatype status_icon = DangerIcon | WarningIcon | GoodIcon

definition status_icon_of :: "string \<Rightarrow> status_icon option" where
  "status_icon_of status =
     (if status = ''danger'' then Some DangerIcon else if status = ''warning'' then Some WarningIcon
      else if status = ''good'' then Some GoodIcon else None)"

record category_row =
  cr_name :: string
  cr_spent :: rat
  cr_budget :: js_int
  cr_icon :: "status_icon option"
  cr_bar :: rat

definition category_row_of :: "expense list \<Rightarrow> string \<times> js_int \<Rightarrow> category_row" where
  "category_row_of exps c =
     (let spent = category_spent (fst c) exps
      in \<lparr>cr_name = fst c, cr_spent = spent, cr_budget = snd c,
          cr_icon = status_icon_of (getSpendingStatus spent (snd c)), cr_bar = spent / of_int (snd c) * 100\<rparr>)"

text \<open>The breakdown shows a spinner while loading, the category rows otherwise.\<close>

definition category_breakdown :: "budget_state \<Rightarrow> category_row list option" where
  "category_breakdown s =
     (if budget_loading s then None else Some (map (category_row_of (expenses s)) category_budgets))"

definition goal_rows :: "(string \<times> js_int \<times> js_int \<times> rat \<times> js_int \<times> js_int) list" where
  "goal_rows =
     map (\<lambda>g. let pct = of_int (goal_current g) / of_int (goal_target g) * 100
              in (goal_name g, goal_current g, goal_target g, pct, toFixed0 pct, goal_target g - goal_current g))
       savingsGoals"

datatype transactions_view = TxLoading | TxEmpty | TxRows "(string \<times> string \<times> string \<times> rat) list"

definition transactions_view_of :: "(string \<Rightarrow> int) \<Rightarrow> budget_state \<Rightarrow> transactions_view" where
  "transactions_view_of time_of s =
     (if budget_loading s then TxLoading
      else (let txs = recentTransactions time_of (expenses s)
            in if txs = [] then TxEmpty
               else TxRows (map (\<lambda>x. (description x, expense_category x, expense_date x, expense_amount x)) txs)))"

subsection \<open>Lemmas\<close>

lemma monthly_spent_sum:
  "monthly_spent month_of current exps =
     sum_list (map expense_amount (filter (\<lambda>x. month_of (expense_date x) = current) exps))"
  by (simp add: monthly_spent_def foldl_if_add)

lemma category_spent_sum:
  "category_spent cat exps = sum_list (map expense_amount (filter (\<lambda>x. expense_category x = cat) exps))"
  by (simp add: category_spent_def foldl_add)

text \<open>
  The overview counts the expenses of the current month, the category breakdown all of
  them: an expense of an earlier month adds to its category's spending against this
  month's category budget, and not to the month's spending.
\<close>

lemma category_counts_other_months:
  assumes "month_of (expense_date x) \<noteq> current"
  shows "monthly_spent month_of current (x # xs) = monthly_spent month_of current xs \<and>
         category_spent (expense_category x) (x # xs) = expense_amount x + category_spent (expense_category x) xs"
  using assms by (simp add: monthly_spent_sum category_spent_sum)

text \<open>A form edit changes neither the store nor the app state.\<close>

lemma budget_step_edit_store:
  "ev \<noteq> AddExpenseClick \<Longrightarrow>
     snd (budget_step e session now app s st ev) = st \<and> fst (fst (budget_step e session now app s st ev)) = app"
  by (cases ev) auto

end
