(* ===== verification/Eco_View.thy ===== *)
theory Eco_View
  imports Eco_Tracker Dashboard
begin

text \<open>
  The events and the rendering of the sustainability tab (\<open>src/SustainableTracker.tsx\<close>):
  the form's \<open>onChange\<close> handlers, which spread one field over \<open>newPurchase\<close>; the
  submit and tip buttons; and what the statistic cards and the four lists show. The
  amount input is \<open>type="number"\<close>, so its value is a number or empty (\<open>None\<close>); the
  rating slider gives \<open>parseInt\<close> of a value between 1 and 5.
\<close>

datatype eco_event =
    EditItem string
  | EditAmount "rat option"
  | EditCategory string
  | EditRating js_int
  | AddPurchase
  | TipAction nat

fun eco_step ::
  "env \<Rightarrow> string option \<Rightarrow> app_state \<Rightarrow> eco_tracker_state \<Rightarrow> store \<Rightarrow> eco_event \<Rightarrow>
   (app_state \<times> eco_tracker_state \<times> toast list) \<times> store" where
  "eco_step e session app s st (EditItem v) = ((app, s\<lparr>newPurchase := (newPurchase s)\<lparr>pf_item := v\<rparr>\<rparr>, []), st)"
| "eco_step e session app s st (EditAmount v) = ((app, s\<lparr>newPurchase := (newPurchase s)\<lparr>pf_amount := v\<rparr>\<rparr>, []), st)"
| "eco_step e session app s st (EditCategory v) =
     ((app, s\<lparr>newPurchase := (newPurchase s)\<lparr>pf_category := v\<rparr>\<rparr>, []), st)"
| "eco_step e session app s st (EditRating v) =
     ((app, s\<lparr>newPurchase := (newPurchase s)\<lparr>pf_ecoRating := v\<rparr>\<rparr>, []), st)"
| "eco_step e session app s st AddPurchase =
     (if addingPurchase s then ((app, s, []), st) else handleAddPurchase e session app s st)"
| "eco_step e session app s st (TipAction i) =
     (if i < length ecoTips then ((app, s, handleTipAction (ecoTips ! i)), st) else ((app, s, []), st))"

subsection \<open>What the tab shows\<close>

record eco_cards =
  ec_points :: js_int
  ec_goal_bar :: rat
  ec_goal_caption :: "js_int \<times> js_int"
  ec_carbon :: rat
  ec_trees :: js_int
  ec_rank :: string
  ec_level :: js_int

definition eco_cards_of :: "app_state \<Rightarrow> eco_cards" where
  "eco_cards_of app =
     (let v = ecoStats_view app
      in \<lparr>ec_points = totalEcoPoints v, ec_goal_bar = of_int (totalEcoPoints v) / of_int (monthlyGoal v) * 100,
          ec_goal_caption = (totalEcoPoints v, monthlyGoal v), ec_carbon = carbonSaved v,
          ec_trees = treesEquivalent v, ec_rank = ecoRank v,
          ec_level = or_default_num (case userProfile app of None \<Rightarrow> None | Some p \<Rightarrow> upd_level p) 7\<rparr>)"

definition category_rows :: "(string \<times> string \<times> string \<times> string) list" where
  "category_rows =
     map (\<lambda>c. (cat_name c, cat_impact c, int_to_string (cat_points c) @ '' pts'',
               int_to_string (cat_purchases c) @ '' purchases'')) sustainableCategories"

definition purchase_rows :: "(string \<times> string \<times> string \<times> string) list" where
  "purchase_rows =
     map (\<lambda>p. (ep_item p, ep_category p @ '' - '' @ ep_impact p, ''Rs'' @ int_to_string (ep_amount p),
               ''+'' @ int_to_string (ep_ecoPoints p) @ '' pts'')) recentEcoPurchases"

definition tip_rows :: "(string \<times> string \<times> string) list" where
  "tip_rows = map (\<lambda>t. (tip_text t, ''+'' @ int_to_string (tip_points t) @ '' pts'', tip_action t)) ecoTips"

definition reward_rows :: "(string \<times> string \<times> bool \<times> string) list" where
  "reward_rows =
     map (\<lambda>r. (reward_name r, reward_description r, achieved r, int_to_string (reward_points r) @ '' pts'')) rewards"

subsection \<open>Lemmas\<close>

text \<open>
  A form edit or a tip changes neither the store nor the app state: only the submit
  button talks to the server.
\<close>

lemma eco_step_edit_store:
  "e' \<noteq> AddPurchase \<Longrightarrow> snd (eco_step e session app s st e') = st \<and> fst (fst (eco_step e session app s st e')) = app"
  by (cases e') auto

text \<open>
  The card labelled with eco points shows the profile's total points, whatever earned
  them: a dashboard quick action that awards 25 points for learning raises it by 25.
\<close>

lemma eco_card_counts_any_points:
  assumes "obj_points (userProfile app) + 25 \<noteq> 0"
  shows "ec_points (eco_cards_of (fst (handleQuickAction (quickActions ! 0) app ds))) =
         obj_points (userProfile app) + 25"
  using assms by (simp add: eco_cards_of_def ecoStats_view_def handleQuickAction_def quickActions_def Let_def)

end
