(* ===== verification/World.thy ===== *)
theory World
  imports App_View Dashboard_View Learning_View Budget_View Eco_View Leaderboard_View User_Profile Server_Invariants
begin

text \<open>
  The whole application: the root component, the state of each tab, and the server's
  store, stepped by one user-interface event at a time. The tabs are Radix \<open>Tabs\<close>, which
  mount only the active tab's content: switching tabs unmounts the others, so their
  \<open>useState\<close> hooks start again from their initial values when they are shown again. A
  lesson timer already scheduled still fires after its tab is unmounted (its callback
  calls the root's \<open>updateUserProfile\<close>), so the pending lesson rewards are kept. The
  mount effect of the budget tab (\<open>loadExpenses\<close>) and the leaderboard's events
  (\<open>lb_step\<close>: search, refresh, its own tabs and the 30 s interval) are allowed while
  their tab is shown. The quiz modal is mounted while the learning tab shows it
  (\<open>quiz_modal_props\<close>); it then starts from its initial state, takes the quiz events
  (\<open>quiz_step\<close> on the module's questions), and blocks the tab's other controls, being a
  modal dialog. The \<open>onComplete\<close> calls it schedules are pending two-second timeouts,
  which fire (\<open>QuizCallback\<close>) even after the modal is closed. Each step gets the runtime values of
  its requests (\<open>env\<close>), the session token the API layer reads, and the client clock.
\<close>

record world =
  w_app :: app_state
  w_dash :: dashboard_state
  w_lm :: lm_state
  w_budget :: budget_state
  w_eco :: eco_tracker_state
  w_lb :: lb_view_state
  w_up :: up_state
  w_quiz :: quiz_state
  w_quiz_callbacks :: "(js_int \<times> js_int) list"
  w_store :: store
  w_toasts :: "toast list"

definition initial_world :: "store \<Rightarrow> world" where
  "initial_world st =
     \<lparr>w_app = initial_app, w_dash = initial_dashboard, w_lm = initial_lm, w_budget = initial_budget,
      w_eco = initial_eco_tracker, w_lb = initial_lb_view, w_up = initial_up,
      w_quiz = initial_quiz, w_quiz_callbacks = [], w_store = st, w_toasts = []\<rparr>"

datatype world_event =
    Shell app_event
  | Dash dash_event
  | Learn lm_event
  | QuizEv quiz_event
  | QuizCallback
  | BudgetEv budget_event
  | LoadExpenses
  | EcoEv eco_event
  | BoardEv lb_event
  | ToggleEdit

text \<open>A tab's controls exist only while the user is signed in and the tab is shown.\<close>

definition shown :: "string \<Rightarrow> world \<Rightarrow> bool" where
  "shown t w \<longleftrightarrow> app_user (w_app w) \<noteq> None \<and> \<not> app_loading (w_app w) \<and> activeTab (w_app w) = t"

text \<open>
  Switching to another tab, signing out or signing in changes the screen and remounts the
  tabs: their hooks start again.
\<close>

definition remount :: "world \<Rightarrow> world" where
  "remount w =
     w\<lparr>w_dash := initial_dashboard, w_lm := initial_lm\<lparr>pendingLessonTimers := pendingLessonTimers (w_lm w)\<rparr>,
       w_budget := initial_budget, w_eco := initial_eco_tracker, w_lb := initial_lb_view, w_up := initial_up\<rparr>"

fun world_step :: "env \<Rightarrow> string option \<Rightarrow> string \<Rightarrow> world \<Rightarrow> world_event \<Rightarrow> world" where
  "world_step e session now w (Shell ev) =
     (let (a, st) = app_step e (w_app w) (w_store w) ev;
          w' = w\<lparr>w_app := a, w_store := st\<rparr>
      in if app_screen_of a \<noteq> app_screen_of (w_app w) then remount w' else w')"
| "world_step e session now w (Dash ev) =
     (if shown ''dashboard'' w
      then (let (a, d) = dash_step (w_app w) (w_dash w) ev in w\<lparr>w_app := a, w_dash := d\<rparr>) else w)"
| "world_step e session now w (Learn ev) =
     (if (shown ''learn'' w \<and> (quiz_modal_props (w_lm w) = None \<or> ev = CloseQuiz)) \<or> ev = LessonTimer
      then (let (a, l, ts) = lm_step (w_app w) (w_lm w) ev
            in w\<lparr>w_app := a, w_lm := l, w_toasts := w_toasts w @ ts,
                  w_quiz := (if quiz_modal_props l \<noteq> None \<and> quiz_modal_props (w_lm w) = None
                             then initial_quiz else w_quiz w)\<rparr>) else w)"
| "world_step e session now w (QuizEv ev) =
     (case quiz_modal_props (w_lm w) of
        Some (_, qs) \<Rightarrow>
          if shown ''learn'' w
          then (let (q, outs) = quiz_step qs (w_quiz w) ev
                in w\<lparr>w_quiz := q, w_quiz_callbacks := w_quiz_callbacks w @ outs\<rparr>) else w
      | None \<Rightarrow> w)"
| "world_step e session now w QuizCallback =
     (case w_quiz_callbacks w of
        [] \<Rightarrow> w
      | (sc, xp) # cbs \<Rightarrow>
          (let ((a, l, ts), st) = handleQuizComplete e session sc xp (w_app w) (w_lm w) (w_store w)
           in w\<lparr>w_app := a, w_lm := l, w_store := st, w_toasts := w_toasts w @ ts, w_quiz_callbacks := cbs\<rparr>))"
| "world_step e session now w (BudgetEv ev) =
     (if shown ''budget'' w
      then (let ((a, b, ts), st) = budget_step e session now (w_app w) (w_budget w) (w_store w) ev
            in w\<lparr>w_app := a, w_budget := b, w_store := st, w_toasts := w_toasts w @ ts\<rparr>) else w)"
| "world_step e session now w LoadExpenses =
     (if shown ''budget'' w
      then (let ((b, ts), st) = loadExpenses e session (w_budget w) (w_store w)
            in w\<lparr>w_budget := b, w_store := st, w_toasts := w_toasts w @ ts\<rparr>) else w)"
| "world_step e session now w (EcoEv ev) =
     (if shown ''sustainable'' w
      then (let ((a, s, ts), st) = eco_step e session (w_app w) (w_eco w) (w_store w) ev
            in w\<lparr>w_app := a, w_eco := s, w_store := st, w_toasts := w_toasts w @ ts\<rparr>) else w)"
| "world_step e session now w (BoardEv ev) =
     (if shown ''leaderboard'' w
      then (let (l, st) = lb_step e session (w_app w) (w_lb w) (w_store w) ev
            in w\<lparr>w_lb := l, w_store := st\<rparr>) else w)"
| "world_step e session now w ToggleEdit =
     (if shown ''profile'' w then w\<lparr>w_up := toggleEditing (w_up w)\<rparr> else w)"

text \<open>A run: each event with the runtime values, session token and clock of its moment.\<close>

fun world_run :: "world \<Rightarrow> (env \<times> string option \<times> string \<times> world_event) list \<Rightarrow> world" where
  "world_run w [] = w"
| "world_run w ((e, session, now, ev) # evs) = world_run (world_step e session now w ev) evs"

subsection \<open>Every run keeps the store invariants\<close>

text \<open>A session of one user, for the examples: runtime values and the identity service.\<close>

definition world_env :: env where
  "world_env = \<lparr>env_getUser = (\<lambda>t. if t = ''tok'' then Some ''alice'' else None),
                env_createUser = Inr (Some ''alice''), env_now = ''2024-12-20T10:00:00Z'', env_fresh = ''x1''\<rparr>"

definition world_session :: "world_event \<Rightarrow> env \<times> string option \<times> string \<times> world_event" where
  "world_session ev = (world_env, Some ''tok'', ''2024-12-20T10:00:00Z'', ev)"

definition world_store0 :: store where
  "world_store0 =
     [(profile_key ''alice'', VProfile \<lparr>user_id = ''alice'', name = ''Alice'', email = ''alice@example.com'',
        level = Some 1, total_xp = Some 200, streak_days = Some 3, total_points = Some 100,
        created_at = ''2024-12-01T09:00:00Z'', updated_at = ''2024-12-01T09:00:00Z''\<rparr>)]"












lemma w_store_remount [simp]: "w_store (remount w) = w_store w"
  by (simp add: remount_def)






subsection \<open>A whole session\<close>

text \<open>
  One session end to end: Alice (200 XP stored) signs in, opens the learning tab, starts
  the quiz of module 2, answers both questions correctly and the completion callback
  fires. The app adds the quiz total (60 points, 100 perfect bonus, 50 speed bonus) to
  her local XP, 410; the server adds 6 lessons times 25 to the stored XP, 350.
\<close>

lemma world_quiz_scenario:
  "let w = world_run (initial_world world_store0) (map world_session
     [Shell (RunCheckAuth (None, Some (''alice'', ''tok''))), Shell (SelectTab ''learn''),
      Learn (StartQuizOf 2), QuizEv Opened, QuizEv (SelectAnswer 1), QuizEv NextQuestion,
      QuizEv (SelectAnswer 1), QuizEv NextQuestion, QuizCallback])
   in obj_xp (userProfile (w_app w)) = 410 \<and>
      map_option total_xp (as_profile (kv_get (w_store w) (profile_key ''alice''))) = Some (Some 350) \<and>
      w_quiz_callbacks w = []"
  by code_simp

end
