(* ===== verification/Spec2Isabelle.thy ===== *)
theory Spec2Isabelle
  imports Quiz_Properties Server_Properties Leaderboard_Properties Client_Properties Concurrency_Properties
    Client_Types User_Profile Leaderboard_View Learning_View World
begin

text \<open>
  \<^bold>\<open>A verification development of yagna, a gamified personal-finance learning app.\<close>

  \<^bold>\<open>The program.\<close> A React front end (\<open>src/App.tsx\<close> and the tabs \<open>Dashboard\<close>,
  \<open>LearningModules\<close> with its \<open>QuizModal\<close>, \<open>BudgetingTools\<close>,
  \<open>SustainableTracker\<close>, \<open>Leaderboard\<close>, \<open>UserProfile\<close>) calls, through
  \<open>src/api.ts\<close>, a serverless Hono API (\<open>src/index.tsx\<close>) that keeps every document in
  a key-value store and delegates identity to Supabase auth; \<open>src/client.ts\<close> declares
  the types of the stored documents. The app holds a local copy of the user's profile;
  every tab awards points or XP by merging an update into that copy
  (\<open>App.updateUserProfile\<close>), and some of them also call a route that changes the stored
  profile. The quiz modal is the one component with real control flow: a countdown,
  answer scoring with streaks and bonuses, and a delayed completion callback that the
  learning tab turns into a progress save.

  \<^bold>\<open>Theories and correspondence.\<close>
  \<^item> \<open>Prelude\<close>: the collections \<open>handler_defs\<close> and \<open>inv_simps\<close> and the JavaScript
    idioms the components share: \<open>x || 0\<close> (\<open>or_zero\<close>), spread of one field
    (\<open>spread_field\<close>), numbers in template literals (\<open>int_to_string\<close>),
    \<open>Array.prototype.sort\<close> as a stable insertion sort (\<open>js_sort\<close>), \<open>toFixed(0)\<close>
    (\<open>toFixed0\<close>), and the list lemmas on \<open>reduce\<close>-style folds.
  \<^item> \<open>Quiz\<close> (\<open>src/QuizModal.tsx\<close>): the \<open>useState\<close> hooks are the record
    \<open>quiz_state\<close>; each handler (\<open>handleAnswerSelect\<close>, \<open>handleNextQuestion\<close>,
    \<open>completeQuiz\<close>, \<open>handleTimeUp\<close>, \<open>handleRestart\<close>), the interval callback
    \<open>tick\<close> and the two effects are definitions returning the new state and the
    \<open>onComplete\<close> calls scheduled. \<open>quiz_step\<close> is one event on a rendered, enabled
    control (\<open>quiz_enabled\<close>, from the JSX) followed by the re-render loop \<open>settle\<close>.
    \<open>Quiz_Invariants\<close> has the reachable states (inductive \<open>quiz_reachable\<close>) and the
    invariant \<open>quiz_inv\<close>; \<open>Quiz_Properties\<close> holds C1--C14.
  \<^item> \<open>KV_Store\<close>: the store (\<open>kv_store.tsx\<close>, outside the sources, from the spec) as an
    association list with \<open>kv_get\<close>, \<open>kv_set\<close>, \<open>kv_getByPrefix\<close>.
  \<^item> \<open>Server\<close> (\<open>src/index.tsx\<close>): documents are records, the store holds the sum
    \<open>kv_value\<close>; each route is a definition from the token header, the parsed body
    (\<open>None\<close> when \<open>c.req.json()\<close> throws) and the runtime values in \<open>env\<close> (clock,
    UUID, identity service) to the response and the new store; \<open>serve\<close> dispatches.
    \<open>Server_Invariants\<close> has the store invariants (\<open>store_ok\<close>, \<open>levels_ok\<close>,
    \<open>badges_distinct\<close>, \<open>owners_ok\<close>), the reachable stores \<open>server_reachable\<close> and
    the per-route lemmas; \<open>Server_Properties\<close> holds C15--C24.
  \<^item> \<open>Concurrency\<close> (\<open>src/index.tsx\<close> again): the routes that read the store and
    write it later (\<open>POST /achievements\<close>, \<open>/eco-actions\<close>, \<open>/learning/progress\<close>
    with \<open>updateUserXP\<close>, \<open>updateUserPoints\<close>, \<open>updateUserEcoStats\<close>) split at
    their awaited store calls into the datatype \<open>thread\<close>, one store call per
    \<open>thread_step\<close>. The runtime may run the threads of requests in flight in any order:
    \<open>conc_step\<close> is that scheduler (an inductive relation), \<open>run_schedule\<close> one
    schedule, \<open>run_alone\<close> a thread with no other in flight (a \<open>function\<close> whose
    termination measure is \<open>thread_rank\<close>, the store calls left).
    \<open>Concurrency_Properties\<close> holds C34--C37.
  \<^item> \<open>Api\<close> (\<open>src/api.ts\<close>): \<open>makeRequest\<close> and the endpoints, composed with
    \<open>serve\<close>, so a client call and its effect on the store are one step; \<open>signIn\<close>,
    \<open>signOut\<close> and \<open>getCurrentSession\<close> with the Supabase auth answer as an input.
  \<^item> \<open>Client_Types\<close> (\<open>src/client.ts\<close>): the declared document types as field lists,
    the JSON objects the routes store (\<open>doc_json\<close>), and the structural check
    \<open>conforms\<close>; it holds C38.
  \<^item> \<open>App\<close>, \<open>Learning\<close>, \<open>Budget\<close>, \<open>Eco_Tracker\<close>, \<open>Dashboard\<close>,
    \<open>Leaderboard\<close>, \<open>User_Profile\<close>: the root component and the tabs, each with its hooks
    as a record, its constant data, and its handlers taking the app state, the tab state
    and the store. Timeouts that fire later (the lesson reward, the dashboard's done
    marker) are pending events in the state, carrying what their closure captured.
    \<open>App_View\<close>, \<open>Quiz_View\<close>, \<open>Learning_View\<close>, \<open>Leaderboard_View\<close>,
    \<open>Dashboard_View\<close>, \<open>Eco_View\<close> and \<open>Budget_View\<close> hold what those components
    render, one definition per list or card of the JSX computing the values it shows, and
    the controls as events (\<open>app_step\<close>, \<open>eco_step\<close>, \<open>budget_step\<close>, \<open>lb_step\<close>);
    click handlers that only log return their log line. \<open>Leaderboard_Properties\<close>
    holds C25--C28, \<open>Client_Properties\<close> C29--C33 and C39.
  \<^item> \<open>World\<close>: the whole app as one state (the root, every tab, the quiz modal, the
    store) stepped by user-interface events (\<open>world_step\<close>): the shell's events, each
    tab's events while it is shown, the budget tab's mount effect, the quiz modal's events
    while the learning tab mounts it, its pending \<open>onComplete\<close> timeouts and the lesson
    timers; changing the screen remounts the tabs, as Radix \<open>Tabs\<close> does. It holds C40
    and a whole session evaluated end to end (\<open>world_quiz_scenario\<close>).

  \<^bold>\<open>What is proved.\<close> Quiz: the score invariant, completion by answering or by time-out,
  exactly one completion report, freezing after completion, streak and bonus rules,
  bounds on the total and the timer, restart, and the spec's worked example. API: on every
  reachable store, distinct keys of the right kind, unique badges per user, and a user
  reads only their own progress; unauthenticated requests are rejected without effect;
  the XP, points and eco statistics each route writes; the level invariant holds for all
  routes but \<open>PUT /profile\<close>. Leaderboard: the sort equals the stable \<open>sort_key\<close>,
  ranks and cut-off are right, the search is a substring test. Client: which handlers
  keep the local and stored profiles in step and which do not; what the client stores
  through the API it reads back (C39). Types: the stored achievements, eco actions and
  expenses have the shape \<open>client.ts\<close> declares (C38). Concurrency: a request alone
  refines the atomic handler (C34), every interleaving ends (C35), and two interleavings
  break what the atomic model guarantees (C36, C37). Whole app: every run of
  user-interface events keeps the store invariants (C40), because every handler that
  touches the store does so through one \<open>serve\<close> call.

  \<^bold>\<open>Findings\<close> (theorems): an empty quiz pays the perfect bonus (C13), and modules 3
  and 4 open such a quiz (\<open>modules_with_empty_quiz\<close>); \<open>PUT /profile\<close> lets a client
  set its level and points (C20); progress saves award XP again each time (C22); the
  expense award is local only (C30); a quiz moves local and stored XP apart (C31); the
  Quiz Master toast is unreachable (C32); the lesson reward's stale closure loses quiz XP
  (C33); the fallback leaderboard misranks the user (\<open>mock_leaderboard_misranks\<close>);
  two concurrent requests for one badge both store it (C36); two concurrent purchases
  lose one update of the eco statistics and points (C37); stored profiles and progress
  records lack the \<open>id\<close> their declared types require (C38); the profile page ignores
  the user and shows a level the server's rule would not give
  (\<open>profile_page_level_not_server_level\<close>); with the server's answer every leaderboard
  row prints \<open>NaN\<close> as its rank change (\<open>server_rows_show_NaN\<close>); a 7-day streak
  lights no streak dot on the dashboard (\<open>streak_week_unlit\<close>); the category
  breakdown of the budget counts the expenses of every month against one month's budget
  (\<open>category_counts_other_months\<close>); the eco points card shows the points earned
  anywhere (\<open>eco_card_counts_any_points\<close>); no catalogue quiz, even perfect, earns
  the results screen's two best messages (\<open>quiz_message_never_great\<close>); the modules
  advertise 12, 10, 15 and 8 questions and open quizzes of 3, 2, 0 and 0
  (\<open>advertised_vs_actual_questions\<close>).

  \<^bold>\<open>Bounds and fuel.\<close> \<open>settle\<close> gets fuel 3; C14 shows any fuel from 2 gives the same
  result, so the model never stops a re-render loop early. The split handlers need no
  fuel: each step lowers \<open>thread_rank\<close>, so every run ends (C35). Numbers are JavaScript
  numbers on integers (\<open>int\<close>); amounts are exact rationals.

  \<^bold>\<open>Not modelled.\<close> Rendering and styling (the views model only the values the JSX
  computes) and the charts, drawn by a library from constant series; number formatting
  (\<open>toLocaleString\<close>, \<open>toLocaleDateString\<close>); \<open>createClient\<close> in \<open>src/client.ts\<close>, a
  library call; the auth modal's own form (\<open>AuthModal\<close> is not under \<open>src/\<close>; its
  success callback is the event \<open>RunCheckAuth\<close>); CORS and logging middleware; the
  identity service, clock and date parsing, which are inputs. In \<open>World\<close> a quiz
  completion callback that fires after the learning tab was unmounted reads the current
  learning state, where the real callback would use the unmounted tab's last state.
  The concurrency model splits the handlers that award points or XP after a read;
  sign-up, the reads and \<open>PUT /profile\<close> stay atomic steps of \<open>serve\<close>, so the race of
  \<open>PUT /profile\<close>'s own read and write with the split handlers is not modelled.
\<close>

end
